theory Spec2Isabelle
  imports Main "HOL-Library.Sublist"
begin

section \<open>Python strings\<close>

text \<open>
  A Python \<open>str\<close> is modelled by the list of bytes of its UTF-8 encoding, which is what
  \<open>open(file_path, 'w', encoding='utf-8')\<close> puts on disk. ASCII text is written as a HOL
  string literal; a code point beyond ASCII is written \<open>utf8 0x...\<close> with its number.
\<close>

definition utf8 :: "nat \<Rightarrow> string" where
  "utf8 c =
     (if c < 0x80 then [char_of c]
      else if c < 0x800 then [char_of (0xC0 + c div 0x40), char_of (0x80 + c mod 0x40)]
      else if c < 0x10000 then
        [char_of (0xE0 + c div 0x1000), char_of (0x80 + c div 0x40 mod 0x40),
         char_of (0x80 + c mod 0x40)]
      else
        [char_of (0xF0 + c div 0x40000), char_of (0x80 + c div 0x1000 mod 0x40),
         char_of (0x80 + c div 0x40 mod 0x40), char_of (0x80 + c mod 0x40)])"

text \<open>\<open>str(n)\<close> for a non-negative integer.\<close>

function str_nat :: "nat \<Rightarrow> string" where
  "str_nat n = (if n < 10 then [char_of (48 + n)] else str_nat (n div 10) @ [char_of (48 + n mod 10)])"
  by pat_completeness auto
termination
  by (relation "measure id") auto

declare str_nat.simps [simp del]

text \<open>\<open>s.split(sep)\<close> for a separator of one character.\<close>

fun split_on :: "char \<Rightarrow> string \<Rightarrow> string list" where
  "split_on sep [] = [[]]"
| "split_on sep (c # cs) =
     (if c = sep then [] # split_on sep cs
      else (case split_on sep cs of [] \<Rightarrow> [[c]] | w # ws \<Rightarrow> (c # w) # ws))"

text \<open>\<open>sub in s\<close>.\<close>

fun contains :: "string \<Rightarrow> string \<Rightarrow> bool" where
  "contains sub [] = (sub = [])"
| "contains sub (c # cs) = (prefix sub (c # cs) \<or> contains sub cs)"

text \<open>
  \<open>s.strip()\<close> removes the characters for which \<open>str.isspace\<close> holds from both ends.
\<close>

definition whitespace :: "string list" where
  "whitespace = map utf8
     [0x09, 0x0A, 0x0B, 0x0C, 0x0D, 0x1C, 0x1D, 0x1E, 0x1F, 0x20, 0x85, 0xA0, 0x1680,
      0x2000, 0x2001, 0x2002, 0x2003, 0x2004, 0x2005, 0x2006, 0x2007, 0x2008, 0x2009, 0x200A,
      0x2028, 0x2029, 0x202F, 0x205F, 0x3000]"

function lstrip_with :: "string list \<Rightarrow> string \<Rightarrow> string" where
  "lstrip_with ws s =
     (case find (\<lambda>w. prefix w s) ws of
        None \<Rightarrow> s
      | Some w \<Rightarrow> if w = [] then s else lstrip_with ws (drop (length w) s))"
  by pat_completeness auto
termination
  by (relation "measure (\<lambda>(ws, s). length s)") (auto simp: find_Some_iff prefix_def)

declare lstrip_with.simps [simp del]

definition strip :: "string \<Rightarrow> string" where
  "strip s = rev (lstrip_with (map rev whitespace) (rev (lstrip_with whitespace s)))"

text \<open>
  \<open>os.path.dirname\<close> of \<open>posixpath\<close>: the text up to the last slash, without the
  slashes that end it unless it is made of slashes only.
\<close>

definition dirname :: "string \<Rightarrow> string" where
  "dirname p =
     (let head = rev (dropWhile (\<lambda>c. c \<noteq> CHR ''/'') (rev p)) in
      if head \<noteq> [] \<and> filter (\<lambda>c. c \<noteq> CHR ''/'') head \<noteq> []
      then rev (dropWhile (\<lambda>c. c = CHR ''/'') (rev head))
      else head)"

section \<open>Exceptions, the outside world and the state\<close>

text \<open>
  The exceptions the script can meet. The first three are not subclasses of
  \<open>Exception\<close>; an \<open>except Exception\<close> clause lets them through.
\<close>

datatype exn =
    KeyboardInterrupt
  | SystemExit int
  | OtherBaseException string
  | EOFError
  | FileNotFoundError
  | FileExistsError
  | NotADirectoryError
  | IsADirectoryError
  | PermissionError
  | CalledProcessError "string list" int
  | OtherException string

fun is_Exception :: "exn \<Rightarrow> bool" where
  "is_Exception KeyboardInterrupt = False"
| "is_Exception (SystemExit n) = False"
| "is_Exception (OtherBaseException c) = False"
| "is_Exception e = True"

text \<open>
  What the script does to the outside world, in the order it does it: a call of
  \<open>print\<close>, of \<open>input\<close>, of \<open>Path(d).mkdir(parents=True, exist_ok=True)\<close>, of
  \<open>open(p, 'w').write(c)\<close> and of \<open>subprocess.run(argv, ...)\<close>.
\<close>

datatype event =
    Print string
  | Input
  | Mkdir string
  | Write string string
  | Run "string list"

text \<open>
  The file system below the working directory: a path is the list of its components,
  and a node is a regular file with its content or a directory. Absolute paths,
  \<open>..\<close> and links are outside the model.
\<close>

datatype node = File string | Dir

type_synonym path = "string list"
type_synonym fs = "path \<Rightarrow> node option"

definition parts :: "string \<Rightarrow> path" where
  "parts p = filter (\<lambda>c. c \<noteq> [] \<and> c \<noteq> ''.'') (split_on CHR ''/'' p)"

text \<open>
  What the script cannot decide: what \<open>input()\<close> does, whether the operating system
  refuses to create or write a path (and with which exception), what a command does
  (it raises, or completes with a return code and its standard output), and the text
  \<open>str(e)\<close> of an exception.
\<close>

datatype outcome = Completed int string | Raises exn

record env =
  stdin :: "exn + string"
  fault :: "path \<Rightarrow> exn option"
  proc :: "string list \<Rightarrow> outcome"
  str_of :: "exn \<Rightarrow> string"

record completed_process =
  returncode :: int
  stdout :: string

record quick_setup =
  project_name :: string
  files_to_create :: "(string \<times> string) list"

text \<open>
  The state of a run: the object, the disk, and a count of how many times the dictionary
  literal of \<open>create_all_files\<close> has been built and assigned. The source keeps no such
  count; the model keeps it so that how often this happens can be stated.
\<close>

record state =
  object :: quick_setup
  disk :: fs
  built :: nat

text \<open>
  A statement of the script takes the state and gives the events it causes, its result
  (\<open>Inl\<close> the exception it raises) and the new state.
\<close>

type_synonym 'a io = "state \<Rightarrow> event list \<times> (exn + 'a) \<times> state"

definition ret :: "'a \<Rightarrow> 'a io" where
  "ret x = (\<lambda>s. ([], Inr x, s))"

definition throw :: "exn \<Rightarrow> 'a io" where
  "throw e = (\<lambda>s. ([], Inl e, s))"

definition emit :: "event \<Rightarrow> unit io" where
  "emit ev = (\<lambda>s. ([ev], Inr (), s))"

definition and_then :: "'a io \<Rightarrow> ('a \<Rightarrow> 'b io) \<Rightarrow> 'b io" where
  "and_then m f =
     (\<lambda>s. case m s of
        (t, Inl e, s') \<Rightarrow> (t, Inl e, s')
      | (t, Inr x, s') \<Rightarrow> (case f x s' of (t', r, s'') \<Rightarrow> (t @ t', r, s'')))"

primrec block :: "unit io list \<Rightarrow> unit io" where
  "block [] = ret ()"
| "block (m # ms) = and_then m (\<lambda>u. block ms)"

text \<open>
  \<open>try: m except ...: h\<close>. The handler gets every exception and raises again the ones
  its clause does not name.
\<close>

definition try_except :: "'a io \<Rightarrow> (exn \<Rightarrow> 'a io) \<Rightarrow> 'a io" where
  "try_except m h =
     (\<lambda>s. case m s of
        (t, Inl e, s') \<Rightarrow> (case h e s' of (t', r, s'') \<Rightarrow> (t @ t', r, s''))
      | (t, Inr x, s') \<Rightarrow> (t, Inr x, s'))"

definition with_self :: "(quick_setup \<Rightarrow> 'a io) \<Rightarrow> 'a io" where
  "with_self f = (\<lambda>s. f (object s) s)"

definition py_print :: "string \<Rightarrow> unit io" where
  "py_print text = emit (Print text)"

definition input :: "env \<Rightarrow> string io" where
  "input env = (\<lambda>s. ([Input], stdin env, s))"

text \<open>
  \<open>Path(d).mkdir(parents=True, exist_ok=True)\<close>: every missing directory on the way is
  created; a directory that exists is accepted; a regular file in the way is an error.
\<close>

fun mkdir_parents :: "env \<Rightarrow> path \<Rightarrow> string list \<Rightarrow> fs \<Rightarrow> (exn + unit) \<times> fs" where
  "mkdir_parents env pre [] d = (Inr (), d)"
| "mkdir_parents env pre (c # cs) d =
     (case d (pre @ [c]) of
        Some Dir \<Rightarrow> mkdir_parents env (pre @ [c]) cs d
      | Some (File x) \<Rightarrow> (Inl (if cs = [] then FileExistsError else NotADirectoryError), d)
      | None \<Rightarrow>
          (case fault env (pre @ [c]) of
             Some e \<Rightarrow> (Inl e, d)
           | None \<Rightarrow> mkdir_parents env (pre @ [c]) cs (d((pre @ [c]) \<mapsto> Dir))))"

definition mkdir :: "env \<Rightarrow> string \<Rightarrow> unit io" where
  "mkdir env directory =
     (\<lambda>s. case mkdir_parents env [] (parts directory) (disk s) of
        (r, d) \<Rightarrow> ([Mkdir directory], r, s\<lparr>disk := d\<rparr>))"

text \<open>
  \<open>with open(file_path, 'w', encoding='utf-8') as f: f.write(content)\<close>: the
  directories leading to the file must exist, the file itself must not be a directory,
  and the file then holds the content and nothing else.
\<close>

fun resolve_parent :: "fs \<Rightarrow> path \<Rightarrow> string list \<Rightarrow> exn option" where
  "resolve_parent d pre [] = None"
| "resolve_parent d pre [c] = None"
| "resolve_parent d pre (c # cs) =
     (case d (pre @ [c]) of
        Some Dir \<Rightarrow> resolve_parent d (pre @ [c]) cs
      | Some (File x) \<Rightarrow> Some NotADirectoryError
      | None \<Rightarrow> Some FileNotFoundError)"

definition open_write :: "env \<Rightarrow> string \<Rightarrow> string \<Rightarrow> unit io" where
  "open_write env file_path content =
     (\<lambda>s. let p = parts file_path in
        if file_path = [] then ([Write file_path content], Inl FileNotFoundError, s)
        else if p = [] then ([Write file_path content], Inl IsADirectoryError, s)
        else
          (case resolve_parent (disk s) [] p of
             Some e \<Rightarrow> ([Write file_path content], Inl e, s)
           | None \<Rightarrow>
               (case disk s p of
                  Some Dir \<Rightarrow> ([Write file_path content], Inl IsADirectoryError, s)
                | _ \<Rightarrow>
                    (case fault env p of
                       Some e \<Rightarrow> ([Write file_path content], Inl e, s)
                     | None \<Rightarrow>
                         ([Write file_path content], Inr (),
                          s\<lparr>disk := (disk s)(p \<mapsto> File content)\<rparr>)))))"

text \<open>
  \<open>subprocess.run(argv, check=...)\<close>: with \<open>check=True\<close> a return code other than 0
  raises \<open>CalledProcessError\<close>.
\<close>

definition subprocess_run :: "env \<Rightarrow> string list \<Rightarrow> bool \<Rightarrow> completed_process io" where
  "subprocess_run env argv check =
     (\<lambda>s. ([Run argv],
        (case proc env argv of
           Raises e \<Rightarrow> Inl e
         | Completed rc out \<Rightarrow>
             if check \<and> rc \<noteq> 0 then Inl (CalledProcessError argv rc)
             else Inr \<lparr>returncode = rc, stdout = out\<rparr>),
        s))"

definition run_checked :: "env \<Rightarrow> string list \<Rightarrow> unit io" where
  "run_checked env argv = and_then (subprocess_run env argv True) (\<lambda>r. ret ())"

section \<open>The templates\<close>

text \<open>
  The literal each \<open>get_...\<close> method returns, one source line per line. The methods
  take \<open>self\<close> and do not use it.
\<close>

definition get_launch_api :: "quick_setup \<Rightarrow> string" where
  \<open>get_launch_api self = concat [
    ''"""Vercel API endpoint for system launch"""\<newline>'',
    ''import json\<newline>'',
    ''from http.server import BaseHTTPRequestHandler\<newline>'',
    ''from datetime import datetime\<newline>'',
    ''\<newline>'',
    ''class handler(BaseHTTPRequestHandler):\<newline>'',
    ''    def do_POST(self):\<newline>'',
    ''        self.send_response(200)\<newline>'',
    ''        self.send_header(\'Content-type\', \'application/json\')\<newline>'',
    ''        self.send_header(\'Access-Control-Allow-Origin\', \'*\')\<newline>'',
    ''        self.end_headers()\<newline>'',
    ''        \<newline>'',
    ''        response = {\<newline>'',
    ''            \'status\': \'success\',\<newline>'',
    ''            \'message\': \'System launched successfully\',\<newline>'',
    ''            \'launch_time\': datetime.now().isoformat(),\<newline>'',
    ''            \'components\': {\<newline>'',
    ''                \'ai_brain\': \'active\',\<newline>'',
    ''                \'revenue_tracker\': \'active\',\<newline>'',
    ''                \'scaling_engine\': \'active\'\<newline>'',
    ''            }\<newline>'',
    ''        }\<newline>'',
    ''        \<newline>'',
    ''        self.wfile.write(json.dumps(response).encode())\<newline>'',
    ''    \<newline>'',
    ''    def do_GET(self):\<newline>'',
    ''        self.send_response(200)\<newline>'',
    ''        self.send_header(\'Content-type\', \'application/json\')\<newline>'',
    ''        self.send_header(\'Access-Control-Allow-Origin\', \'*\')\<newline>'',
    ''        self.end_headers()\<newline>'',
    ''        \<newline>'',
    ''        response = {\<newline>'',
    ''            \'status\': \'operational\',\<newline>'',
    ''            \'launched\': True,\<newline>'',
    ''            \'timestamp\': datetime.now().isoformat()\<newline>'',
    ''        }\<newline>'',
    ''        \<newline>'',
    ''        self.wfile.write(json.dumps(response).encode())\<newline>'',
    ''    \<newline>'',
    ''    def do_OPTIONS(self):\<newline>'',
    ''        self.send_response(200)\<newline>'',
    ''        self.send_header(\'Access-Control-Allow-Origin\', \'*\')\<newline>'',
    ''        self.send_header(\'Access-Control-Allow-Methods\', \'GET, POST, OPTIONS\')\<newline>'',
    ''        self.send_header(\'Access-Control-Allow-Headers\', \'Content-Type\')\<newline>'',
    ''        self.end_headers()\<newline>'']\<close>

definition get_scaling_api :: "quick_setup \<Rightarrow> string" where
  \<open>get_scaling_api self = concat [
    ''"""Vercel API endpoint for ultra-fast scaling"""\<newline>'',
    ''import json\<newline>'',
    ''import asyncio\<newline>'',
    ''from http.server import BaseHTTPRequestHandler\<newline>'',
    ''from datetime import datetime\<newline>'',
    ''\<newline>'',
    ''class handler(BaseHTTPRequestHandler):\<newline>'',
    ''    def do_POST(self):\<newline>'',
    ''        self.send_response(200)\<newline>'',
    ''        self.send_header(\'Content-type\', \'application/json\')\<newline>'',
    ''        self.send_header(\'Access-Control-Allow-Origin\', \'*\')\<newline>'',
    ''        self.end_headers()\<newline>'',
    ''        \<newline>'',
    ''        response = {\<newline>'',
    ''            \'status\': \'success\',\<newline>'',
    ''            \'scaling_candidates\': 2,\<newline>'',
    ''            \'execution_results\': {\<newline>'',
    ''                \'executed_actions\': 3,\<newline>'',
    ''                \'total_investment\': 750,\<newline>'',
    ''                \'expected_return\': 2250,\<newline>'',
    ''                \'success_rate\': 95.5\<newline>'',
    ''            },\<newline>'',
    ''            \'execution_time\': 0.8\<newline>'',
    ''        }\<newline>'',
    ''        \<newline>'',
    ''        self.wfile.write(json.dumps(response).encode())\<newline>'',
    ''    \<newline>'',
    ''    def do_GET(self):\<newline>'',
    ''        self.send_response(200)\<newline>'',
    ''        self.send_header(\'Content-type\', \'application/json\')\<newline>'',
    ''        self.send_header(\'Access-Control-Allow-Origin\', \'*\')\<newline>'',
    ''        self.end_headers()\<newline>'',
    ''        \<newline>'',
    ''        response = {\<newline>'',
    ''            \'status\': \'operational\',\<newline>'',
    ''            \'scaling_engine\': \'active\'\<newline>'',
    ''        }\<newline>'',
    ''        \<newline>'',
    ''        self.wfile.write(json.dumps(response).encode())\<newline>'',
    ''    \<newline>'',
    ''    def do_OPTIONS(self):\<newline>'',
    ''        self.send_response(200)\<newline>'',
    ''        self.send_header(\'Access-Control-Allow-Origin\', \'*\')\<newline>'',
    ''        self.send_header(\'Access-Control-Allow-Methods\', \'GET, POST, OPTIONS\')\<newline>'',
    ''        self.send_header(\'Access-Control-Allow-Headers\', \'Content-Type\')\<newline>'',
    ''        self.end_headers()\<newline>'']\<close>

definition get_status_api :: "quick_setup \<Rightarrow> string" where
  \<open>get_status_api self = concat [
    ''"""Vercel API endpoint for system status"""\<newline>'',
    ''import json\<newline>'',
    ''from http.server import BaseHTTPRequestHandler\<newline>'',
    ''from datetime import datetime\<newline>'',
    ''\<newline>'',
    ''class handler(BaseHTTPRequestHandler):\<newline>'',
    ''    def do_GET(self):\<newline>'',
    ''        self.send_response(200)\<newline>'',
    ''        self.send_header(\'Content-type\', \'application/json\')\<newline>'',
    ''        self.send_header(\'Access-Control-Allow-Origin\', \'*\')\<newline>'',
    ''        self.end_headers()\<newline>'',
    ''        \<newline>'',
    ''        response = {\<newline>'',
    ''            \'status\': \'operational\',\<newline>'',
    ''            \'revenue\': 1247.83,\<newline>'',
    ''            \'patterns_learned\': 127,\<newline>'',
    ''            \'optimizations\': 34,\<newline>'',
    ''            \'daily_target\': 1000,\<newline>'',
    ''            \'success_rate\': 94.5,\<newline>'',
    ''            \'uptime\': 28472,\<newline>'',
    ''            \'last_update\': datetime.now().isoformat()\<newline>'',
    ''        }\<newline>'',
    ''        \<newline>'',
    ''        self.wfile.write(json.dumps(response).encode())\<newline>'',
    ''    \<newline>'',
    ''    def do_OPTIONS(self):\<newline>'',
    ''        self.send_response(200)\<newline>'',
    ''        self.send_header(\'Access-Control-Allow-Origin\', \'*\')\<newline>'',
    ''        self.send_header(\'Access-Control-Allow-Methods\', \'GET, POST, OPTIONS\')\<newline>'',
    ''        self.send_header(\'Access-Control-Allow-Headers\', \'Content-Type\')\<newline>'',
    ''        self.end_headers()\<newline>'']\<close>

definition get_ai_learning_api :: "quick_setup \<Rightarrow> string" where
  \<open>get_ai_learning_api self = concat [
    ''"""Vercel API endpoint for AI learning system"""\<newline>'',
    ''import json\<newline>'',
    ''from http.server import BaseHTTPRequestHandler\<newline>'',
    ''from datetime import datetime\<newline>'',
    ''\<newline>'',
    ''class handler(BaseHTTPRequestHandler):\<newline>'',
    ''    def do_POST(self):\<newline>'',
    ''        self.send_response(200)\<newline>'',
    ''        self.send_header(\'Content-type\', \'application/json\')\<newline>'',
    ''        self.send_header(\'Access-Control-Allow-Origin\', \'*\')\<newline>'',
    ''        self.end_headers()\<newline>'',
    ''        \<newline>'',
    ''        response = {\<newline>'',
    ''            \'status\': \'learning\',\<newline>'',
    ''            \'patterns_discovered\': 5,\<newline>'',
    ''            \'optimizations_generated\': 3,\<newline>'',
    ''            \'learning_improvement\': 1.2,\<newline>'',
    ''            \'recommendations\': [\<newline>'',
    ''                {\'type\': \'high_impact\', \'message\': \'Increase ad spend on high-performing campaigns\'},\<newline>'',
    ''                {\'type\': \'optimization\', \'message\': \'A/B test new landing page design\'}\<newline>'',
    ''            ]\<newline>'',
    ''        }\<newline>'',
    ''        \<newline>'',
    ''        self.wfile.write(json.dumps(response).encode())\<newline>'',
    ''    \<newline>'',
    ''    def do_GET(self):\<newline>'',
    ''        self.send_response(200)\<newline>'',
    ''        self.send_header(\'Content-type\', \'application/json\')\<newline>'',
    ''        self.send_header(\'Access-Control-Allow-Origin\', \'*\')\<newline>'',
    ''        self.end_headers()\<newline>'',
    ''        \<newline>'',
    ''        response = {\<newline>'',
    ''            \'status\': \'learning\',\<newline>'',
    ''            \'patterns_learned\': 156,\<newline>'',
    ''            \'learning_velocity\': 1.3\<newline>'',
    ''        }\<newline>'',
    ''        \<newline>'',
    ''        self.wfile.write(json.dumps(response).encode())\<newline>'',
    ''    \<newline>'',
    ''    def do_OPTIONS(self):\<newline>'',
    ''        self.send_response(200)\<newline>'',
    ''        self.send_header(\'Access-Control-Allow-Origin\', \'*\')\<newline>'',
    ''        self.send_header(\'Access-Control-Allow-Methods\', \'GET, POST, OPTIONS\')\<newline>'',
    ''        self.send_header(\'Access-Control-Allow-Headers\', \'Content-Type\')\<newline>'',
    ''        self.end_headers()\<newline>'']\<close>

definition get_dashboard_html :: "quick_setup \<Rightarrow> string" where
  \<open>get_dashboard_html self = concat [
    ''<!DOCTYPE html>\<newline>'',
    ''<html lang="en">\<newline>'',
    ''<head>\<newline>'',
    ''    <meta charset="UTF-8">\<newline>'',
    ''    <meta name="viewport" content="width=device-width, initial-scale=1.0">\<newline>'',
    ''    <title>'', utf8 0x1F680, '' Autonomous Revenue System</title>\<newline>'',
    ''    <style>\<newline>'',
    ''        * { margin: 0; padding: 0; box-sizing: border-box; }\<newline>'',
    ''        body {\<newline>'',
    ''            font-family: -apple-system, BlinkMacSystemFont, \'Segoe UI\', sans-serif;\<newline>'',
    ''            background: linear-gradient(135deg, #667eea 0%, #764ba2 50%, #f093fb 100%);\<newline>'',
    ''            min-height: 100vh;\<newline>'',
    ''            color: white;\<newline>'',
    ''        }\<newline>'',
    ''        .container { max-width: 1200px; margin: 0 auto; padding: 20px; }\<newline>'',
    ''        .header { text-align: center; margin-bottom: 40px; }\<newline>'',
    ''        .header h1 {\<newline>'',
    ''            font-size: 3rem;\<newline>'',
    ''            margin-bottom: 15px;\<newline>'',
    ''            background: linear-gradient(45deg, #ff6b6b, #feca57, #48cae4, #06ffa5);\<newline>'',
    ''            -webkit-background-clip: text;\<newline>'',
    ''            -webkit-text-fill-color: transparent;\<newline>'',
    ''        }\<newline>'',
    ''        .revenue-display {\<newline>'',
    ''            font-size: 4rem;\<newline>'',
    ''            font-weight: bold;\<newline>'',
    ''            color: #00ff88;\<newline>'',
    ''            text-align: center;\<newline>'',
    ''            margin: 20px 0;\<newline>'',
    ''            text-shadow: 0 0 30px rgba(0,255,136,0.6);\<newline>'',
    ''        }\<newline>'',
    ''        .launch-btn {\<newline>'',
    ''            background: linear-gradient(45deg, #ff6b6b, #feca57);\<newline>'',
    ''            border: none;\<newline>'',
    ''            padding: 20px 60px;\<newline>'',
    ''            font-size: 1.5rem;\<newline>'',
    ''            font-weight: bold;\<newline>'',
    ''            border-radius: 50px;\<newline>'',
    ''            color: white;\<newline>'',
    ''            cursor: pointer;\<newline>'',
    ''            transition: all 0.3s ease;\<newline>'',
    ''            box-shadow: 0 10px 30px rgba(0,0,0,0.3);\<newline>'',
    ''        }\<newline>'',
    ''        .launch-btn:hover {\<newline>'',
    ''            transform: translateY(-5px) scale(1.05);\<newline>'',
    ''        }\<newline>'',
    ''        .dashboard-grid {\<newline>'',
    ''            display: grid;\<newline>'',
    ''            grid-template-columns: repeat(auto-fit, minmax(300px, 1fr));\<newline>'',
    ''            gap: 25px;\<newline>'',
    ''            margin-top: 40px;\<newline>'',
    ''        }\<newline>'',
    ''        .card {\<newline>'',
    ''            background: rgba(255,255,255,0.1);\<newline>'',
    ''            backdrop-filter: blur(15px);\<newline>'',
    ''            border-radius: 20px;\<newline>'',
    ''            padding: 30px;\<newline>'',
    ''            box-shadow: 0 8px 32px rgba(0,0,0,0.2);\<newline>'',
    ''        }\<newline>'',
    ''        .metric { display: flex; justify-content: space-between; margin: 15px 0; }\<newline>'',
    ''        .metric-value { font-size: 1.5rem; font-weight: bold; color: #00ff88; }\<newline>'',
    ''    </style>\<newline>'',
    ''</head>\<newline>'',
    ''<body>\<newline>'',
    ''    <div class="container">\<newline>'',
    ''        <div class="header">\<newline>'',
    ''            <h1>'', utf8 0x1F680, utf8 0x1F4B0, '' AUTONOMOUS REVENUE SYSTEM '', utf8 0x1F4B0, utf8 0x1F680, ''</h1>\<newline>'',
    ''            <p>Ultra-Fast Scaling '', utf8 0x2022, '' AI-Powered '', utf8 0x2022, '' $1,000+ Daily Revenue</p>\<newline>'',
    ''        </div>\<newline>'',
    ''        \<newline>'',
    ''        <div style="text-align: center;">\<newline>'',
    ''            <div class="revenue-display" id="revenue">$0.00</div>\<newline>'',
    ''            <button class="launch-btn" onclick="launchSystem()">\<newline>'',
    ''                '', utf8 0x1F680, '' LAUNCH SYSTEM '', utf8 0x1F680, ''\<newline>'',
    ''            </button>\<newline>'',
    ''            <p id="status">Ready to generate $1,000+ daily revenue automatically</p>\<newline>'',
    ''        </div>\<newline>'',
    ''        \<newline>'',
    ''        <div class="dashboard-grid">\<newline>'',
    ''            <div class="card">\<newline>'',
    ''                <h3>'', utf8 0x1F4B0, '' Revenue Metrics</h3>\<newline>'',
    ''                <div class="metric">\<newline>'',
    ''                    <span>Current Revenue:</span>\<newline>'',
    ''                    <span class="metric-value" id="currentRevenue">$0.00</span>\<newline>'',
    ''                </div>\<newline>'',
    ''                <div class="metric">\<newline>'',
    ''                    <span>Daily Target:</span>\<newline>'',
    ''                    <span class="metric-value">$1,000</span>\<newline>'',
    ''                </div>\<newline>'',
    ''            </div>\<newline>'',
    ''            \<newline>'',
    ''            <div class="card">\<newline>'',
    ''                <h3>'', utf8 0x1F9E0, '' AI Learning</h3>\<newline>'',
    ''                <div class="metric">\<newline>'',
    ''                    <span>Patterns Learned:</span>\<newline>'',
    ''                    <span class="metric-value" id="patterns">0</span>\<newline>'',
    ''                </div>\<newline>'',
    ''                <div class="metric">\<newline>'',
    ''                    <span>Optimizations:</span>\<newline>'',
    ''                    <span class="metric-value" id="optimizations">0</span>\<newline>'',
    ''                </div>\<newline>'',
    ''            </div>\<newline>'',
    ''            \<newline>'',
    ''            <div class="card">\<newline>'',
    ''                <h3>'', utf8 0x26A1, '' Scaling Engine</h3>\<newline>'',
    ''                <div class="metric">\<newline>'',
    ''                    <span>Success Rate:</span>\<newline>'',
    ''                    <span class="metric-value" id="successRate">0%</span>\<newline>'',
    ''                </div>\<newline>'',
    ''                <button class="launch-btn" onclick="triggerScaling()" style="font-size: 1rem; padding: 10px 20px;">\<newline>'',
    ''                    '', utf8 0x1F680, '' Trigger Scaling\<newline>'',
    ''                </button>\<newline>'',
    ''            </div>\<newline>'',
    ''        </div>\<newline>'',
    ''    </div>\<newline>'',
    ''    \<newline>'',
    ''    <script>\<newline>'',
    ''        const API_BASE = window.location.origin + \'/api\';\<newline>'',
    ''        let revenue = 0;\<newline>'',
    ''        \<newline>'',
    ''        async function launchSystem() {\<newline>'',
    ''            try {\<newline>'',
    ''                const response = await fetch(`${API_BASE}/launch`, { method: \'POST\' });\<newline>'',
    ''                const result = await response.json();\<newline>'',
    ''                \<newline>'',
    ''                document.getElementById(\'status\').textContent = \'System Operational!\';\<newline>'',
    ''                startUpdates();\<newline>'',
    ''            } catch (error) {\<newline>'',
    ''                console.error(\'Launch error:\', error);\<newline>'',
    ''                document.getElementById(\'status\').textContent = \'System Active (Demo Mode)\';\<newline>'',
    ''                startUpdates();\<newline>'',
    ''            }\<newline>'',
    ''        }\<newline>'',
    ''        \<newline>'',
    ''        async function triggerScaling() {\<newline>'',
    ''            try {\<newline>'',
    ''                const response = await fetch(`${API_BASE}/scaling`, { method: \'POST\' });\<newline>'',
    ''                const result = await response.json();\<newline>'',
    ''                document.getElementById(\'status\').textContent = \'Scaling Executed Successfully!\';\<newline>'',
    ''            } catch (error) {\<newline>'',
    ''                document.getElementById(\'status\').textContent = \'Scaling Triggered (Demo Mode)\';\<newline>'',
    ''            }\<newline>'',
    ''        }\<newline>'',
    ''        \<newline>'',
    ''        function startUpdates() {\<newline>'',
    ''            setInterval(() => {\<newline>'',
    ''                revenue += Math.random() * 50 + 20;\<newline>'',
    ''                document.getElementById(\'revenue\').textContent = `$${revenue.toFixed(2)}`;\<newline>'',
    ''                document.getElementById(\'currentRevenue\').textContent = `$${revenue.toFixed(2)}`;\<newline>'',
    ''                \<newline>'',
    ''                const patterns = parseInt(document.getElementById(\'patterns\').textContent) + Math.floor(Math.random() * 3) + 1;\<newline>'',
    ''                document.getElementById(\'patterns\').textContent = patterns;\<newline>'',
    ''                \<newline>'',
    ''                if (patterns % 5 === 0) {\<newline>'',
    ''                    const optimizations = parseInt(document.getElementById(\'optimizations\').textContent) + 1;\<newline>'',
    ''                    document.getElementById(\'optimizations\').textContent = optimizations;\<newline>'',
    ''                }\<newline>'',
    ''                \<newline>'',
    ''                const successRate = Math.min(85 + patterns * 0.1, 99);\<newline>'',
    ''                document.getElementById(\'successRate\').textContent = `${successRate.toFixed(1)}%`;\<newline>'',
    ''            }, 3000);\<newline>'',
    ''        }\<newline>'',
    ''    </script>\<newline>'',
    ''</body>\<newline>'',
    ''</html>'']\<close>

definition get_scaling_engine :: "quick_setup \<Rightarrow> string" where
  \<open>get_scaling_engine self = concat [
    ''"""Ultra-Fast Scaling Engine - Core Module"""\<newline>'',
    ''import os\<newline>'',
    ''import json\<newline>'',
    ''from datetime import datetime\<newline>'',
    ''\<newline>'',
    ''class UltraFastScalingEngine:\<newline>'',
    ''    def __init__(self):\<newline>'',
    ''        self.performance_metrics = {\<newline>'',
    ''            \'scales_executed\': 0,\<newline>'',
    ''            \'success_rate\': 95.0,\<newline>'',
    ''            \'total_revenue_increase\': 0,\<newline>'',
    ''            \'last_optimization\': datetime.now().isoformat()\<newline>'',
    ''        }\<newline>'',
    ''    \<newline>'',
    ''    def get_performance_metrics(self):\<newline>'',
    ''        return self.performance_metrics\<newline>'',
    ''    \<newline>'',
    ''    async def run_scaling_cycle(self, products):\<newline>'',
    ''        return {\<newline>'',
    ''            \'status\': \'success\',\<newline>'',
    ''            \'scaling_candidates\': len(products),\<newline>'',
    ''            \'execution_results\': {\<newline>'',
    ''                \'executed_actions\': 2,\<newline>'',
    ''                \'total_investment\': 500,\<newline>'',
    ''                \'expected_return\': 1500,\<newline>'',
    ''                \'success_rate\': 95\<newline>'',
    ''            },\<newline>'',
    ''            \'execution_time\': 0.5\<newline>'',
    ''        }\<newline>'',
    ''\<newline>'',
    ''def get_scaling_engine():\<newline>'',
    ''    return UltraFastScalingEngine()\<newline>'']\<close>

definition get_config_utils :: "quick_setup \<Rightarrow> string" where
  \<open>get_config_utils self = concat [
    ''"""Configuration utilities"""\<newline>'',
    ''import os\<newline>'',
    ''\<newline>'',
    ''class Config:\<newline>'',
    ''    DAILY_TARGET = float(os.getenv(\'DAILY_TARGET\', \'1000\'))\<newline>'',
    ''    OPENAI_API_KEY = os.getenv(\'OPENAI_API_KEY\')\<newline>'',
    ''    EMAIL_USER = os.getenv(\'EMAIL_USER\')\<newline>'',
    ''    EMAIL_PASS = os.getenv(\'EMAIL_PASS\')\<newline>'',
    ''    AUTO_SCALING_ENABLED = os.getenv(\'AUTO_SCALING_ENABLED\', \'true\').lower() == \'true\'\<newline>'']\<close>

definition get_vercel_config :: "quick_setup \<Rightarrow> string" where
  \<open>get_vercel_config self = concat [
    ''{\<newline>'',
    ''  "version": 2,\<newline>'',
    ''  "name": "autonomous-revenue-system",\<newline>'',
    ''  "builds": [\<newline>'',
    ''    { "src": "api/**/*.py", "use": "@vercel/python" },\<newline>'',
    ''    { "src": "frontend/**", "use": "@vercel/static" }\<newline>'',
    ''  ],\<newline>'',
    ''  "routes": [\<newline>'',
    ''    { "src": "/api/(.*)", "dest": "/api/$1" },\<newline>'',
    ''    { "src": "/(.*)", "dest": "/frontend/$1" }\<newline>'',
    ''  ]\<newline>'',
    ''}'']\<close>

definition get_package_json :: "quick_setup \<Rightarrow> string" where
  \<open>get_package_json self = concat [
    ''{\<newline>'',
    ''  "name": "autonomous-revenue-system",\<newline>'',
    ''  "version": "2.0.0",\<newline>'',
    ''  "description": "Ultra-fast scaling autonomous revenue system",\<newline>'',
    ''  "scripts": {\<newline>'',
    ''    "dev": "vercel dev",\<newline>'',
    ''    "deploy": "vercel --prod",\<newline>'',
    ''    "test": "echo \'Tests passed\'"\<newline>'',
    ''  },\<newline>'',
    ''  "keywords": ["revenue", "automation", "ai", "scaling"],\<newline>'',
    ''  "license": "MIT"\<newline>'',
    ''}'']\<close>

definition get_requirements :: "quick_setup \<Rightarrow> string" where
  \<open>get_requirements self = concat [
    ''# Core dependencies\<newline>'',
    ''aiohttp==3.8.6\<newline>'',
    ''requests==2.31.0\<newline>'',
    ''python-dotenv==1.0.0\<newline>'']\<close>

definition get_env_example :: "quick_setup \<Rightarrow> string" where
  \<open>get_env_example self = concat [
    ''# Autonomous Revenue System Configuration\<newline>'',
    ''OPENAI_API_KEY=sk-your-openai-key-here\<newline>'',
    ''EMAIL_USER=your-email@gmail.com\<newline>'',
    ''EMAIL_PASS=your-app-password\<newline>'',
    ''DAILY_TARGET=1000\<newline>'',
    ''AUTO_SCALING_ENABLED=true\<newline>'']\<close>

definition get_readme :: "quick_setup \<Rightarrow> string" where
  \<open>get_readme self = concat [
    ''# '', utf8 0x1F680, '' Autonomous Revenue System v2.0\<newline>'',
    ''\<newline>'',
    ''**Ultra-Fast Scaling AI-Powered Revenue System**\<newline>'',
    ''\<newline>'',
    ''## Quick Start\<newline>'',
    ''\<newline>'',
    ''1. **Deploy to Vercel**: Click the deploy button\<newline>'',
    ''2. **Configure Environment**: Add your API keys in Vercel dashboard\<newline>'',
    ''3. **Launch System**: Click the big launch button\<newline>'',
    ''4. **Monitor Revenue**: Watch your automated income grow\<newline>'',
    ''\<newline>'',
    ''## Environment Variables\<newline>'',
    ''\<newline>'',
    ''- `OPENAI_API_KEY`: Your OpenAI API key\<newline>'',
    ''- `EMAIL_USER`: Your email for notifications\<newline>'',
    ''- `EMAIL_PASS`: Your email app password\<newline>'',
    ''- `DAILY_TARGET`: Daily revenue target (default: 1000)\<newline>'',
    ''\<newline>'',
    ''## Features\<newline>'',
    ''\<newline>'',
    ''- '', utf8 0x26A1, '' Ultra-fast scaling (< 0.5s execution)\<newline>'',
    ''- '', utf8 0x1F9E0, '' AI-powered optimization\<newline>'',
    ''- '', utf8 0x1F4B0, '' Real-time revenue tracking\<newline>'',
    ''- '', utf8 0x1F4C8, '' Automated growth strategies\<newline>'',
    ''- '', utf8 0x1F3AF, '' $1,000+ daily revenue potential\<newline>'',
    ''\<newline>'',
    ''## Support\<newline>'',
    ''\<newline>'',
    ''For issues and questions, check the GitHub repository.\<newline>'']\<close>

definition get_github_workflow :: "quick_setup \<Rightarrow> string" where
  \<open>get_github_workflow self = concat [
    ''name: Deploy to Vercel\<newline>'',
    ''on:\<newline>'',
    ''  push:\<newline>'',
    ''    branches: [ main ]\<newline>'',
    ''jobs:\<newline>'',
    ''  deploy:\<newline>'',
    ''    runs-on: ubuntu-latest\<newline>'',
    ''    steps:\<newline>'',
    ''    - uses: actions/checkout@v3\<newline>'',
    ''    - name: Deploy to Vercel\<newline>'',
    ''      uses: amondnet/vercel-action@v20\<newline>'',
    ''      with:\<newline>'',
    ''        vercel-token: ${{ secrets.VERCEL_TOKEN }}\<newline>'',
    ''        vercel-args: \'--prod\'\<newline>'']\<close>

definition get_deploy_script :: "quick_setup \<Rightarrow> string" where
  \<open>get_deploy_script self = concat [
    ''#!/usr/bin/env python3\<newline>'',
    ''"""Simplified deployment script"""\<newline>'',
    ''import subprocess\<newline>'',
    ''import sys\<newline>'',
    ''\<newline>'',
    ''def deploy():\<newline>'',
    ''    print("'', utf8 0x1F680, '' Deploying to Vercel...")\<newline>'',
    ''    try:\<newline>'',
    ''        subprocess.run([\'vercel\', \'--prod\'], check=True)\<newline>'',
    ''        print("'', utf8 0x2705, '' Deployment successful!")\<newline>'',
    ''    except:\<newline>'',
    ''        print("'', utf8 0x274C, '' Install Vercel CLI: npm i -g vercel")\<newline>'',
    ''\<newline>'',
    ''if __name__ == "__main__":\<newline>'',
    ''    deploy()\<newline>'']\<close>

definition banner :: string where
  \<open>banner = concat [
    ''\<newline>'',
    utf8 0x2554, concat (replicate 78 (utf8 0x2550)), utf8 0x2557, ''\<newline>'',
    utf8 0x2551, ''                                                                              '', utf8 0x2551, ''\<newline>'',
    utf8 0x2551, ''  '', utf8 0x1F680, utf8 0x1F4B0, '' AUTONOMOUS REVENUE SYSTEM - ONE-CLICK SETUP '', utf8 0x1F4B0, utf8 0x1F680, ''                     '', utf8 0x2551, ''\<newline>'',
    utf8 0x2551, ''                                                                              '', utf8 0x2551, ''\<newline>'',
    utf8 0x2551, ''  Ultra-Fast Scaling '', utf8 0x2022, '' AI-Powered '', utf8 0x2022, '' $1,000+ Daily Revenue                   '', utf8 0x2551, ''\<newline>'',
    utf8 0x2551, ''                                                                              '', utf8 0x2551, ''\<newline>'',
    utf8 0x255A, concat (replicate 78 (utf8 0x2550)), utf8 0x255D, ''\<newline>'',
    ''\<newline>'',
    utf8 0x1F3AF, '' This script will:\<newline>'',
    ''  '', utf8 0x2705, '' Create complete project structure\<newline>'',
    ''  '', utf8 0x2705, '' Generate all necessary files \<newline>'',
    ''  '', utf8 0x2705, '' Setup GitHub repository\<newline>'',
    ''  '', utf8 0x2705, '' Deploy to Vercel\<newline>'',
    ''  '', utf8 0x2705, '' Configure environment\<newline>'',
    ''\<newline>'',
    utf8 0x23F1, utf8 0xFE0F, ''  Setup time: ~5 minutes\<newline>'',
    utf8 0x1F38A, '' Result: Fully operational revenue system\<newline>'',
    ''\<newline>'',
    ''Press Enter to continue or Ctrl+C to cancel...\<newline>'',
    ''        '']\<close>

definition summary :: string where
  \<open>summary = concat [
    ''\<newline>'',
    utf8 0x2554, concat (replicate 78 (utf8 0x2550)), utf8 0x2557, ''\<newline>'',
    utf8 0x2551, ''                                                                              '', utf8 0x2551, ''\<newline>'',
    utf8 0x2551, ''  '', utf8 0x1F389, '' SETUP COMPLETE! YOUR REVENUE SYSTEM IS READY! '', utf8 0x1F389, ''                       '', utf8 0x2551, ''\<newline>'',
    utf8 0x2551, ''                                                                              '', utf8 0x2551, ''\<newline>'',
    utf8 0x255A, concat (replicate 78 (utf8 0x2550)), utf8 0x255D, ''\<newline>'',
    ''\<newline>'',
    utf8 0x1F680, '' WHAT\'S BEEN CREATED:\<newline>'',
    ''  '', utf8 0x2705, '' Complete project structure with all files\<newline>'',
    ''  '', utf8 0x2705, '' API endpoints for scaling, AI learning, and status\<newline>'',
    ''  '', utf8 0x2705, '' Responsive dashboard with real-time updates\<newline>'',
    ''  '', utf8 0x2705, '' GitHub repository (if CLI available)\<newline>'',
    ''  '', utf8 0x2705, '' Vercel deployment configuration\<newline>'',
    ''\<newline>'',
    utf8 0x1F527, '' NEXT STEPS:\<newline>'',
    ''  1. '', utf8 0x1F4DD, '' Copy .env.example to .env and add your API keys\<newline>'',
    ''  2. '', utf8 0x1F310, '' Deploy to Vercel: run \'vercel --prod\' \<newline>'',
    ''  3. '', utf8 0x2699, utf8 0xFE0F, ''  Configure environment variables in Vercel dashboard\<newline>'',
    ''  4. '', utf8 0x1F680, '' Visit your dashboard and click "LAUNCH SYSTEM"\<newline>'',
    ''  5. '', utf8 0x1F4CA, '' Monitor your automated revenue growth\<newline>'',
    ''\<newline>'',
    utf8 0x1F4A1, '' QUICK DEPLOY:\<newline>'',
    ''  '', utf8 0x2022, '' Install Vercel CLI: npm install -g vercel\<newline>'',
    ''  '', utf8 0x2022, '' Deploy: vercel --prod\<newline>'',
    ''  '', utf8 0x2022, '' Configure: Add API keys in Vercel dashboard\<newline>'',
    ''\<newline>'',
    utf8 0x1F3AF, '' EXPECTED RESULTS:\<newline>'',
    ''  '', utf8 0x2022, '' Week 1: System optimization and AI learning\<newline>'',
    ''  '', utf8 0x2022, '' Week 2-3: First automated revenue streams\<newline>'',
    ''  '', utf8 0x2022, '' Month 1: $300-500 daily revenue\<newline>'',
    ''  '', utf8 0x2022, '' Month 2+: $1,000+ daily revenue with full automation\<newline>'',
    ''\<newline>'',
    utf8 0x1F4DA, '' SUPPORT:\<newline>'',
    ''  '', utf8 0x2022, '' Check README.md for detailed instructions\<newline>'',
    ''  '', utf8 0x2022, '' All files are documented and ready to customize\<newline>'',
    ''  '', utf8 0x2022, '' GitHub repository includes CI/CD workflow\<newline>'',
    ''\<newline>'',
    utf8 0x1F680, '' Your AI-powered revenue machine is ready to launch!\<newline>'',
    ''        '']\<close>

section \<open>The QuickSetup class\<close>

definition init :: quick_setup where
  "init = \<lparr>project_name = ''autonomous-revenue-system'', files_to_create = []\<rparr>"

definition print_banner :: "env \<Rightarrow> unit io" where
  "print_banner env = block [
     py_print banner,
     try_except (and_then (input env) (\<lambda>line. ret ()))
       (\<lambda>e. if e = KeyboardInterrupt
            then block [
              py_print (''\<newline>\<newline>'' @ utf8 0x274C @ '' Setup cancelled by user''),
              throw (SystemExit 1)]
            else throw e)]"

text \<open>
  The dictionary literal of \<open>create_all_files\<close>, in the order of its entries (a Python
  dictionary keeps it). Its keys are pairwise different, so no entry replaces another.
\<close>

definition all_files :: "quick_setup \<Rightarrow> (string \<times> string) list" where
  "all_files self = [
     (''api/launch.py'', get_launch_api self),
     (''api/scaling.py'', get_scaling_api self),
     (''api/status.py'', get_status_api self),
     (''api/ai-learning.py'', get_ai_learning_api self),
     (''frontend/index.html'', get_dashboard_html self),
     (''core/__init__.py'', ''''),
     (''core/scaling_engine.py'', get_scaling_engine self),
     (''utils/__init__.py'', ''''),
     (''utils/config.py'', get_config_utils self),
     (''vercel.json'', get_vercel_config self),
     (''package.json'', get_package_json self),
     (''requirements.txt'', get_requirements self),
     (''.env.example'', get_env_example self),
     (''README.md'', get_readme self),
     (''.github/workflows/deploy.yml'', get_github_workflow self),
     (''deploy.py'', get_deploy_script self)]"

definition create_file :: "env \<Rightarrow> string \<times> string \<Rightarrow> unit io" where
  "create_file env = (\<lambda>(file_path, content). block [
     (let directory = dirname file_path in
      if directory \<noteq> [] then mkdir env directory else ret ()),
     open_write env file_path content,
     py_print (''  '' @ utf8 0x2705 @ '' Created: '' @ file_path)])"

definition create_all_files :: "env \<Rightarrow> unit io" where
  "create_all_files env = block [
     py_print (utf8 0x1F4DD @ '' Creating project files...''),
     (\<lambda>s. ([], Inr (),
        s\<lparr>object := (object s)\<lparr>files_to_create := all_files (object s)\<rparr>,
          built := built s + 1\<rparr>)),
     with_self (\<lambda>self. block (map (create_file env) (files_to_create self))),
     with_self (\<lambda>self. py_print
       (utf8 0x1F4C1 @ '' Created '' @ str_nat (length (files_to_create self)) @ '' files''))]"

definition git_init :: "string list" where
  "git_init = [''git'', ''init'']"

definition git_add :: "string list" where
  "git_add = [''git'', ''add'', ''.'']"

definition git_commit :: "string list" where
  "git_commit = [''git'', ''commit'', ''-m'', ''Initial commit: Autonomous Revenue System v2.0'']"

definition gh_repo_create :: "quick_setup \<Rightarrow> string list" where
  "gh_repo_create self = [''gh'', ''repo'', ''create'', project_name self, ''--public'']"

definition git_remote_add :: "quick_setup \<Rightarrow> string list" where
  "git_remote_add self =
     [''git'', ''remote'', ''add'', ''origin'',
      ''https://github.com/your-username/'' @ project_name self @ ''.git'']"

definition git_push :: "string list" where
  "git_push = [''git'', ''push'', ''-u'', ''origin'', ''main'']"

definition vercel_prod :: "string list" where
  "vercel_prod = [''vercel'', ''--prod'', ''--yes'']"

text \<open>
  The loop over the lines of the output prints the first line that holds both texts and
  stops there.
\<close>

definition print_live_url :: "string \<Rightarrow> unit io" where
  "print_live_url out =
     (case find (\<lambda>line. contains ''https://'' line \<and> contains ''vercel.app'' line)
             (split_on CHR 0x0A out) of
        Some line \<Rightarrow> py_print (''  '' @ utf8 0x1F310 @ '' Live URL: '' @ strip line)
      | None \<Rightarrow> ret ())"

text \<open>
  \<open>setup_git_and_deploy\<close> has three \<open>try\<close> statements; each is named here by the
  comment that heads it in the source. The second is nested in the first.
\<close>

definition create_github_repo :: "env \<Rightarrow> unit io" where
  "create_github_repo env =
     try_except
       (block [
          with_self (\<lambda>self. run_checked env (gh_repo_create self)),
          with_self (\<lambda>self. run_checked env (git_remote_add self)),
          run_checked env git_push,
          py_print (''  '' @ utf8 0x2705 @ '' GitHub repository created and pushed'')])
       (\<lambda>e. py_print (''  '' @ utf8 0x26A0 @ utf8 0xFE0F
               @ ''  GitHub CLI not available - create repository manually''))"

definition initialize_git :: "env \<Rightarrow> unit io" where
  "initialize_git env =
     try_except
       (block [
          run_checked env git_init,
          run_checked env git_add,
          run_checked env git_commit,
          py_print (''  '' @ utf8 0x2705 @ '' Git repository initialized''),
          create_github_repo env])
       (\<lambda>e. if is_Exception e
            then py_print (''  '' @ utf8 0x26A0 @ utf8 0xFE0F @ ''  Git setup failed: ''
                    @ str_of env e)
            else throw e)"

definition deploy_to_vercel :: "env \<Rightarrow> unit io" where
  "deploy_to_vercel env =
     try_except
       (and_then (subprocess_run env vercel_prod False)
          (\<lambda>result.
             if returncode result = 0
             then block [
               py_print (''  '' @ utf8 0x2705 @ '' Deployed to Vercel successfully!''),
               print_live_url (stdout result)]
             else block [
               py_print (''  '' @ utf8 0x274C @ '' Vercel deployment failed''),
               py_print (''  '' @ utf8 0x1F4A1 @ '' Install Vercel CLI: npm install -g vercel'')]))
       (\<lambda>e. if e = FileNotFoundError
            then block [
              py_print (''  '' @ utf8 0x274C @ '' Vercel CLI not found''),
              py_print (''  '' @ utf8 0x1F4A1 @ '' Install Vercel CLI: npm install -g vercel'')]
            else throw e)"

definition setup_git_and_deploy :: "env \<Rightarrow> unit io" where
  "setup_git_and_deploy env = block [
     py_print (''\<newline>'' @ utf8 0x1F504 @ '' Setting up Git repository...''),
     initialize_git env,
     py_print (''\<newline>'' @ utf8 0x1F310 @ '' Deploying to Vercel...''),
     deploy_to_vercel env]"

definition print_completion_summary :: "unit io" where
  "print_completion_summary = py_print summary"

definition run_setup :: "env \<Rightarrow> bool io" where
  "run_setup env =
     try_except
       (and_then
          (block [
             print_banner env,
             py_print (utf8 0x1F504 @ '' Starting one-click setup...''),
             py_print (replicate 60 CHR ''=''),
             create_all_files env,
             setup_git_and_deploy env,
             print_completion_summary])
          (\<lambda>u. ret True))
       (\<lambda>e. if e = KeyboardInterrupt
            then and_then
              (py_print (''\<newline>\<newline>'' @ utf8 0x274C @ '' Setup cancelled by user''))
              (\<lambda>u. ret False)
            else if is_Exception e
            then and_then
              (block [
                 py_print (''\<newline>'' @ utf8 0x274C @ '' Setup failed: '' @ str_of env e),
                 py_print ''Please check the error and try again.''])
              (\<lambda>u. ret False)
            else throw e)"

text \<open>\<open>QuickSetup()\<close> in the working directory with the disk \<open>d\<close>.\<close>

definition fresh :: "fs \<Rightarrow> state" where
  "fresh d = \<lparr>object = init, disk = d, built = 0\<rparr>"

text \<open>
  \<open>main\<close> builds the object, runs the setup and reports. The interpreter turns what
  leaves \<open>main\<close> into the exit status of the process: 0 after a return, the code of a
  \<open>SystemExit\<close>, 1 after any other exception.
\<close>

definition main :: "env \<Rightarrow> fs \<Rightarrow> event list \<times> (exn + bool) \<times> state" where
  "main env d =
     and_then (run_setup env)
       (\<lambda>success.
          and_then
            (if success
             then py_print (''\<newline>'' @ utf8 0x2705 @ '' Setup completed successfully!'')
             else py_print (''\<newline>'' @ utf8 0x274C @ '' Setup encountered errors.''))
            (\<lambda>u. ret success))
       (fresh d)"

definition exit_status :: "exn + bool \<Rightarrow> int" where
  "exit_status r = (case r of Inr b \<Rightarrow> 0 | Inl (SystemExit n) \<Rightarrow> n | Inl e \<Rightarrow> 1)"

section \<open>The generated handlers\<close>

text \<open>
  The four templates under \<open>api/\<close> are Python programs of their own: each defines a class
  \<open>handler(BaseHTTPRequestHandler)\<close> with the methods \<open>do_POST\<close>, \<open>do_GET\<close> and
  \<open>do_OPTIONS\<close> (\<open>api/status.py\<close> has no \<open>do_POST\<close>). The methods are translated here
  from the text of the templates. A method gets the request and, where it calls
  \<open>datetime.now().isoformat()\<close>, the text that call returns. It is modelled by the body
  of its response: the bytes it writes to \<open>self.wfile\<close>, which are
  \<open>json.dumps(response).encode()\<close>, and no byte at all for \<open>do_OPTIONS\<close>. The status line
  and the headers of the response are not modelled: \<open>send_response\<close> of the base class
  adds a \<open>Server\<close> and a \<open>Date\<close> header of its own, and sends none for a request of
  HTTP/0.9.
\<close>

datatype json =
    JStr string
  | JInt int
  | JFloat string
  | JBool bool
  | JList "json list"
  | JDict "(string \<times> json) list"

record request =
  request_line :: string
  request_headers :: "(string \<times> string) list"
  request_body :: string

text \<open>
  \<open>json.dumps\<close> with its default separators. A float is carried as the text \<open>repr\<close>
  gives it. In a string the quote and the backslash are escaped; the strings of the
  handlers hold printable ASCII only, so no other escape of \<open>json.dumps\<close> is needed.
\<close>

definition str_int :: "int \<Rightarrow> string" where
  "str_int n = (if n < 0 then ''-'' @ str_nat (nat (- n)) else str_nat (nat n))"

definition dumps_str :: "string \<Rightarrow> string" where
  "dumps_str s =
     [CHR 0x22]
     @ concat (map (\<lambda>c. if c = CHR 0x22 \<or> c = CHR 0x5C then [CHR 0x5C, c] else [c]) s)
     @ [CHR 0x22]"

fun join :: "string \<Rightarrow> string list \<Rightarrow> string" where
  "join sep [] = []"
| "join sep [x] = x"
| "join sep (x # y # ys) = x @ sep @ join sep (y # ys)"

fun dumps :: "json \<Rightarrow> string" where
  "dumps (JStr s) = dumps_str s"
| "dumps (JInt n) = str_int n"
| "dumps (JFloat r) = r"
| "dumps (JBool b) = (if b then ''true'' else ''false'')"
| "dumps (JList xs) = ''['' @ join '', '' (map dumps xs) @ '']''"
| "dumps (JDict kvs) =
     ''{'' @ join '', '' (map (\<lambda>kv. dumps_str (fst kv) @ '': '' @ dumps (snd kv)) kvs) @ ''}''"

text \<open>\<open>api/launch.py\<close>\<close>

definition launch_do_POST :: "request \<Rightarrow> string \<Rightarrow> string" where
  "launch_do_POST req now = dumps (JDict [
     (''status'', JStr ''success''),
     (''message'', JStr ''System launched successfully''),
     (''launch_time'', JStr now),
     (''components'', JDict [
        (''ai_brain'', JStr ''active''),
        (''revenue_tracker'', JStr ''active''),
        (''scaling_engine'', JStr ''active'')])])"

definition launch_do_GET :: "request \<Rightarrow> string \<Rightarrow> string" where
  "launch_do_GET req now = dumps (JDict [
     (''status'', JStr ''operational''),
     (''launched'', JBool True),
     (''timestamp'', JStr now)])"

definition launch_do_OPTIONS :: "request \<Rightarrow> string \<Rightarrow> string" where
  "launch_do_OPTIONS req now = []"

text \<open>\<open>api/scaling.py\<close>\<close>

definition scaling_do_POST :: "request \<Rightarrow> string \<Rightarrow> string" where
  "scaling_do_POST req now = dumps (JDict [
     (''status'', JStr ''success''),
     (''scaling_candidates'', JInt 2),
     (''execution_results'', JDict [
        (''executed_actions'', JInt 3),
        (''total_investment'', JInt 750),
        (''expected_return'', JInt 2250),
        (''success_rate'', JFloat ''95.5'')]),
     (''execution_time'', JFloat ''0.8'')])"

definition scaling_do_GET :: "request \<Rightarrow> string \<Rightarrow> string" where
  "scaling_do_GET req now = dumps (JDict [
     (''status'', JStr ''operational''),
     (''scaling_engine'', JStr ''active'')])"

definition scaling_do_OPTIONS :: "request \<Rightarrow> string \<Rightarrow> string" where
  "scaling_do_OPTIONS req now = []"

text \<open>\<open>api/status.py\<close>\<close>

definition status_do_GET :: "request \<Rightarrow> string \<Rightarrow> string" where
  "status_do_GET req now = dumps (JDict [
     (''status'', JStr ''operational''),
     (''revenue'', JFloat ''1247.83''),
     (''patterns_learned'', JInt 127),
     (''optimizations'', JInt 34),
     (''daily_target'', JInt 1000),
     (''success_rate'', JFloat ''94.5''),
     (''uptime'', JInt 28472),
     (''last_update'', JStr now)])"

definition status_do_OPTIONS :: "request \<Rightarrow> string \<Rightarrow> string" where
  "status_do_OPTIONS req now = []"

text \<open>\<open>api/ai-learning.py\<close>\<close>

definition ai_learning_do_POST :: "request \<Rightarrow> string \<Rightarrow> string" where
  "ai_learning_do_POST req now = dumps (JDict [
     (''status'', JStr ''learning''),
     (''patterns_discovered'', JInt 5),
     (''optimizations_generated'', JInt 3),
     (''learning_improvement'', JFloat ''1.2''),
     (''recommendations'', JList [
        JDict [(''type'', JStr ''high_impact''),
               (''message'', JStr ''Increase ad spend on high-performing campaigns'')],
        JDict [(''type'', JStr ''optimization''),
               (''message'', JStr ''A/B test new landing page design'')]])])"

definition ai_learning_do_GET :: "request \<Rightarrow> string \<Rightarrow> string" where
  "ai_learning_do_GET req now = dumps (JDict [
     (''status'', JStr ''learning''),
     (''patterns_learned'', JInt 156),
     (''learning_velocity'', JFloat ''1.3'')])"

definition ai_learning_do_OPTIONS :: "request \<Rightarrow> string \<Rightarrow> string" where
  "ai_learning_do_OPTIONS req now = []"

text \<open>A request, and two readings of the clock one second apart.\<close>

definition some_request :: request where
  "some_request =
     \<lparr>request_line = ''GET /api/launch HTTP/1.1'', request_headers = [(''Host'', ''localhost'')],
      request_body = ''''\<rparr>"

definition other_request :: request where
  "other_request =
     \<lparr>request_line = ''POST /api/launch?x=1 HTTP/1.1'',
      request_headers = [(''Content-Type'', ''application/json'')],
      request_body = ''{}''\<rparr>"

definition noon :: string where
  "noon = ''2024-01-01T12:00:00''"

definition noon_and_a_second :: string where
  "noon_and_a_second = ''2024-01-01T12:00:01''"

section \<open>Reading a run\<close>

definition events :: "event list \<times> (exn + 'a) \<times> state \<Rightarrow> event list" where
  "events r = fst r"

definition result :: "event list \<times> (exn + 'a) \<times> state \<Rightarrow> exn + 'a" where
  "result r = fst (snd r)"

definition final :: "event list \<times> (exn + 'a) \<times> state \<Rightarrow> state" where
  "final r = snd (snd r)"

text \<open>
  The steps of the flow are the banner, the calls that create directories and write
  files, the commands and the summary; the prompt and the progress messages are not.
\<close>

fun is_step :: "event \<Rightarrow> bool" where
  "is_step (Print text) = (text = banner \<or> text = summary)"
| "is_step Input = False"
| "is_step (Mkdir d) = True"
| "is_step (Write p c) = True"
| "is_step (Run argv) = True"

definition file_steps :: "string \<times> string \<Rightarrow> event list" where
  "file_steps = (\<lambda>(file_path, content).
     (if dirname file_path \<noteq> [] then [Mkdir (dirname file_path)] else [])
     @ [Write file_path content])"

definition commands :: "quick_setup \<Rightarrow> string list list" where
  "commands self =
     [git_init, git_add, git_commit, gh_repo_create self, git_remote_add self, git_push,
      vercel_prod]"

definition expected_flow :: "quick_setup \<Rightarrow> event list" where
  "expected_flow self =
     [Print banner] @ concat (map file_steps (all_files self)) @ map Run (commands self)
     @ [Print summary]"

fun runs :: "event list \<Rightarrow> string list list" where
  "runs [] = []"
| "runs (Run argv # t) = argv # runs t"
| "runs (e # t) = runs t"

fun writes :: "event list \<Rightarrow> (string \<times> string) list" where
  "writes [] = []"
| "writes (Write p c # t) = (p, c) # writes t"
| "writes (e # t) = writes t"

text \<open>
  \<open>within self p l m\<close>: run on an object with the project name of \<open>self\<close>, the
  statement \<open>m\<close> keeps that name, and its events selected by \<open>p\<close> are events of \<open>l\<close>, in
  the order of \<open>l\<close>, each used at most once.
\<close>

definition within :: "quick_setup \<Rightarrow> (event \<Rightarrow> bool) \<Rightarrow> event list \<Rightarrow> 'a io \<Rightarrow> bool" where
  "within self p l m \<longleftrightarrow>
     (\<forall>s. project_name (object s) = project_name self \<longrightarrow>
        subseq (filter p (events (m s))) l
        \<and> project_name (object (final (m s))) = project_name self)"

text \<open>The state once \<open>create_all_files\<close> has assigned the dictionary.\<close>

definition assigned :: "state \<Rightarrow> state" where
  "assigned s =
     s\<lparr>object := (object s)\<lparr>files_to_create := all_files (object s)\<rparr>, built := built s + 1\<rparr>"

text \<open>
  The directories \<open>mkdir\<close> goes through below \<open>pre\<close>, one more component each time, and
  the directories of the entries of a dictionary.
\<close>

fun chain :: "path \<Rightarrow> string list \<Rightarrow> path list" where
  "chain pre [] = []"
| "chain pre (c # cs) = (pre @ [c]) # chain (pre @ [c]) cs"

definition directories :: "(string \<times> string) list \<Rightarrow> path list" where
  "directories xs =
     concat (map (\<lambda>(f, c). if dirname f \<noteq> [] then chain [] (parts (dirname f)) else []) xs)"

text \<open>
  What the loop over the entries \<open>xs\<close> has done to a disk \<open>d\<close> when it ends with \<open>d'\<close>:
  outside the paths of the entries nothing has changed, but for directories of the
  entries that were missing; a directory is still a directory; each entry is a file with
  its content (when no two entries have the same path); the directories of the entries
  exist.
\<close>

definition loop_effect :: "(string \<times> string) list \<Rightarrow> fs \<Rightarrow> fs \<Rightarrow> bool" where
  "loop_effect xs d d' \<longleftrightarrow>
     (\<forall>q. q \<notin> set (map (parts \<circ> fst) xs) \<longrightarrow>
        d' q = d q \<or> (d q = None \<and> d' q = Some Dir \<and> q \<in> set (directories xs)))
     \<and> (\<forall>q. d q = Some Dir \<longrightarrow> d' q = Some Dir)
     \<and> (distinct (map (parts \<circ> fst) xs) \<longrightarrow> (\<forall>(f, c) \<in> set xs. d' (parts f) = Some (File c)))
     \<and> (\<forall>q \<in> set (directories xs). d' q = Some Dir)"

text \<open>
  The exception \<open>subprocess.run(argv, check=True)\<close> raises, if it raises one.
\<close>

definition failure_of :: "env \<Rightarrow> string list \<Rightarrow> exn option" where
  "failure_of env argv =
     (case proc env argv of
        Raises e \<Rightarrow> Some e
      | Completed rc out \<Rightarrow> if rc \<noteq> 0 then Some (CalledProcessError argv rc) else None)"

text \<open>
  The first exception of \<open>git init\<close>, \<open>git add\<close>, \<open>git commit\<close>, and the first of
  \<open>gh repo create\<close>, \<open>git remote add\<close>, \<open>git push\<close>: a command runs only when the
  ones before it have not failed.
\<close>

definition git_failure :: "env \<Rightarrow> exn option" where
  "git_failure env =
     (case failure_of env git_init of
        Some e \<Rightarrow> Some e
      | None \<Rightarrow>
          (case failure_of env git_add of
             Some e \<Rightarrow> Some e
           | None \<Rightarrow> failure_of env git_commit))"

definition github_failure :: "env \<Rightarrow> quick_setup \<Rightarrow> exn option" where
  "github_failure env self =
     (case failure_of env (gh_repo_create self) of
        Some e \<Rightarrow> Some e
      | None \<Rightarrow>
          (case failure_of env (git_remote_add self) of
             Some e \<Rightarrow> Some e
           | None \<Rightarrow> failure_of env git_push))"

text \<open>
  The commands \<open>setup_git_and_deploy\<close> attempts, in their order: each command of the git
  and GitHub part runs when the ones before it have not failed, and the Vercel command
  runs unless the first failure of \<open>git init\<close>, \<open>git add\<close>, \<open>git commit\<close> is not an
  \<open>Exception\<close>.
\<close>

definition github_attempted :: "env \<Rightarrow> quick_setup \<Rightarrow> string list list" where
  "github_attempted env self =
     gh_repo_create self #
     (case failure_of env (gh_repo_create self) of
        Some e \<Rightarrow> []
      | None \<Rightarrow>
          git_remote_add self #
          (case failure_of env (git_remote_add self) of
             Some e \<Rightarrow> []
           | None \<Rightarrow> [git_push]))"

definition git_attempted :: "env \<Rightarrow> quick_setup \<Rightarrow> string list list" where
  "git_attempted env self =
     git_init #
     (case failure_of env git_init of
        Some e \<Rightarrow> []
      | None \<Rightarrow>
          git_add #
          (case failure_of env git_add of
             Some e \<Rightarrow> []
           | None \<Rightarrow>
               git_commit #
               (case failure_of env git_commit of
                  Some e \<Rightarrow> []
                | None \<Rightarrow> github_attempted env self)))"

definition attempted :: "env \<Rightarrow> quick_setup \<Rightarrow> string list list" where
  "attempted env self =
     git_attempted env self
     @ (case git_failure env of
          Some e \<Rightarrow> if is_Exception e then [vercel_prod] else []
        | None \<Rightarrow> [vercel_prod])"

text \<open>
  What the \<open>except\<close> clauses of \<open>run_setup\<close> print for an exception that reaches them.
\<close>

definition handled :: "env \<Rightarrow> exn \<Rightarrow> event list" where
  "handled env e =
     (if e = KeyboardInterrupt
      then [Print (''\<newline>\<newline>'' @ utf8 0x274C @ '' Setup cancelled by user'')]
      else if is_Exception e
      then [Print (''\<newline>'' @ utf8 0x274C @ '' Setup failed: '' @ str_of env e),
            Print ''Please check the error and try again.'']
      else [])"

text \<open>A statement is pure when it leaves the state as it is.\<close>

definition pure :: "'a io \<Rightarrow> bool" where
  "pure m \<longleftrightarrow> (\<forall>s. final (m s) = s)"

text \<open>
  The shape of a disk: where its files and directories are, without the contents of
  the files.
\<close>

definition shape :: "fs \<Rightarrow> path \<Rightarrow> bool option" where
  "shape d p = (case d p of None \<Rightarrow> None | Some (File c) \<Rightarrow> Some False | Some Dir \<Rightarrow> Some True)"

text \<open>
  Two states have the same shape when they have the same object and their disks have the
  same shape. A statement is blind to contents when, run in two states of the same shape,
  it causes the same events, gives the same result and ends in states of the same
  shape: it never looks at the content of a file.
\<close>

definition same_shape :: "state \<Rightarrow> state \<Rightarrow> bool" where
  "same_shape s s' \<longleftrightarrow> object s = object s' \<and> shape (disk s) = shape (disk s')"

definition content_blind :: "'a io \<Rightarrow> bool" where
  "content_blind m \<longleftrightarrow>
     (\<forall>s s'. same_shape s s' \<longrightarrow>
        events (m s) = events (m s') \<and> result (m s) = result (m s')
        \<and> same_shape (final (m s)) (final (m s')))"

text \<open>
  An event without the content it writes. Two statements are alike when, run in two
  states of the same shape, they cause the same events up to the contents written, give
  the same result and end in states of the same shape.
\<close>

fun blank :: "event \<Rightarrow> event" where
  "blank (Write p c) = Write p []"
| "blank e = e"

definition alike :: "'a io \<Rightarrow> 'a io \<Rightarrow> bool" where
  "alike m m' \<longleftrightarrow>
     (\<forall>s s'. same_shape s s' \<longrightarrow>
        map blank (events (m s)) = map blank (events (m' s')) \<and> result (m s) = result (m' s')
        \<and> same_shape (final (m s)) (final (m' s')))"

text \<open>Two worlds to run the script in: one where everything works, one where no tool does.\<close>

definition empty_disk :: fs where
  "empty_disk = (\<lambda>p. None)"

definition old_disk :: "string \<Rightarrow> fs" where
  "old_disk content = empty_disk([''README.md''] \<mapsto> File content)"

definition env_all_ok :: env where
  "env_all_ok =
     \<lparr>stdin = Inr '''', fault = (\<lambda>p. None),
      proc = (\<lambda>argv. Completed 0 ''https://autonomous-revenue-system.vercel.app''),
      str_of = (\<lambda>e. ''error'')\<rparr>"

definition env_vercel_denied :: env where
  "env_vercel_denied =
     \<lparr>stdin = Inr '''', fault = (\<lambda>p. None),
      proc = (\<lambda>argv. if argv = vercel_prod then Raises PermissionError else Completed 0 ''''),
      str_of = (\<lambda>e. ''[Errno 13] Permission denied'')\<rparr>"

definition env_interrupted :: env where
  "env_interrupted = env_all_ok\<lparr>stdin := Inl KeyboardInterrupt\<rparr>"

definition env_no_gh :: env where
  "env_no_gh =
     \<lparr>stdin = Inr '''', fault = (\<lambda>p. None),
      proc = (\<lambda>argv. if take 1 argv = [''gh''] then Raises FileNotFoundError
                    else Completed 0 ''''),
      str_of = (\<lambda>e. ''[Errno 2] No such file or directory'')\<rparr>"

definition env_no_tools :: env where
  "env_no_tools =
     \<lparr>stdin = Inr '''', fault = (\<lambda>p. None), proc = (\<lambda>argv. Raises FileNotFoundError),
      str_of = (\<lambda>e. ''[Errno 2] No such file or directory'')\<rparr>"

section \<open>Running the statements\<close>

lemma and_then_cases:
  "result (m s) = Inl e \<Longrightarrow> and_then m f s = (events (m s), Inl e, final (m s))"
  "result (m s) = Inr x \<Longrightarrow>
     and_then m f s =
       (events (m s) @ events (f x (final (m s))), result (f x (final (m s))),
        final (f x (final (m s))))"
  by (auto simp: and_then_def events_def result_def final_def split: prod.splits)

lemma try_except_cases:
  "result (m s) = Inr x \<Longrightarrow> try_except m h s = (events (m s), Inr x, final (m s))"
  "result (m s) = Inl e \<Longrightarrow>
     try_except m h s =
       (events (m s) @ events (h e (final (m s))), result (h e (final (m s))),
        final (h e (final (m s))))"
  by (auto simp: try_except_def events_def result_def final_def split: prod.splits)

lemma triple_simps [simp]:
  "events (t, r, s) = t" "result (t, r, s) = r" "final (t, r, s) = s"
  by (simp_all add: events_def result_def final_def)

lemma run_checked_eq:
  "run_checked env argv s =
     ([Run argv], (case failure_of env argv of Some e \<Rightarrow> Inl e | None \<Rightarrow> Inr ()), s)"
  by (simp add: run_checked_def subprocess_run_def and_then_def ret_def failure_of_def
      split: outcome.splits)

lemmas exec = ret_def throw_def emit_def py_print_def input_def with_self_def and_then_def
  try_except_def run_checked_eq

subsection \<open>Statements that leave the state alone\<close>

lemma pure_basic:
  "pure (ret x)" "pure (throw e)" "pure (emit ev)" "pure (py_print t)" "pure (input env)"
  "pure (subprocess_run env argv check)" "pure (run_checked env argv)"
  by (simp_all add: pure_def exec subprocess_run_def)

lemma pure_and_then: "pure m \<Longrightarrow> (\<And>x. pure (f x)) \<Longrightarrow> pure (and_then m f)"
  unfolding pure_def
proof
  fix s
  assume m: "\<forall>s. final (m s) = s" and f: "\<And>x. \<forall>s. final (f x s) = s"
  show "final (and_then m f s) = s"
  proof (cases "result (m s)")
    case (Inl e)
    then show ?thesis using m by (simp add: and_then_cases)
  next
    case (Inr x)
    then show ?thesis using m f by (simp add: and_then_cases)
  qed
qed

lemma pure_try_except: "pure m \<Longrightarrow> (\<And>e. pure (h e)) \<Longrightarrow> pure (try_except m h)"
  unfolding pure_def
proof
  fix s
  assume m: "\<forall>s. final (m s) = s" and h: "\<And>e. \<forall>s. final (h e s) = s"
  show "final (try_except m h s) = s"
  proof (cases "result (m s)")
    case (Inl e)
    then show ?thesis using m h by (simp add: try_except_cases)
  next
    case (Inr x)
    then show ?thesis using m by (simp add: try_except_cases)
  qed
qed

lemma pure_block: "(\<And>m. m \<in> set ms \<Longrightarrow> pure m) \<Longrightarrow> pure (block ms)"
  by (induction ms) (simp_all add: pure_basic pure_and_then)

lemma pure_with_self: "(\<And>self. pure (f self)) \<Longrightarrow> pure (with_self f)"
  by (simp add: pure_def with_self_def)

lemma pure_if: "pure a \<Longrightarrow> pure b \<Longrightarrow> pure (if c then a else b)"
  by simp

lemma pure_print_live_url: "pure (print_live_url out)"
  by (simp add: print_live_url_def pure_basic split: option.splits)

lemmas pure_intros = pure_basic pure_and_then pure_try_except pure_block pure_with_self pure_if
  pure_print_live_url

lemma pure_create_github_repo: "pure (create_github_repo env)"
  unfolding create_github_repo_def by (intro pure_intros) (auto intro: pure_intros)

lemma pure_initialize_git: "pure (initialize_git env)"
  unfolding initialize_git_def
  by (intro pure_intros) (auto intro: pure_intros pure_create_github_repo)

lemma pure_deploy_to_vercel: "pure (deploy_to_vercel env)"
  unfolding deploy_to_vercel_def
  by (intro pure_intros) (auto intro!: pure_intros)

lemma pure_setup_git_and_deploy: "pure (setup_git_and_deploy env)"
  unfolding setup_git_and_deploy_def
  by (intro pure_intros) (auto intro: pure_intros pure_initialize_git pure_deploy_to_vercel)

lemma pure_print_banner: "pure (print_banner env)"
  unfolding print_banner_def
  by (intro pure_intros) (auto intro!: pure_intros)

subsection \<open>Events in a given order\<close>

lemma subseq_grow: "subseq xs l1 \<Longrightarrow> subseq xs (l1 @ l2)"
  using list_emb_append_mono [of "(=)" xs l1 "[]" l2] by simp

lemma within_basic:
  "within self p [] (ret x)" "within self p [] (throw e)" "within self p [Input] (input env)"
  "within self p [Run argv] (subprocess_run env argv check)"
  "within self p [Run argv] (run_checked env argv)"
  by (simp_all add: within_def exec subprocess_run_def)

lemma within_emit: "within self p [ev] (emit ev)"
  by (simp add: within_def exec)

lemma within_print: "within self p [Print t] (py_print t)"
  by (simp add: within_def exec)

lemma within_print_other: "\<not> p (Print t) \<Longrightarrow> within self p [] (py_print t)"
  by (simp add: within_def exec)

lemma within_weaken: "within self p l m \<Longrightarrow> subseq l l' \<Longrightarrow> within self p l' m"
  by (auto simp: within_def intro: subseq_order.trans)

lemma within_and_then:
  assumes m: "within self p l1 m" and f: "\<And>x. within self p l2 (f x)"
  shows "within self p (l1 @ l2) (and_then m f)"
  unfolding within_def
proof (intro allI impI)
  fix s :: state
  assume n: "project_name (object s) = project_name self"
  from m n have m1: "subseq (filter p (events (m s))) l1"
    and m2: "project_name (object (final (m s))) = project_name self"
    by (simp_all add: within_def)
  show "subseq (filter p (events (and_then m f s))) (l1 @ l2)
      \<and> project_name (object (final (and_then m f s))) = project_name self"
  proof (cases "result (m s)")
    case (Inl e)
    then show ?thesis using m1 m2 by (simp add: and_then_cases subseq_grow)
  next
    case (Inr x)
    from f m2 have "subseq (filter p (events (f x (final (m s))))) l2"
      and "project_name (object (final (f x (final (m s))))) = project_name self"
      by (simp_all add: within_def)
    then show ?thesis using Inr m1 by (simp add: and_then_cases list_emb_append_mono)
  qed
qed

lemma within_try_except:
  assumes m: "within self p l1 m" and h: "\<And>e. within self p l2 (h e)"
  shows "within self p (l1 @ l2) (try_except m h)"
  unfolding within_def
proof (intro allI impI)
  fix s :: state
  assume n: "project_name (object s) = project_name self"
  from m n have m1: "subseq (filter p (events (m s))) l1"
    and m2: "project_name (object (final (m s))) = project_name self"
    by (simp_all add: within_def)
  show "subseq (filter p (events (try_except m h s))) (l1 @ l2)
      \<and> project_name (object (final (try_except m h s))) = project_name self"
  proof (cases "result (m s)")
    case (Inr x)
    then show ?thesis using m1 m2 by (simp add: try_except_cases subseq_grow)
  next
    case (Inl e)
    from h m2 have "subseq (filter p (events (h e (final (m s))))) l2"
      and "project_name (object (final (h e (final (m s))))) = project_name self"
      by (simp_all add: within_def)
    then show ?thesis using Inl m1 by (simp add: try_except_cases list_emb_append_mono)
  qed
qed

lemma within_block_Nil: "within self p [] (block [])"
  by (simp add: within_basic)

lemma within_block_Cons:
  "within self p l1 m \<Longrightarrow> within self p l2 (block ms) \<Longrightarrow> within self p (l1 @ l2) (block (m # ms))"
  by (simp add: within_and_then)

lemma within_with_self:
  "(\<And>self'. project_name self' = project_name self \<Longrightarrow> within self p l (f self'))
   \<Longrightarrow> within self p l (with_self f)"
  by (simp add: within_def with_self_def)

lemma within_if: "within self p l a \<Longrightarrow> within self p l b \<Longrightarrow> within self p l (if c then a else b)"
  by simp

subsection \<open>Which messages are steps\<close>

lemma utf8_values:
  "utf8 0x274C = [CHR 0xE2, CHR 0x9D, CHR 0x8C]"
  "utf8 0x2705 = [CHR 0xE2, CHR 0x9C, CHR 0x85]"
  "utf8 0x26A0 = [CHR 0xE2, CHR 0x9A, CHR 0xA0]"
  "utf8 0xFE0F = [CHR 0xEF, CHR 0xB8, CHR 0x8F]"
  "utf8 0x1F4DD = [CHR 0xF0, CHR 0x9F, CHR 0x93, CHR 0x9D]"
  "utf8 0x1F4C1 = [CHR 0xF0, CHR 0x9F, CHR 0x93, CHR 0x81]"
  "utf8 0x1F504 = [CHR 0xF0, CHR 0x9F, CHR 0x94, CHR 0x84]"
  "utf8 0x1F310 = [CHR 0xF0, CHR 0x9F, CHR 0x8C, CHR 0x90]"
  "utf8 0x1F4A1 = [CHR 0xF0, CHR 0x9F, CHR 0x92, CHR 0xA1]"
  "utf8 0x2554 = [CHR 0xE2, CHR 0x95, CHR 0x94]"
  by (simp_all add: utf8_def char_of_def bit_0)

lemma banner_head: "\<exists>rest. banner = CHR 0x0A # CHR 0xE2 # CHR 0x95 # rest"
  unfolding banner_def by (simp add: utf8_values)

lemma summary_head: "\<exists>rest. summary = CHR 0x0A # CHR 0xE2 # CHR 0x95 # rest"
  unfolding summary_def by (simp add: utf8_values)

lemma take3: "t = a # b # c # r \<Longrightarrow> take 3 t = [a, b, c]"
  by (simp add: numeral_3_eq_3)

lemma heads:
  "take 3 banner = [CHR 0x0A, CHR 0xE2, CHR 0x95]"
  "take 3 summary = [CHR 0x0A, CHR 0xE2, CHR 0x95]"
  using banner_head summary_head by (blast intro: take3)+

lemma not_step: "take 3 t \<noteq> [CHR 0x0A, CHR 0xE2, CHR 0x95] \<Longrightarrow> \<not> is_step (Print t)"
  using heads by auto

lemma within_message:
  "take 3 t \<noteq> [CHR 0x0A, CHR 0xE2, CHR 0x95] \<Longrightarrow> within self is_step [] (py_print t)"
  by (rule within_print_other) (rule not_step)

lemma within_input: "within self is_step [] (input env)"
  by (simp add: within_def exec)

lemma within_mkdir: "within self p [Mkdir d] (mkdir env d)"
  by (simp add: within_def mkdir_def split: prod.splits)

lemma within_open_write: "within self p [Write f c] (open_write env f c)"
  by (simp add: within_def open_write_def Let_def split: option.splits node.splits)

lemma within_print_live_url: "within self is_step [] (print_live_url out)"
  by (simp add: print_live_url_def within_message within_basic utf8_values split: option.splits)

lemma within_create_file:
  "within self is_step (file_steps x) (create_file env x)"
proof (cases x)
  case (Pair f c)
  have "within self is_step
      ((if dirname f \<noteq> [] then [Mkdir (dirname f)] else []) @ [Write f c] @ [] @ [])
      (create_file env (f, c))"
    unfolding create_file_def prod.case Let_def
    by (intro within_block_Cons within_block_Nil within_open_write within_message)
      (simp_all add: within_mkdir within_basic utf8_values)
  then show ?thesis using Pair by (simp add: file_steps_def)
qed

lemma within_create_files:
  "within self is_step (concat (map file_steps xs)) (block (map (create_file env) xs))"
  by (induction xs) (simp_all add: within_basic within_and_then within_create_file)

lemma within_block:
  "list_all2 (within self p) ls ms \<Longrightarrow> within self p (concat ls) (block ms)"
  by (induction ls ms rule: list_all2_induct) (simp_all add: within_basic within_and_then)

lemma within_skip2:
  "within self p [] a \<Longrightarrow> within self p [] b \<Longrightarrow> within self p [] (block [a, b])"
  using within_block [of self p "[[], []]" "[a, b]"] by simp

lemma within_print_banner: "within self is_step [Print banner] (print_banner env)"
proof -
  have h: "within self is_step []
      (if e = KeyboardInterrupt
       then block [
         py_print (''\<newline>\<newline>'' @ utf8 0x274C @ '' Setup cancelled by user''),
         throw (SystemExit 1)]
       else throw e)" for e
    by (simp add: within_skip2 within_message within_basic utf8_values del: block.simps)
  have i: "within self is_step ([] @ []) (and_then (input env) (\<lambda>line. ret ()))"
    by (intro within_and_then within_input within_basic)
  have t: "within self is_step []
      (try_except (and_then (input env) (\<lambda>line. ret ()))
        (\<lambda>e. if e = KeyboardInterrupt
            then block [
              py_print (''\<newline>\<newline>'' @ utf8 0x274C @ '' Setup cancelled by user''),
              throw (SystemExit 1)]
            else throw e))"
    using within_try_except [OF i h] by simp
  have "within self is_step (concat [[Print banner], []]) (print_banner env)"
    unfolding print_banner_def
    by (rule within_block) (simp add: within_print t)
  then show ?thesis by simp
qed

lemma within_create_github_repo:
  "within self is_step [Run (gh_repo_create self), Run (git_remote_add self), Run git_push]
     (create_github_repo env)"
proof -
  have b: "within self is_step
      (concat [[Run (gh_repo_create self)], [Run (git_remote_add self)], [Run git_push], []])
      (block [
          with_self (\<lambda>self. run_checked env (gh_repo_create self)),
          with_self (\<lambda>self. run_checked env (git_remote_add self)),
          run_checked env git_push,
          py_print (''  '' @ utf8 0x2705 @ '' GitHub repository created and pushed'')])"
    by (rule within_block)
      (simp add: within_with_self within_basic within_message utf8_values gh_repo_create_def
        git_remote_add_def)
  have h: "within self is_step []
      (py_print (''  '' @ utf8 0x26A0 @ utf8 0xFE0F
               @ ''  GitHub CLI not available - create repository manually''))"
    by (simp add: within_message utf8_values)
  show ?thesis
    unfolding create_github_repo_def using within_try_except [OF b h] by simp
qed

lemma within_initialize_git:
  "within self is_step
     [Run git_init, Run git_add, Run git_commit, Run (gh_repo_create self),
      Run (git_remote_add self), Run git_push]
     (initialize_git env)"
proof -
  have b: "within self is_step
      (concat [[Run git_init], [Run git_add], [Run git_commit], [],
        [Run (gh_repo_create self), Run (git_remote_add self), Run git_push]])
      (block [
          run_checked env git_init,
          run_checked env git_add,
          run_checked env git_commit,
          py_print (''  '' @ utf8 0x2705 @ '' Git repository initialized''),
          create_github_repo env])"
    by (rule within_block)
      (simp add: within_basic within_message utf8_values within_create_github_repo)
  have h: "within self is_step []
      (if is_Exception e
            then py_print (''  '' @ utf8 0x26A0 @ utf8 0xFE0F @ ''  Git setup failed: ''
                    @ str_of env e)
            else throw e)" for e
    by (simp add: within_message within_basic utf8_values)
  show ?thesis
    unfolding initialize_git_def using within_try_except [OF b h] by simp
qed

lemma within_deploy_to_vercel: "within self is_step [Run vercel_prod] (deploy_to_vercel env)"
proof -
  have f: "within self is_step []
      (if returncode result = 0
             then block [
               py_print (''  '' @ utf8 0x2705 @ '' Deployed to Vercel successfully!''),
               print_live_url (stdout result)]
             else block [
               py_print (''  '' @ utf8 0x274C @ '' Vercel deployment failed''),
               py_print (''  '' @ utf8 0x1F4A1 @ '' Install Vercel CLI: npm install -g vercel'')])"
    for result :: completed_process
    by (simp add: within_skip2 within_message within_print_live_url utf8_values del: block.simps)
  have h: "within self is_step []
      (if e = FileNotFoundError
            then block [
              py_print (''  '' @ utf8 0x274C @ '' Vercel CLI not found''),
              py_print (''  '' @ utf8 0x1F4A1 @ '' Install Vercel CLI: npm install -g vercel'')]
            else throw e)" for e
    by (simp add: within_skip2 within_message within_basic utf8_values del: block.simps)
  have b: "within self is_step ([Run vercel_prod] @ [])
      (and_then (subprocess_run env vercel_prod False)
          (\<lambda>result.
             if returncode result = 0
             then block [
               py_print (''  '' @ utf8 0x2705 @ '' Deployed to Vercel successfully!''),
               print_live_url (stdout result)]
             else block [
               py_print (''  '' @ utf8 0x274C @ '' Vercel deployment failed''),
               py_print (''  '' @ utf8 0x1F4A1 @ '' Install Vercel CLI: npm install -g vercel'')]))"
    by (rule within_and_then) (simp_all add: within_basic f)
  show ?thesis
    unfolding deploy_to_vercel_def using within_try_except [OF b h] by simp
qed

lemma within_setup_git_and_deploy:
  "within self is_step (map Run (commands self)) (setup_git_and_deploy env)"
proof -
  have "within self is_step
      (concat [[],
        [Run git_init, Run git_add, Run git_commit, Run (gh_repo_create self),
         Run (git_remote_add self), Run git_push],
        [], [Run vercel_prod]])
      (setup_git_and_deploy env)"
    unfolding setup_git_and_deploy_def
    by (rule within_block)
      (simp add: within_message utf8_values within_initialize_git within_deploy_to_vercel)
  then show ?thesis by (simp add: commands_def)
qed

subsection \<open>The templates do not depend on the object\<close>

lemma get_const:
  "get_launch_api self = get_launch_api self'"
  "get_scaling_api self = get_scaling_api self'"
  "get_status_api self = get_status_api self'"
  "get_ai_learning_api self = get_ai_learning_api self'"
  "get_dashboard_html self = get_dashboard_html self'"
  "get_scaling_engine self = get_scaling_engine self'"
  "get_config_utils self = get_config_utils self'"
  "get_vercel_config self = get_vercel_config self'"
  "get_package_json self = get_package_json self'"
  "get_requirements self = get_requirements self'"
  "get_env_example self = get_env_example self'"
  "get_readme self = get_readme self'"
  "get_github_workflow self = get_github_workflow self'"
  "get_deploy_script self = get_deploy_script self'"
  unfolding get_launch_api_def get_scaling_api_def get_status_api_def get_ai_learning_api_def
    get_dashboard_html_def get_scaling_engine_def get_config_utils_def get_vercel_config_def
    get_package_json_def get_requirements_def get_env_example_def get_readme_def
    get_github_workflow_def get_deploy_script_def
  by (rule refl)+

lemma all_files_const: "all_files self = all_files self'"
  unfolding all_files_def
  using get_const [of self self'] by (simp only:)

subsection \<open>The object during the loop\<close>

lemma object_mkdir: "object (final (mkdir env d s)) = object s"
  by (simp add: mkdir_def split: prod.splits)

lemma object_open_write: "object (final (open_write env f c s)) = object s"
  by (simp add: open_write_def Let_def split: option.splits node.splits)

lemma object_and_then:
  assumes "\<And>s. object (final (m s)) = object s" and "\<And>x s. object (final (f x s)) = object s"
  shows "object (final (and_then m f s)) = object s"
  using assms by (cases "result (m s)") (simp_all add: and_then_cases)

lemma object_block:
  "(\<And>m s. m \<in> set ms \<Longrightarrow> object (final (m s)) = object s)
   \<Longrightarrow> object (final (block ms s)) = object s"
proof (induction ms arbitrary: s)
  case Nil
  then show ?case by (simp add: exec)
next
  case (Cons m ms)
  show ?case
    unfolding block.simps
    by (rule object_and_then) (simp_all add: Cons)
qed

lemma object_create_file: "object (final (create_file env x s)) = object s"
proof (cases x)
  case (Pair f c)
  show ?thesis
    unfolding Pair create_file_def prod.case
  proof (rule object_block)
    fix m and s' :: state
    assume "m \<in> set [
     (let directory = dirname f in
      if directory \<noteq> [] then mkdir env directory else ret ()),
     open_write env f c,
     py_print (''  '' @ utf8 0x2705 @ '' Created: '' @ f)]"
    then show "object (final (m s')) = object s'"
      by (auto simp: object_mkdir object_open_write py_print_def emit_def ret_def Let_def)
  qed
qed

lemma object_create_files: "object (final (block (map (create_file env) xs) s)) = object s"
  by (rule object_block) (auto simp: object_create_file)

lemma create_all_files_run:
  "events (create_all_files env s) =
     Print (utf8 0x1F4DD @ '' Creating project files...'')
     # events (block (map (create_file env) (all_files (object s))) (assigned s))
     @ (case result (block (map (create_file env) (all_files (object s))) (assigned s)) of
          Inl e \<Rightarrow> []
        | Inr u \<Rightarrow>
            [Print (utf8 0x1F4C1 @ '' Created '' @ str_nat (length (all_files (object s)))
              @ '' files'')])"
  "result (create_all_files env s) =
     result (block (map (create_file env) (all_files (object s))) (assigned s))"
  "final (create_all_files env s) =
     final (block (map (create_file env) (all_files (object s))) (assigned s))"
proof -
  let ?loop = "block (map (create_file env) (all_files (object s))) (assigned s)"
  have o: "object (final ?loop) = object (assigned s)"
    by (rule object_create_files)
  have c: "create_all_files env s =
      (case ?loop of
         (t, Inl e, s') \<Rightarrow> (Print (utf8 0x1F4DD @ '' Creating project files...'') # t, Inl e, s')
       | (t, Inr u, s') \<Rightarrow>
           (Print (utf8 0x1F4DD @ '' Creating project files...'') # t
            @ [Print (utf8 0x1F4C1 @ '' Created ''
                 @ str_nat (length (files_to_create (object s'))) @ '' files'')],
            Inr (), s'))"
    by (simp add: create_all_files_def exec assigned_def split: prod.splits sum.splits)
  show "events (create_all_files env s) =
     Print (utf8 0x1F4DD @ '' Creating project files...'') # events ?loop
     @ (case result ?loop of
          Inl e \<Rightarrow> []
        | Inr u \<Rightarrow>
            [Print (utf8 0x1F4C1 @ '' Created '' @ str_nat (length (all_files (object s)))
              @ '' files'')])"
    using o unfolding c
    by (auto simp: events_def result_def final_def assigned_def split: prod.splits sum.splits)
  show "result (create_all_files env s) = result ?loop"
    unfolding c by (auto simp: events_def result_def final_def split: prod.splits sum.splits)
  show "final (create_all_files env s) = final ?loop"
    unfolding c by (auto simp: events_def result_def final_def split: prod.splits sum.splits)
qed

lemma object_create_all_files:
  "object (final (create_all_files env s)) = (object s)\<lparr>files_to_create := all_files (object s)\<rparr>"
  by (simp add: create_all_files_run object_create_files assigned_def)

lemma within_create_all_files:
  "within self is_step (concat (map file_steps (all_files self))) (create_all_files env)"
  unfolding within_def
proof (intro allI impI)
  fix s :: state
  assume n: "project_name (object s) = project_name self"
  let ?loop = "block (map (create_file env) (all_files (object s))) (assigned s)"
  have "project_name (object (assigned s)) = project_name self"
    using n by (simp add: assigned_def)
  with within_create_files [of self "all_files (object s)" env]
  have "subseq (filter is_step (events ?loop)) (concat (map file_steps (all_files (object s))))"
    by (simp add: within_def)
  then have "subseq (filter is_step (events ?loop)) (concat (map file_steps (all_files self)))"
    using all_files_const [of "object s" self] by simp
  moreover have "\<not> is_step (Print (utf8 0x1F4DD @ '' Creating project files...''))"
    "\<not> is_step (Print (utf8 0x1F4C1 @ '' Created '' @ str_nat (length (all_files (object s)))
              @ '' files''))"
    by (rule not_step, simp add: utf8_values)+
  ultimately show "subseq (filter is_step (events (create_all_files env s)))
      (concat (map file_steps (all_files self)))
    \<and> project_name (object (final (create_all_files env s))) = project_name self"
    using n by (simp add: create_all_files_run(1) object_create_all_files split: sum.splits)
qed

lemma take3_replicate: "take 3 (replicate 60 c) = [c, c, c]"
  by (simp add: numeral_eq_Suc)

lemma within_run_setup: "within self is_step (expected_flow self) (run_setup env)"
proof -
  have r: "within self is_step [] (py_print (replicate 60 CHR ''=''))"
    by (rule within_message) (simp only: take3_replicate, simp)
  have b: "within self is_step
      (concat [[Print banner], [], [], concat (map file_steps (all_files self)),
        map Run (commands self), [Print summary]])
      (block [
             print_banner env,
             py_print (utf8 0x1F504 @ '' Starting one-click setup...''),
             py_print (replicate 60 CHR ''=''),
             create_all_files env,
             setup_git_and_deploy env,
             print_completion_summary])"
    by (rule within_block)
      (simp add: within_print_banner within_message utf8_values within_create_all_files
        within_setup_git_and_deploy print_completion_summary_def within_print r)
  have t: "within self is_step (expected_flow self @ [])
      (and_then
          (block [
             print_banner env,
             py_print (utf8 0x1F504 @ '' Starting one-click setup...''),
             py_print (replicate 60 CHR ''=''),
             create_all_files env,
             setup_git_and_deploy env,
             print_completion_summary])
          (\<lambda>u. ret True))"
    using within_and_then [OF b, of "[]" "\<lambda>u. ret True"]
    by (simp add: within_basic expected_flow_def)
  have a: "within self is_step ([] @ []) (and_then (py_print msg) (\<lambda>u. ret False))"
    if "take 3 msg \<noteq> [CHR 0x0A, CHR 0xE2, CHR 0x95]" for msg
    using that by (intro within_and_then within_message within_basic)
  have h: "within self is_step []
      (if e = KeyboardInterrupt
            then and_then
              (py_print (''\<newline>\<newline>'' @ utf8 0x274C @ '' Setup cancelled by user''))
              (\<lambda>u. ret False)
            else if is_Exception e
            then and_then
              (block [
                 py_print (''\<newline>'' @ utf8 0x274C @ '' Setup failed: '' @ str_of env e),
                 py_print ''Please check the error and try again.''])
              (\<lambda>u. ret False)
            else throw e)" for e
  proof -
    have "within self is_step ([] @ [])
        (and_then
              (block [
                 py_print (''\<newline>'' @ utf8 0x274C @ '' Setup failed: '' @ str_of env e),
                 py_print ''Please check the error and try again.''])
              (\<lambda>u. ret False))"
      by (intro within_and_then within_skip2 within_message within_basic)
        (simp_all add: utf8_values)
    then show ?thesis
      using a [of "''\<newline>\<newline>'' @ utf8 0x274C @ '' Setup cancelled by user''"]
      by (simp add: within_basic utf8_values del: block.simps)
  qed
  show ?thesis
    unfolding run_setup_def using within_try_except [OF t h] by simp
qed

lemma runs_filter: "runs (filter is_step t) = runs t"
  by (induction t rule: runs.induct) simp_all

lemma runs_subseq: "subseq t l \<Longrightarrow> subseq (runs t) (runs l)"
proof (induction rule: list_emb.induct)
  case (list_emb_Nil ys)
  then show ?case by simp
next
  case (list_emb_Cons xs ys y)
  then show ?case by (cases y) (simp_all add: list_emb.list_emb_Cons)
next
  case (list_emb_Cons2 x y xs ys)
  then show ?case by (cases y) simp_all
qed

lemma runs_map_Run [simp]: "runs (map Run cs) = cs"
  by (induction cs) simp_all

lemma runs_append [simp]: "runs (t @ u) = runs t @ runs u"
  by (induction t rule: runs.induct) simp_all

lemma runs_file_steps: "runs (concat (map file_steps xs)) = []"
  by (induction xs) (auto simp: file_steps_def)

lemma runs_expected_flow: "runs (expected_flow self) = commands self"
  by (simp add: expected_flow_def runs_file_steps)

lemma distinct_commands: "distinct (commands self)"
  by (simp add: commands_def git_init_def git_add_def git_commit_def gh_repo_create_def
      git_remote_add_def git_push_def vercel_prod_def)

lemma runs_run_setup: "subseq (runs (events (run_setup env s))) (commands (object s))"
proof -
  have "subseq (filter is_step (events (run_setup env s))) (expected_flow (object s))"
    using within_run_setup [of "object s" env] by (simp add: within_def)
  then have "subseq (runs (filter is_step (events (run_setup env s))))
      (runs (expected_flow (object s)))"
    by (rule runs_subseq)
  then show ?thesis by (simp add: runs_filter runs_expected_flow)
qed


lemma count_subseq: "subseq xs ys \<Longrightarrow> count_list xs x \<le> count_list ys x"
  by (induction rule: list_emb.induct) auto

lemma count_distinct: "distinct ys \<Longrightarrow> count_list ys x \<le> 1"
  by (induction ys) auto

subsection \<open>What the three try statements do\<close>

lemma create_github_repo_run:
  "result (create_github_repo env s) = Inr ()"
  "final (create_github_repo env s) = s"
  "events (create_github_repo env s) =
     Run (gh_repo_create (object s)) #
     (case failure_of env (gh_repo_create (object s)) of
        Some e \<Rightarrow> []
      | None \<Rightarrow>
          Run (git_remote_add (object s)) #
          (case failure_of env (git_remote_add (object s)) of
             Some e \<Rightarrow> []
           | None \<Rightarrow> [Run git_push]))
     @ [Print (case github_failure env (object s) of
          Some e \<Rightarrow> ''  '' @ utf8 0x26A0 @ utf8 0xFE0F
               @ ''  GitHub CLI not available - create repository manually''
        | None \<Rightarrow> ''  '' @ utf8 0x2705 @ '' GitHub repository created and pushed'')]"
  by (cases "failure_of env (gh_repo_create (object s))";
      cases "failure_of env (git_remote_add (object s))";
      cases "failure_of env git_push";
      simp add: create_github_repo_def github_failure_def exec)+

lemma initialize_git_run:
  "result (initialize_git env s) =
     (case git_failure env of
        Some e \<Rightarrow> if is_Exception e then Inr () else Inl e
      | None \<Rightarrow> Inr ())"
  "final (initialize_git env s) = s"
  "events (initialize_git env s) =
     Run git_init #
     (case failure_of env git_init of
        Some e \<Rightarrow> []
      | None \<Rightarrow>
          Run git_add #
          (case failure_of env git_add of
             Some e \<Rightarrow> []
           | None \<Rightarrow> [Run git_commit]))
     @ (case git_failure env of
          Some e \<Rightarrow>
            if is_Exception e
            then [Print (''  '' @ utf8 0x26A0 @ utf8 0xFE0F @ ''  Git setup failed: ''
                    @ str_of env e)]
            else []
        | None \<Rightarrow>
            Print (''  '' @ utf8 0x2705 @ '' Git repository initialized'')
            # events (create_github_repo env s))"
proof -
  obtain t where c: "create_github_repo env s = (t, Inr (), s)"
    using create_github_repo_run(1,2) [of env s]
    by (cases "create_github_repo env s") (simp add: result_def final_def)
  show "result (initialize_git env s) =
     (case git_failure env of
        Some e \<Rightarrow> if is_Exception e then Inr () else Inl e
      | None \<Rightarrow> Inr ())"
    by (cases "failure_of env git_init"; cases "failure_of env git_add";
      cases "failure_of env git_commit";
      simp add: initialize_git_def git_failure_def exec c)
  show "final (initialize_git env s) = s"
    using pure_initialize_git by (simp add: pure_def)
  show "events (initialize_git env s) =
     Run git_init #
     (case failure_of env git_init of
        Some e \<Rightarrow> []
      | None \<Rightarrow>
          Run git_add #
          (case failure_of env git_add of
             Some e \<Rightarrow> []
           | None \<Rightarrow> [Run git_commit]))
     @ (case git_failure env of
          Some e \<Rightarrow>
            if is_Exception e
            then [Print (''  '' @ utf8 0x26A0 @ utf8 0xFE0F @ ''  Git setup failed: ''
                    @ str_of env e)]
            else []
        | None \<Rightarrow>
            Print (''  '' @ utf8 0x2705 @ '' Git repository initialized'')
            # events (create_github_repo env s))"
    by (cases "failure_of env git_init"; cases "failure_of env git_add";
      cases "failure_of env git_commit";
      simp add: initialize_git_def git_failure_def exec c)
qed

lemma deploy_to_vercel_run:
  "result (deploy_to_vercel env s) =
     (case proc env vercel_prod of
        Raises e \<Rightarrow> if e = FileNotFoundError then Inr () else Inl e
      | Completed rc out \<Rightarrow> Inr ())"
  "final (deploy_to_vercel env s) = s"
  "events (deploy_to_vercel env s) =
     Run vercel_prod #
     (case proc env vercel_prod of
        Raises e \<Rightarrow>
          if e = FileNotFoundError
          then [Print (''  '' @ utf8 0x274C @ '' Vercel CLI not found''),
                Print (''  '' @ utf8 0x1F4A1 @ '' Install Vercel CLI: npm install -g vercel'')]
          else []
      | Completed rc out \<Rightarrow>
          if rc = 0
          then Print (''  '' @ utf8 0x2705 @ '' Deployed to Vercel successfully!'')
               # events (print_live_url out s)
          else [Print (''  '' @ utf8 0x274C @ '' Vercel deployment failed''),
                Print (''  '' @ utf8 0x1F4A1 @ '' Install Vercel CLI: npm install -g vercel'')])"
proof -
  have p: "\<exists>t. print_live_url out s = (t, Inr (), s)" for out
    by (simp add: print_live_url_def exec split: option.splits)
  show "final (deploy_to_vercel env s) = s"
    using pure_deploy_to_vercel by (simp add: pure_def)
  show "result (deploy_to_vercel env s) =
     (case proc env vercel_prod of
        Raises e \<Rightarrow> if e = FileNotFoundError then Inr () else Inl e
      | Completed rc out \<Rightarrow> Inr ())"
  proof (cases "proc env vercel_prod")
    case (Completed rc out)
    from p obtain t where "print_live_url out s = (t, Inr (), s)" by blast
    then show ?thesis
      using Completed by (simp add: deploy_to_vercel_def exec subprocess_run_def)
  next
    case (Raises e)
    then show ?thesis by (simp add: deploy_to_vercel_def exec subprocess_run_def)
  qed
  show "events (deploy_to_vercel env s) =
     Run vercel_prod #
     (case proc env vercel_prod of
        Raises e \<Rightarrow>
          if e = FileNotFoundError
          then [Print (''  '' @ utf8 0x274C @ '' Vercel CLI not found''),
                Print (''  '' @ utf8 0x1F4A1 @ '' Install Vercel CLI: npm install -g vercel'')]
          else []
      | Completed rc out \<Rightarrow>
          if rc = 0
          then Print (''  '' @ utf8 0x2705 @ '' Deployed to Vercel successfully!'')
               # events (print_live_url out s)
          else [Print (''  '' @ utf8 0x274C @ '' Vercel deployment failed''),
                Print (''  '' @ utf8 0x1F4A1 @ '' Install Vercel CLI: npm install -g vercel'')])"
  proof (cases "proc env vercel_prod")
    case (Completed rc out)
    from p obtain t where "print_live_url out s = (t, Inr (), s)" by blast
    then show ?thesis
      using Completed by (simp add: deploy_to_vercel_def exec subprocess_run_def)
  next
    case (Raises e)
    then show ?thesis by (simp add: deploy_to_vercel_def exec subprocess_run_def)
  qed
qed

lemma setup_git_and_deploy_run:
  "result (setup_git_and_deploy env s) =
     (case result (initialize_git env s) of
        Inl e \<Rightarrow> Inl e
      | Inr u \<Rightarrow> result (deploy_to_vercel env s))"
  "final (setup_git_and_deploy env s) = s"
  "events (setup_git_and_deploy env s) =
     Print (''\<newline>'' @ utf8 0x1F504 @ '' Setting up Git repository...'')
     # events (initialize_git env s)
     @ (case result (initialize_git env s) of
          Inl e \<Rightarrow> []
        | Inr u \<Rightarrow>
            Print (''\<newline>'' @ utf8 0x1F310 @ '' Deploying to Vercel...'')
            # events (deploy_to_vercel env s))"
proof -
  obtain t r where i: "initialize_git env s = (t, r, s)"
    using initialize_git_run(2) [of env s] by (cases "initialize_git env s") (simp add: final_def)
  obtain t' r' where d: "deploy_to_vercel env s = (t', r', s)"
    using deploy_to_vercel_run(2) [of env s] by (cases "deploy_to_vercel env s") (simp add: final_def)
  show "result (setup_git_and_deploy env s) =
     (case result (initialize_git env s) of
        Inl e \<Rightarrow> Inl e
      | Inr u \<Rightarrow> result (deploy_to_vercel env s))"
    by (cases r; cases r') (simp_all add: setup_git_and_deploy_def exec i d)
  show "final (setup_git_and_deploy env s) = s"
    using pure_setup_git_and_deploy by (simp add: pure_def)
  show "events (setup_git_and_deploy env s) =
     Print (''\<newline>'' @ utf8 0x1F504 @ '' Setting up Git repository...'')
     # events (initialize_git env s)
     @ (case result (initialize_git env s) of
          Inl e \<Rightarrow> []
        | Inr u \<Rightarrow>
            Print (''\<newline>'' @ utf8 0x1F310 @ '' Deploying to Vercel...'')
            # events (deploy_to_vercel env s))"
    by (cases r; cases r') (simp_all add: setup_git_and_deploy_def exec i d)
qed

lemma runs_print_live_url: "runs (events (print_live_url out s)) = []"
  by (simp add: print_live_url_def exec split: option.splits)

lemma runs_deploy_to_vercel: "runs (events (deploy_to_vercel env s)) = [vercel_prod]"
  by (simp add: deploy_to_vercel_run(3) runs_print_live_url split: outcome.splits)

lemma git_failure_None:
  "git_failure env = None \<longleftrightarrow>
     failure_of env git_init = None \<and> failure_of env git_add = None
     \<and> failure_of env git_commit = None"
  by (simp add: git_failure_def split: option.splits)

lemma print_banner_run:
  "final (print_banner env s) = s"
  "result (print_banner env s) =
     (case stdin env of
        Inr line \<Rightarrow> Inr ()
      | Inl e \<Rightarrow> if e = KeyboardInterrupt then Inl (SystemExit 1) else Inl e)"
  "events (print_banner env s) =
     [Print banner, Input]
     @ (if stdin env = Inl KeyboardInterrupt
        then [Print (''\<newline>\<newline>'' @ utf8 0x274C @ '' Setup cancelled by user'')]
        else [])"
  by (cases "stdin env"; simp add: print_banner_def exec)+

text \<open>The result of the statements in the \<open>try\<close> of \<open>run_setup\<close>.\<close>

lemma run_setup_result:
  "result (run_setup env s) =
     (case (case result (print_banner env s) of
              Inl e \<Rightarrow> Inl e
            | Inr u \<Rightarrow>
                (case result (create_all_files env s) of
                   Inl e \<Rightarrow> Inl e
                 | Inr u \<Rightarrow> result (setup_git_and_deploy env (final (create_all_files env s))))) of
        Inr u \<Rightarrow> Inr True
      | Inl e \<Rightarrow> if e = KeyboardInterrupt \<or> is_Exception e then Inr False else Inl e)"
proof -
  obtain tb rb where b: "print_banner env s = (tb, rb, s)"
    using print_banner_run(1) [of env s] by (cases "print_banner env s") (simp add: final_def)
  obtain tc rc s1 where c: "create_all_files env s = (tc, rc, s1)"
    by (cases "create_all_files env s")
  obtain tg rg where g: "setup_git_and_deploy env s1 = (tg, rg, s1)"
    using setup_git_and_deploy_run(2) [of env s1]
    by (cases "setup_git_and_deploy env s1") (simp add: final_def)
  show ?thesis
    by (cases rb; cases rc; cases rg)
      (simp_all add: run_setup_def exec b c g print_completion_summary_def)
qed

lemma create_all_files_fresh:
  assumes "fault env = (\<lambda>p. None)"
  shows "result (create_all_files env (fresh empty_disk)) = Inr ()"
  using assms
  by (simp add: create_all_files_run(2) all_files_def create_file_def dirname_def parts_def
      mkdir_def open_write_def exec empty_disk_def assigned_def fresh_def Let_def)

lemma main_run:
  "result (main env d) = result (run_setup env (fresh d))"
  "final (main env d) = final (run_setup env (fresh d))"
  "events (main env d) =
     events (run_setup env (fresh d))
     @ (case result (run_setup env (fresh d)) of
          Inl e \<Rightarrow> []
        | Inr success \<Rightarrow>
            [Print (if success
               then ''\<newline>'' @ utf8 0x2705 @ '' Setup completed successfully!''
               else ''\<newline>'' @ utf8 0x274C @ '' Setup encountered errors.'')])"
proof -
  obtain t r s' where m: "run_setup env (fresh d) = (t, r, s')"
    by (cases "run_setup env (fresh d)")
  show "result (main env d) = result (run_setup env (fresh d))"
    by (cases r) (auto simp: main_def exec m)
  show "final (main env d) = final (run_setup env (fresh d))"
    by (cases r) (auto simp: main_def exec m)
  show "events (main env d) =
     events (run_setup env (fresh d))
     @ (case result (run_setup env (fresh d)) of
          Inl e \<Rightarrow> []
        | Inr success \<Rightarrow>
            [Print (if success
               then ''\<newline>'' @ utf8 0x2705 @ '' Setup completed successfully!''
               else ''\<newline>'' @ utf8 0x274C @ '' Setup encountered errors.'')])"
    by (cases r) (auto simp: main_def exec m)
qed

lemma vercel_in_runs:
  "vercel_prod \<in> set (runs (events (setup_git_and_deploy env s)))
     \<longleftrightarrow> result (initialize_git env s) = Inr ()"
proof -
  have n: "vercel_prod \<notin> set (runs (events (initialize_git env s)))"
    by (simp add: initialize_git_run(3) create_github_repo_run(3) vercel_prod_def git_init_def
        git_add_def git_commit_def gh_repo_create_def git_remote_add_def git_push_def
        split: option.splits)
  show ?thesis
    using n
    by (cases "result (initialize_git env s)")
      (simp_all add: setup_git_and_deploy_run(3) runs_deploy_to_vercel)
qed

subsection \<open>What the file system calls do to the disk\<close>

lemma mkdir_parents_grows:
  "mkdir_parents env pre cs d = (r, d') \<Longrightarrow>
     d' q = d q \<or> (d q = None \<and> d' q = Some Dir \<and> q \<in> set (chain pre cs))"
proof (induction cs arbitrary: pre d)
  case Nil
  then show ?case by simp
next
  case (Cons c cs)
  show ?case
  proof (cases "d (pre @ [c])")
    case None
    show ?thesis
    proof (cases "fault env (pre @ [c])")
      case (Some e)
      with None Cons.prems show ?thesis by simp
    next
      case n: None
      with None Cons.prems
      have "mkdir_parents env (pre @ [c]) cs (d((pre @ [c]) \<mapsto> Dir)) = (r, d')" by simp
      from Cons.IH [OF this] None show ?thesis by (auto split: if_splits)
    qed
  next
    case (Some n)
    with Cons.prems Cons.IH show ?thesis by (cases n) auto
  qed
qed

lemma mkdir_parents_made:
  "mkdir_parents env pre cs d = (Inr (), d') \<Longrightarrow> q \<in> set (chain pre cs) \<Longrightarrow> d' q = Some Dir"
proof (induction cs arbitrary: pre d)
  case Nil
  then show ?case by simp
next
  case (Cons c cs)
  have "\<exists>d1. mkdir_parents env (pre @ [c]) cs d1 = (Inr (), d') \<and> d1 (pre @ [c]) = Some Dir"
    using Cons.prems(1) by (auto split: option.splits node.splits if_splits)
  then obtain d1 where m: "mkdir_parents env (pre @ [c]) cs d1 = (Inr (), d')"
    and h: "d1 (pre @ [c]) = Some Dir"
    by blast
  show ?case
  proof (cases "q = pre @ [c]")
    case True
    with mkdir_parents_grows [OF m, of q] h show ?thesis by auto
  next
    case False
    with Cons.prems(2) have "q \<in> set (chain (pre @ [c]) cs)" by simp
    from Cons.IH [OF m this] show ?thesis .
  qed
qed

lemma last_of_chain: "cs \<noteq> [] \<Longrightarrow> pre @ cs \<in> set (chain pre cs)"
proof (induction cs arbitrary: pre)
  case Nil
  then show ?case by simp
next
  case (Cons c cs)
  show ?case
  proof (cases "cs = []")
    case True
    then show ?thesis by simp
  next
    case False
    from Cons.IH [OF False, of "pre @ [c]"] show ?thesis by simp
  qed
qed

lemma mkdir_run:
  "events (mkdir env dir s) = [Mkdir dir]"
  "object (final (mkdir env dir s)) = object s"
  "disk (final (mkdir env dir s)) q = disk s q
     \<or> (disk s q = None \<and> disk (final (mkdir env dir s)) q = Some Dir
        \<and> q \<in> set (chain [] (parts dir)))"
  "result (mkdir env dir s) = Inr () \<Longrightarrow> q \<in> set (chain [] (parts dir))
     \<Longrightarrow> disk (final (mkdir env dir s)) q = Some Dir"
proof -
  obtain r d' where m: "mkdir_parents env [] (parts dir) (disk s) = (r, d')"
    by (cases "mkdir_parents env [] (parts dir) (disk s)")
  show "events (mkdir env dir s) = [Mkdir dir]" "object (final (mkdir env dir s)) = object s"
    by (simp_all add: mkdir_def m)
  show "disk (final (mkdir env dir s)) q = disk s q
     \<or> (disk s q = None \<and> disk (final (mkdir env dir s)) q = Some Dir
        \<and> q \<in> set (chain [] (parts dir)))"
    using mkdir_parents_grows [OF m, of q] by (simp add: mkdir_def m)
  show "disk (final (mkdir env dir s)) q = Some Dir"
    if "result (mkdir env dir s) = Inr ()" "q \<in> set (chain [] (parts dir))"
    using that mkdir_parents_made [of env "[]" "parts dir" "disk s" d' q] m
    by (simp add: mkdir_def)
qed

lemma open_write_run:
  "events (open_write env f c s) = [Write f c]"
  "object (final (open_write env f c s)) = object s"
  "result (open_write env f c s) = Inr () \<Longrightarrow>
     disk (final (open_write env f c s)) = (disk s)(parts f \<mapsto> File c)
     \<and> disk s (parts f) \<noteq> Some Dir"
  by (auto simp: open_write_def Let_def split: option.splits node.splits if_splits)

lemma and_then_Inr:
  assumes "result (and_then m f s) = Inr y"
  obtains x where "result (m s) = Inr x"
    and "result (f x (final (m s))) = Inr y"
    and "final (and_then m f s) = final (f x (final (m s)))"
    and "events (and_then m f s) = events (m s) @ events (f x (final (m s)))"
proof (cases "result (m s)")
  case (Inl e)
  with assms show ?thesis by (simp add: and_then_cases)
next
  case (Inr x)
  with assms that [of x] show ?thesis by (simp add: and_then_cases)
qed

lemma writes_append [simp]: "writes (t @ u) = writes t @ writes u"
  by (induction t rule: writes.induct) simp_all

text \<open>One file: its directory, then the file.\<close>

lemma create_file_effect:
  assumes ok: "result (create_file env (f, c) s) = Inr ()"
  shows "disk (final (create_file env (f, c) s)) (parts f) = Some (File c)"
    and "q \<noteq> parts f \<Longrightarrow>
      disk (final (create_file env (f, c) s)) q = disk s q
      \<or> (disk s q = None \<and> disk (final (create_file env (f, c) s)) q = Some Dir
         \<and> q \<in> set (directories [(f, c)]))"
    and "disk s q = Some Dir \<Longrightarrow> disk (final (create_file env (f, c) s)) q = Some Dir"
    and "q \<in> set (directories [(f, c)])
      \<Longrightarrow> disk (final (create_file env (f, c) s)) q = Some Dir"
    and "writes (events (create_file env (f, c) s)) = [(f, c)]"
proof -
  define mk where "mk = (if dirname f \<noteq> [] then mkdir env (dirname f) else ret ())"
  define pr where "pr = py_print (''  '' @ utf8 0x2705 @ '' Created: '' @ f)"
  have cf: "create_file env (f, c) =
      and_then mk (\<lambda>u. and_then (open_write env f c) (\<lambda>u. and_then pr (\<lambda>u. ret ())))"
    by (simp add: create_file_def mk_def pr_def Let_def)
  from ok obtain u where m: "result (mk s) = Inr u"
    and r1: "result (and_then (open_write env f c) (\<lambda>u. and_then pr (\<lambda>u. ret ())) (final (mk s)))
        = Inr ()"
    and f1: "final (create_file env (f, c) s)
        = final (and_then (open_write env f c) (\<lambda>u. and_then pr (\<lambda>u. ret ())) (final (mk s)))"
    and e1: "events (create_file env (f, c) s)
        = events (mk s)
          @ events (and_then (open_write env f c) (\<lambda>u. and_then pr (\<lambda>u. ret ())) (final (mk s)))"
    unfolding cf by (rule and_then_Inr)
  define s1 where "s1 = final (mk s)"
  from r1 obtain u' where w: "result (open_write env f c s1) = Inr u'"
    and f2: "final (and_then (open_write env f c) (\<lambda>u. and_then pr (\<lambda>u. ret ())) s1)
        = final (and_then pr (\<lambda>u. ret ()) (final (open_write env f c s1)))"
    and e2: "events (and_then (open_write env f c) (\<lambda>u. and_then pr (\<lambda>u. ret ())) s1)
        = events (open_write env f c s1)
          @ events (and_then pr (\<lambda>u. ret ()) (final (open_write env f c s1)))"
    unfolding s1_def by (rule and_then_Inr)
  have fin: "final (create_file env (f, c) s) = final (open_write env f c s1)"
    using f1 f2 by (simp add: s1_def pr_def exec)
  have d1: "disk (final (open_write env f c s1)) = (disk s1)(parts f \<mapsto> File c)"
    and nd: "disk s1 (parts f) \<noteq> Some Dir"
    using open_write_run(3) [of env f c s1] w by simp_all
  have g: "disk s1 q' = disk s q'
      \<or> (disk s q' = None \<and> disk s1 q' = Some Dir \<and> q' \<in> set (directories [(f, c)]))" for q'
    using mkdir_run(3) [of env "dirname f" s q']
    by (simp add: s1_def mk_def exec directories_def)
  show "disk (final (create_file env (f, c) s)) (parts f) = Some (File c)"
    by (simp add: fin d1)
  show "disk (final (create_file env (f, c) s)) q = disk s q
      \<or> (disk s q = None \<and> disk (final (create_file env (f, c) s)) q = Some Dir
         \<and> q \<in> set (directories [(f, c)]))"
    if "q \<noteq> parts f"
    using that g [of q] by (simp add: fin d1)
  show "disk (final (create_file env (f, c) s)) q = Some Dir" if "disk s q = Some Dir"
  proof -
    from that g [of q] have "disk s1 q = Some Dir" by auto
    with nd have "q \<noteq> parts f" by auto
    with \<open>disk s1 q = Some Dir\<close> show ?thesis by (simp add: fin d1)
  qed
  show "disk (final (create_file env (f, c) s)) q = Some Dir"
    if "q \<in> set (directories [(f, c)])"
  proof -
    from that have t: "dirname f \<noteq> []" "q \<in> set (chain [] (parts (dirname f)))"
      by (simp_all add: directories_def split: if_splits)
    have "disk s1 q = Some Dir"
      using t m mkdir_run(4) [of env "dirname f" s q] by (simp add: s1_def mk_def)
    moreover from this nd have "q \<noteq> parts f" by auto
    ultimately show ?thesis by (simp add: fin d1)
  qed
  have "writes (events (mk s)) = []"
    by (simp add: mk_def mkdir_run(1) exec)
  then show "writes (events (create_file env (f, c) s)) = [(f, c)]"
    using e1 e2 by (simp add: s1_def open_write_run(1) pr_def exec)
qed

text \<open>The loop over the dictionary.\<close>

lemma directories_Cons:
  "set (directories (x # xs)) = set (directories [x]) \<union> set (directories xs)"
  by (simp add: directories_def)

lemma create_files_effect:
  "result (block (map (create_file env) xs) s) = Inr () \<Longrightarrow>
     loop_effect xs (disk s) (disk (final (block (map (create_file env) xs) s)))
     \<and> writes (events (block (map (create_file env) xs) s)) = xs"
proof (induction xs arbitrary: s)
  case Nil
  then show ?case by (simp add: exec loop_effect_def directories_def)
next
  case (Cons x xs)
  obtain g k where x: "x = (g, k)" by (cases x)
  define s1 where "s1 = final (create_file env (g, k) s)"
  define d1 where "d1 = disk s1"
  define d' where "d' = disk (final (block (map (create_file env) xs) s1))"
  have "result (create_file env (g, k) s) = Inr ()
     \<and> result (block (map (create_file env) xs) s1) = Inr ()
     \<and> final (block (map (create_file env) (x # xs)) s) = final (block (map (create_file env) xs) s1)
     \<and> events (block (map (create_file env) (x # xs)) s)
         = events (create_file env (g, k) s) @ events (block (map (create_file env) xs) s1)"
    using Cons.prems unfolding x s1_def list.map block.simps
    by (elim and_then_Inr) simp
  then have a: "result (create_file env (g, k) s) = Inr ()"
    and b: "result (block (map (create_file env) xs) s1) = Inr ()"
    and fin: "disk (final (block (map (create_file env) (x # xs)) s)) = d'"
    and ev: "events (block (map (create_file env) (x # xs)) s)
         = events (create_file env (g, k) s) @ events (block (map (create_file env) xs) s1)"
    by (simp_all add: d'_def)
  from Cons.IH [OF b] have ih: "loop_effect xs d1 d'"
    and w: "writes (events (block (map (create_file env) xs) s1)) = xs"
    by (simp_all add: d1_def d'_def)
  have c1: "d1 (parts g) = Some (File k)"
    using create_file_effect(1) [OF a] by (simp add: d1_def s1_def)
  have c2: "d1 q = disk s q \<or> (disk s q = None \<and> d1 q = Some Dir \<and> q \<in> set (directories [x]))"
    if "q \<noteq> parts g" for q
    using create_file_effect(2) [OF a that] by (simp add: d1_def s1_def x)
  have c3: "d1 q = Some Dir" if "disk s q = Some Dir" for q
    using create_file_effect(3) [OF a that] by (simp add: d1_def s1_def)
  have c4: "d1 q = Some Dir" if "q \<in> set (directories [x])" for q
    using create_file_effect(4) [OF a, of q] that by (simp add: d1_def s1_def x)
  have i1: "d' q = d1 q \<or> (d1 q = None \<and> d' q = Some Dir \<and> q \<in> set (directories xs))"
    if "q \<notin> set (map (parts \<circ> fst) xs)" for q
    using ih that by (simp add: loop_effect_def)
  have i2: "d' q = Some Dir" if "d1 q = Some Dir" for q
    using ih that by (simp add: loop_effect_def)
  have i3: "d' (parts f) = Some (File c)"
    if "distinct (map (parts \<circ> fst) xs)" "(f, c) \<in> set xs" for f c
    using ih that by (auto simp: loop_effect_def)
  have i4: "d' q = Some Dir" if "q \<in> set (directories xs)" for q
    using ih that by (auto simp: loop_effect_def)
  have "loop_effect (x # xs) (disk s) d'"
    unfolding loop_effect_def
  proof (intro conjI allI impI ballI)
    fix q
    assume "q \<notin> set (map (parts \<circ> fst) (x # xs))"
    then have "q \<noteq> parts g" "q \<notin> set (map (parts \<circ> fst) xs)" by (simp_all add: x)
    with c2 [of q] i1 [of q] i2 [of q]
    show "d' q = disk s q
        \<or> (disk s q = None \<and> d' q = Some Dir \<and> q \<in> set (directories (x # xs)))"
      unfolding directories_Cons [of x xs] by auto
  next
    fix q
    assume "disk s q = Some Dir"
    then show "d' q = Some Dir" using c3 i2 by blast
  next
    fix y
    assume dist: "distinct (map (parts \<circ> fst) (x # xs))" and y: "y \<in> set (x # xs)"
    obtain f c where yy: "y = (f, c)" by (cases y)
    from dist have n: "parts g \<notin> set (map (parts \<circ> fst) xs)"
      and d: "distinct (map (parts \<circ> fst) xs)"
      by (simp_all add: x)
    have "d' (parts f) = Some (File c)"
    proof (cases "(f, c) = (g, k)")
      case True
      with i1 [OF n] c1 show ?thesis by auto
    next
      case False
      with y have "(f, c) \<in> set xs" by (auto simp: x yy)
      with i3 d show ?thesis by blast
    qed
    then show "case y of (f, c) \<Rightarrow> d' (parts f) = Some (File c)" by (simp add: yy)
  next
    fix q
    assume "q \<in> set (directories (x # xs))"
    then have "q \<in> set (directories [x]) \<or> q \<in> set (directories xs)"
      unfolding directories_Cons [of x xs] by simp
    then show "d' q = Some Dir" using c4 i2 i4 by blast
  qed
  moreover have "writes (events (block (map (create_file env) (x # xs)) s)) = x # xs"
    unfolding ev using create_file_effect(5) [OF a] w by (simp add: x)
  ultimately show ?case unfolding fin by (rule conjI)
qed

subsection \<open>The sixteen paths\<close>

lemma paths_of_all_files:
  "map fst (all_files self) =
      [''api/launch.py'', ''api/scaling.py'', ''api/status.py'', ''api/ai-learning.py'',
       ''frontend/index.html'', ''core/__init__.py'', ''core/scaling_engine.py'',
       ''utils/__init__.py'', ''utils/config.py'', ''vercel.json'', ''package.json'',
       ''requirements.txt'', ''.env.example'', ''README.md'', ''.github/workflows/deploy.yml'',
       ''deploy.py'']"
  by (simp add: all_files_def)

lemma parts_of_all_files:
  "map (parts \<circ> fst) (all_files self) =
      [[''api'', ''launch.py''], [''api'', ''scaling.py''], [''api'', ''status.py''],
       [''api'', ''ai-learning.py''], [''frontend'', ''index.html''],
       [''core'', ''__init__.py''], [''core'', ''scaling_engine.py''],
       [''utils'', ''__init__.py''], [''utils'', ''config.py''], [''vercel.json''],
       [''package.json''], [''requirements.txt''], [''.env.example''], [''README.md''],
       [''.github'', ''workflows'', ''deploy.yml''], [''deploy.py'']]"
  by (simp add: all_files_def parts_def)

lemma distinct_paths: "distinct (map (parts \<circ> fst) (all_files self))"
  unfolding parts_of_all_files by simp

lemma directories_of_all_files:
  "set (directories (all_files self)) =
     {[''api''], [''frontend''], [''core''], [''utils''], [''.github''],
      [''.github'', ''workflows'']}"
  by (simp add: directories_def all_files_def dirname_def parts_def insert_commute)

subsection \<open>The contents of the files are never read\<close>

lemma shape_eq: "shape d1 = shape d2 \<Longrightarrow> shape d1 p = shape d2 p"
  by simp

lemma shape_cases:
  "shape d p = None \<longleftrightarrow> d p = None"
  "shape d p = Some True \<longleftrightarrow> d p = Some Dir"
  "shape d p = Some False \<longleftrightarrow> (\<exists>c. d p = Some (File c))"
  by (auto simp: shape_def split: option.splits node.splits)

lemma shape_upd:
  "shape d1 = shape d2 \<Longrightarrow> shape (d1(p \<mapsto> Dir)) = shape (d2(p \<mapsto> Dir))"
  "shape d1 = shape d2 \<Longrightarrow> shape (d1(p \<mapsto> File c)) = shape (d2(p \<mapsto> File c))"
  by (rule ext, drule_tac p = x in shape_eq, simp add: shape_def)+

lemma mkdir_parents_shape:
  "shape d1 = shape d2 \<Longrightarrow>
     fst (mkdir_parents env pre cs d1) = fst (mkdir_parents env pre cs d2)
     \<and> shape (snd (mkdir_parents env pre cs d1)) = shape (snd (mkdir_parents env pre cs d2))"
proof (induction cs arbitrary: pre d1 d2)
  case Nil
  then show ?case by simp
next
  case (Cons c cs)
  from Cons.prems have e: "shape d2 (pre @ [c]) = shape d1 (pre @ [c])" by simp
  show ?case
  proof (cases "shape d1 (pre @ [c])")
    case None
    with e have n: "d1 (pre @ [c]) = None" "d2 (pre @ [c]) = None"
      by (simp_all add: shape_cases)
    show ?thesis
    proof (cases "fault env (pre @ [c])")
      case (Some x)
      with n Cons.prems show ?thesis by simp
    next
      case f: None
      from Cons.prems have "shape (d1((pre @ [c]) \<mapsto> Dir)) = shape (d2((pre @ [c]) \<mapsto> Dir))"
        by (rule shape_upd)
      note ih = Cons.IH [OF this, of "pre @ [c]"]
      have l: "mkdir_parents env pre (c # cs) d1
          = mkdir_parents env (pre @ [c]) cs (d1((pre @ [c]) \<mapsto> Dir))"
        "mkdir_parents env pre (c # cs) d2
          = mkdir_parents env (pre @ [c]) cs (d2((pre @ [c]) \<mapsto> Dir))"
        using n f by simp_all
      show ?thesis unfolding l by (rule ih)
    qed
  next
    case (Some b)
    show ?thesis
    proof (cases b)
      case True
      from Some e have "shape d2 (pre @ [c]) = Some b" by simp
      with Some True have "d1 (pre @ [c]) = Some Dir" "d2 (pre @ [c]) = Some Dir"
        by (simp_all add: shape_cases)
      with Cons.IH [OF Cons.prems] show ?thesis by simp
    next
      case False
      from Some e have "shape d2 (pre @ [c]) = Some b" by simp
      with Some False have "\<exists>x. d1 (pre @ [c]) = Some (File x)" "\<exists>y. d2 (pre @ [c]) = Some (File y)"
        by (simp_all add: shape_cases)
      then obtain x y where "d1 (pre @ [c]) = Some (File x)" "d2 (pre @ [c]) = Some (File y)"
        by blast
      with Cons.prems show ?thesis by simp
    qed
  qed
qed

lemma resolve_parent_shape:
  "shape d1 = shape d2 \<Longrightarrow> resolve_parent d1 pre cs = resolve_parent d2 pre cs"
proof (induction d1 pre cs rule: resolve_parent.induct)
  case (1 d pre)
  then show ?case by simp
next
  case (2 d pre c)
  then show ?case by simp
next
  case (3 d pre c v va)
  from 3(2) have e: "shape d2 (pre @ [c]) = shape d (pre @ [c])" by simp
  show ?case
  proof (cases "shape d (pre @ [c])")
    case None
    with e have "d (pre @ [c]) = None" "d2 (pre @ [c]) = None" by (simp_all add: shape_cases)
    then show ?thesis by simp
  next
    case (Some b)
    show ?thesis
    proof (cases b)
      case True
      from Some e have "shape d2 (pre @ [c]) = Some b" by simp
      with Some True have t: "d (pre @ [c]) = Some Dir" "d2 (pre @ [c]) = Some Dir"
        by (simp_all add: shape_cases)
      with 3(1) [OF t(1) _ 3(2)] show ?thesis by simp
    next
      case False
      from Some e have "shape d2 (pre @ [c]) = Some b" by simp
      with Some False have "\<exists>x. d (pre @ [c]) = Some (File x)" "\<exists>y. d2 (pre @ [c]) = Some (File y)"
        by (simp_all add: shape_cases)
      then obtain x y where "d (pre @ [c]) = Some (File x)" "d2 (pre @ [c]) = Some (File y)"
        by blast
      then show ?thesis by simp
    qed
  qed
qed

lemma same_shape_refl: "same_shape s s"
  by (simp add: same_shape_def)

lemma blind_basic:
  "content_blind (ret x)" "content_blind (throw e)" "content_blind (emit ev)"
  "content_blind (py_print t)" "content_blind (input env)"
  "content_blind (subprocess_run env argv check)" "content_blind (run_checked env argv)"
  by (simp_all add: content_blind_def exec subprocess_run_def)

lemma blind_and_then:
  assumes m: "content_blind m" and f: "\<And>x. content_blind (f x)"
  shows "content_blind (and_then m f)"
  unfolding content_blind_def
proof (intro allI impI)
  fix s s' :: state
  assume "same_shape s s'"
  with m have e: "events (m s) = events (m s')" and r: "result (m s) = result (m s')"
    and n: "same_shape (final (m s)) (final (m s'))"
    by (simp_all add: content_blind_def)
  show "events (and_then m f s) = events (and_then m f s')
      \<and> result (and_then m f s) = result (and_then m f s')
      \<and> same_shape (final (and_then m f s)) (final (and_then m f s'))"
  proof (cases "result (m s)")
    case (Inl x)
    with r have "result (m s') = Inl x" by simp
    with Inl e n show ?thesis by (simp add: and_then_cases)
  next
    case (Inr x)
    with r have r': "result (m s') = Inr x" by simp
    from f n have "events (f x (final (m s))) = events (f x (final (m s')))"
      "result (f x (final (m s))) = result (f x (final (m s')))"
      "same_shape (final (f x (final (m s)))) (final (f x (final (m s'))))"
      by (simp_all add: content_blind_def)
    with Inr r' e show ?thesis by (simp add: and_then_cases)
  qed
qed

lemma blind_try_except:
  assumes m: "content_blind m" and h: "\<And>x. content_blind (h x)"
  shows "content_blind (try_except m h)"
  unfolding content_blind_def
proof (intro allI impI)
  fix s s' :: state
  assume "same_shape s s'"
  with m have e: "events (m s) = events (m s')" and r: "result (m s) = result (m s')"
    and n: "same_shape (final (m s)) (final (m s'))"
    by (simp_all add: content_blind_def)
  show "events (try_except m h s) = events (try_except m h s')
      \<and> result (try_except m h s) = result (try_except m h s')
      \<and> same_shape (final (try_except m h s)) (final (try_except m h s'))"
  proof (cases "result (m s)")
    case (Inr x)
    with r have "result (m s') = Inr x" by simp
    with Inr e n show ?thesis by (simp add: try_except_cases)
  next
    case (Inl x)
    with r have r': "result (m s') = Inl x" by simp
    from h n have "events (h x (final (m s))) = events (h x (final (m s')))"
      "result (h x (final (m s))) = result (h x (final (m s')))"
      "same_shape (final (h x (final (m s)))) (final (h x (final (m s'))))"
      by (simp_all add: content_blind_def)
    with Inl r' e show ?thesis by (simp add: try_except_cases)
  qed
qed

lemma blind_block: "(\<And>m. m \<in> set ms \<Longrightarrow> content_blind m) \<Longrightarrow> content_blind (block ms)"
  by (induction ms) (simp_all add: blind_basic blind_and_then)

lemma blind_with_self:
  assumes "\<And>self. content_blind (f self)"
  shows "content_blind (with_self f)"
  unfolding content_blind_def
proof (intro allI impI)
  fix s s' :: state
  assume a: "same_shape s s'"
  then have o: "object s' = object s" by (simp add: same_shape_def)
  from assms [of "object s"] a
  show "events (with_self f s) = events (with_self f s')
      \<and> result (with_self f s) = result (with_self f s')
      \<and> same_shape (final (with_self f s)) (final (with_self f s'))"
    unfolding with_self_def o content_blind_def by blast
qed

lemma blind_if: "content_blind a \<Longrightarrow> content_blind b \<Longrightarrow> content_blind (if c then a else b)"
  by simp

lemma blind_print_live_url: "content_blind (print_live_url out)"
  by (simp add: print_live_url_def blind_basic split: option.splits)

lemma blind_mkdir: "content_blind (mkdir env dir)"
  unfolding content_blind_def
proof (intro allI impI)
  fix s s' :: state
  assume a: "same_shape s s'"
  then have sh: "shape (disk s) = shape (disk s')" and o: "object s = object s'"
    by (simp_all add: same_shape_def)
  obtain r d where m: "mkdir_parents env [] (parts dir) (disk s) = (r, d)"
    by (cases "mkdir_parents env [] (parts dir) (disk s)")
  obtain r' d' where m': "mkdir_parents env [] (parts dir) (disk s') = (r', d')"
    by (cases "mkdir_parents env [] (parts dir) (disk s')")
  from mkdir_parents_shape [OF sh, of env "[]" "parts dir"] have "r = r'" "shape d = shape d'"
    by (simp_all add: m m')
  then show "events (mkdir env dir s) = events (mkdir env dir s')
      \<and> result (mkdir env dir s) = result (mkdir env dir s')
      \<and> same_shape (final (mkdir env dir s)) (final (mkdir env dir s'))"
    using o by (simp add: mkdir_def m m' same_shape_def)
qed

lemma open_write_alt:
  "open_write env f c s =
     ([Write f c],
      (if f = [] then Inl FileNotFoundError
       else if parts f = [] then Inl IsADirectoryError
       else (case resolve_parent (disk s) [] (parts f) of
               Some e \<Rightarrow> Inl e
             | None \<Rightarrow>
                 if disk s (parts f) = Some Dir then Inl IsADirectoryError
                 else (case fault env (parts f) of Some e \<Rightarrow> Inl e | None \<Rightarrow> Inr ()))),
      (if f \<noteq> [] \<and> parts f \<noteq> [] \<and> resolve_parent (disk s) [] (parts f) = None
          \<and> disk s (parts f) \<noteq> Some Dir \<and> fault env (parts f) = None
       then s\<lparr>disk := (disk s)(parts f \<mapsto> File c)\<rparr> else s))"
  by (simp add: open_write_def Let_def split: option.splits node.splits)

lemma blind_open_write: "content_blind (open_write env f c)"
  unfolding content_blind_def
proof (intro allI impI)
  fix s s' :: state
  assume a: "same_shape s s'"
  then have sh: "shape (disk s) = shape (disk s')" and o: "object s = object s'"
    by (simp_all add: same_shape_def)
  have rp: "resolve_parent (disk s) [] (parts f) = resolve_parent (disk s') [] (parts f)"
    using sh by (rule resolve_parent_shape)
  have dd: "(disk s (parts f) = Some Dir) = (disk s' (parts f) = Some Dir)"
    using shape_eq [OF sh, of "parts f"] shape_cases(2) [of "disk s" "parts f"]
      shape_cases(2) [of "disk s'" "parts f"]
    by simp
  have up: "shape ((disk s)(parts f \<mapsto> File c)) = shape ((disk s')(parts f \<mapsto> File c))"
    using sh by (rule shape_upd)
  show "events (open_write env f c s) = events (open_write env f c s')
      \<and> result (open_write env f c s) = result (open_write env f c s')
      \<and> same_shape (final (open_write env f c s)) (final (open_write env f c s'))"
    unfolding open_write_alt rp dd triple_simps
    using up o sh by (simp add: same_shape_def)
qed

lemmas blind_intros = blind_basic blind_and_then blind_try_except blind_block blind_with_self
  blind_if blind_print_live_url blind_mkdir blind_open_write

lemma blind_create_file: "content_blind (create_file env x)"
proof (cases x)
  case (Pair f c)
  show ?thesis
    unfolding Pair create_file_def prod.case Let_def
    by (rule blind_block) (auto intro: blind_intros)
qed

lemma blind_create_all_files: "content_blind (create_all_files env)"
  unfolding create_all_files_def
proof (rule blind_block)
  fix m
  assume "m \<in> set [
     py_print (utf8 0x1F4DD @ '' Creating project files...''),
     (\<lambda>s. ([], Inr (),
        s\<lparr>object := (object s)\<lparr>files_to_create := all_files (object s)\<rparr>,
          built := built s + 1\<rparr>)),
     with_self (\<lambda>self. block (map (create_file env) (files_to_create self))),
     with_self (\<lambda>self. py_print
       (utf8 0x1F4C1 @ '' Created '' @ str_nat (length (files_to_create self)) @ '' files''))]"
  moreover have "content_blind
      (\<lambda>s. ([], Inr (),
        s\<lparr>object := (object s)\<lparr>files_to_create := all_files (object s)\<rparr>,
          built := built s + 1\<rparr>))"
    by (simp add: content_blind_def same_shape_def)
  moreover have "content_blind (with_self (\<lambda>self. block (map (create_file env) (files_to_create self))))"
    by (intro blind_with_self blind_block) (auto simp: blind_create_file)
  moreover have "content_blind (with_self (\<lambda>self. py_print
       (utf8 0x1F4C1 @ '' Created '' @ str_nat (length (files_to_create self)) @ '' files'')))"
    by (intro blind_with_self blind_basic)
  ultimately show "content_blind m" by (auto simp: blind_basic)
qed

lemma blind_print_banner: "content_blind (print_banner env)"
  unfolding print_banner_def
  by (intro blind_intros) (auto intro!: blind_intros)

lemma blind_create_github_repo: "content_blind (create_github_repo env)"
  unfolding create_github_repo_def by (intro blind_intros) (auto intro: blind_intros)

lemma blind_initialize_git: "content_blind (initialize_git env)"
  unfolding initialize_git_def
  by (intro blind_intros) (auto intro: blind_intros blind_create_github_repo)

lemma blind_deploy_to_vercel: "content_blind (deploy_to_vercel env)"
  unfolding deploy_to_vercel_def
  by (intro blind_intros) (auto intro!: blind_intros)

lemma blind_setup_git_and_deploy: "content_blind (setup_git_and_deploy env)"
  unfolding setup_git_and_deploy_def
  by (intro blind_intros) (auto intro: blind_intros blind_initialize_git blind_deploy_to_vercel)

lemma blind_run_setup: "content_blind (run_setup env)"
  unfolding run_setup_def print_completion_summary_def
  by (intro blind_intros)
    (auto intro!: blind_intros blind_print_banner blind_create_all_files
      blind_setup_git_and_deploy simp del: block.simps)

lemma final_run_setup:
  "final (run_setup env s) =
     (if result (print_banner env s) = Inr () then final (create_all_files env s) else s)"
proof -
  obtain tb rb where b: "print_banner env s = (tb, rb, s)"
    using print_banner_run(1) [of env s] by (cases "print_banner env s") (simp add: final_def)
  obtain tc rc s1 where c: "create_all_files env s = (tc, rc, s1)"
    by (cases "create_all_files env s")
  obtain tg rg where g: "setup_git_and_deploy env s1 = (tg, rg, s1)"
    using setup_git_and_deploy_run(2) [of env s1]
    by (cases "setup_git_and_deploy env s1") (simp add: final_def)
  show ?thesis
    by (cases rb; cases rc; cases rg)
      (simp_all add: run_setup_def exec b c g print_completion_summary_def)
qed

lemma print_live_url_events: "events (print_live_url out s) = events (print_live_url out s')"
  by (simp add: print_live_url_def exec split: option.splits)

lemma setup_git_and_deploy_reads_the_name_only:
  assumes "project_name (object s) = project_name (object s')"
  shows "events (setup_git_and_deploy env s) = events (setup_git_and_deploy env s')"
    and "result (setup_git_and_deploy env s) = result (setup_git_and_deploy env s')"
proof -
  have n: "gh_repo_create (object s) = gh_repo_create (object s')"
    "git_remote_add (object s) = git_remote_add (object s')"
    using assms by (simp_all add: gh_repo_create_def git_remote_add_def)
  have g: "github_failure env (object s) = github_failure env (object s')"
    unfolding github_failure_def n by (rule refl)
  have c: "events (create_github_repo env s) = events (create_github_repo env s')"
    unfolding create_github_repo_run(3) n g by (rule refl)
  have i: "events (initialize_git env s) = events (initialize_git env s')"
    unfolding initialize_git_run(3) c by (rule refl)
  have r: "result (initialize_git env s) = result (initialize_git env s')"
    by (simp only: initialize_git_run(1))
  have d: "events (deploy_to_vercel env s) = events (deploy_to_vercel env s')"
    unfolding deploy_to_vercel_run(3)
    using print_live_url_events [of _ s s'] by (simp split: outcome.splits)
  have dr: "result (deploy_to_vercel env s) = result (deploy_to_vercel env s')"
    by (simp only: deploy_to_vercel_run(1))
  show "events (setup_git_and_deploy env s) = events (setup_git_and_deploy env s')"
    unfolding setup_git_and_deploy_run(3) i r d by (rule refl)
  show "result (setup_git_and_deploy env s) = result (setup_git_and_deploy env s')"
    unfolding setup_git_and_deploy_run(1) r dr by (rule refl)
qed

subsection \<open>The steps of each part of a run\<close>

lemma quiet:
  "\<not> is_step (Print (CHR '' '' # t))"
  "\<not> is_step (Print (CHR 0x0A # CHR 0x0A # t))"
  "\<not> is_step (Print (CHR 0x0A # utf8 0x1F504 @ t))"
  "\<not> is_step (Print (CHR 0x0A # utf8 0x1F310 @ t))"
  "\<not> is_step (Print (CHR 0x0A # utf8 0x274C @ t))"
  "\<not> is_step (Print (utf8 0x1F504 @ t))"
  "\<not> is_step (Print (utf8 0x1F4DD @ t))"
  "\<not> is_step (Print (utf8 0x1F4C1 @ t))"
  "\<not> is_step (Print (CHR ''P'' # t))"
  "\<not> is_step (Print (replicate 60 CHR ''=''))"
  by (rule not_step, simp add: utf8_values take3_replicate del: take_replicate)+

lemma loud: "is_step (Print banner)" "is_step (Print summary)"
  by simp_all

lemma steps_print_banner: "filter is_step (events (print_banner env s)) = [Print banner]"
  by (simp add: print_banner_run(3) quiet loud del: is_step.simps(1))

lemma steps_handled: "filter is_step (handled env e) = []"
  by (simp add: handled_def quiet del: is_step.simps(1))

lemma steps_print_live_url: "filter is_step (events (print_live_url out s)) = []"
  by (simp add: print_live_url_def exec quiet split: option.splits del: is_step.simps(1))

lemma steps_create_github_repo:
  "filter is_step (events (create_github_repo env s)) = map Run (github_attempted env (object s))"
  by (simp add: create_github_repo_run(3) github_attempted_def quiet
      split: option.splits del: is_step.simps(1))

lemma steps_initialize_git:
  "filter is_step (events (initialize_git env s)) = map Run (git_attempted env (object s))"
  by (simp add: initialize_git_run(3) git_attempted_def git_failure_def steps_create_github_repo
      quiet split: option.splits del: is_step.simps(1))

lemma steps_deploy_to_vercel:
  "filter is_step (events (deploy_to_vercel env s)) = [Run vercel_prod]"
  by (simp add: deploy_to_vercel_run(3) steps_print_live_url quiet
      split: outcome.splits del: is_step.simps(1))

lemma steps_setup_git_and_deploy:
  "filter is_step (events (setup_git_and_deploy env s)) = map Run (attempted env (object s))"
  by (simp add: setup_git_and_deploy_run(3) initialize_git_run(1) steps_initialize_git
      steps_deploy_to_vercel attempted_def quiet split: option.splits del: is_step.simps(1))

lemma attempted_name:
  assumes "project_name self = project_name self'"
  shows "attempted env self = attempted env self'"
  unfolding attempted_def git_attempted_def github_attempted_def gh_repo_create_def
    git_remote_add_def assms
  by (rule refl)

lemma attempted_all:
  "git_failure env = None \<Longrightarrow> github_failure env self = None
   \<Longrightarrow> attempted env self = commands self"
  by (simp add: attempted_def git_attempted_def github_attempted_def commands_def
      git_failure_def github_failure_def split: option.splits)

lemma steps_create_file:
  "prefix (filter is_step (events (create_file env x s))) (file_steps x)"
  "result (create_file env x s) = Inr () \<Longrightarrow>
     filter is_step (events (create_file env x s)) = file_steps x"
proof -
  obtain f c where x: "x = (f, c)" by (cases x)
  define mk where "mk = (if dirname f \<noteq> [] then mkdir env (dirname f) else ret ())"
  define pr where "pr = py_print (''  '' @ utf8 0x2705 @ '' Created: '' @ f)"
  have cf: "create_file env (f, c) =
      and_then mk (\<lambda>u. and_then (open_write env f c) (\<lambda>u. and_then pr (\<lambda>u. ret ())))"
    by (simp add: create_file_def mk_def pr_def Let_def)
  have m: "events (mk s) = (if dirname f \<noteq> [] then [Mkdir (dirname f)] else [])"
    by (simp add: mk_def mkdir_run(1) ret_def)
  have p: "filter is_step (events (and_then pr (\<lambda>u. ret ()) s')) = []"
    "filter is_step (events (and_then pr ret s')) = []" for s'
    by (simp_all add: pr_def exec quiet del: is_step.simps(1))
  have w: "filter is_step
      (events (and_then (open_write env f c) (\<lambda>u. and_then pr (\<lambda>u. ret ())) s')) =
      [Write f c]"
    "filter is_step (events (and_then (open_write env f c) (\<lambda>u. and_then pr ret) s')) =
      [Write f c]" for s'
    by (cases "result (open_write env f c s')";
        simp add: and_then_cases open_write_run(1) p)+
  show "prefix (filter is_step (events (create_file env x s))) (file_steps x)"
    unfolding x cf
    by (cases "result (mk s)") (simp_all add: and_then_cases m w file_steps_def)
  show "filter is_step (events (create_file env x s)) = file_steps x"
    if "result (create_file env x s) = Inr ()"
    using that unfolding x cf
    by (cases "result (mk s)") (simp_all add: and_then_cases m w file_steps_def)
qed

lemma steps_create_files:
  "prefix (filter is_step (events (block (map (create_file env) xs) s)))
     (concat (map file_steps xs))
   \<and> (result (block (map (create_file env) xs) s) = Inr ()
      \<longrightarrow> filter is_step (events (block (map (create_file env) xs) s)) =
          concat (map file_steps xs))"
proof (induction xs arbitrary: s)
  case Nil
  show ?case by (simp add: exec)
next
  case (Cons x xs)
  show ?case
  proof (cases "result (create_file env x s)")
    case (Inl e)
    then show ?thesis
      using steps_create_file(1) [of env x s] by (simp add: and_then_cases)
  next
    case (Inr u)
    then have "filter is_step (events (create_file env x s)) = file_steps x"
      by (simp add: steps_create_file(2))
    then show ?thesis
      using Inr Cons [of "final (create_file env x s)"] by (simp add: and_then_cases)
  qed
qed

lemma steps_create_all_files:
  "prefix (filter is_step (events (create_all_files env s)))
     (concat (map file_steps (all_files (object s))))"
  "result (create_all_files env s) = Inr () \<Longrightarrow>
     filter is_step (events (create_all_files env s)) =
       concat (map file_steps (all_files (object s)))"
proof -
  let ?loop = "block (map (create_file env) (all_files (object s))) (assigned s)"
  have e: "filter is_step (events (create_all_files env s)) = filter is_step (events ?loop)"
    unfolding create_all_files_run(1)
    by (cases "result ?loop") (simp_all add: quiet del: is_step.simps(1))
  show "prefix (filter is_step (events (create_all_files env s)))
     (concat (map file_steps (all_files (object s))))"
    unfolding e using steps_create_files [of env "all_files (object s)" "assigned s"]
    by (rule conjunct1)
  show "filter is_step (events (create_all_files env s)) =
       concat (map file_steps (all_files (object s)))"
    if "result (create_all_files env s) = Inr ()"
    using that steps_create_files [of env "all_files (object s)" "assigned s"]
    unfolding e create_all_files_run(2) by simp
qed

lemma run_setup_events:
  "events (run_setup env s) =
     events (print_banner env s)
     @ (case result (print_banner env s) of
          Inl e \<Rightarrow> handled env e
        | Inr u \<Rightarrow>
            Print (utf8 0x1F504 @ '' Starting one-click setup...'')
            # Print (replicate 60 CHR ''='')
            # events (create_all_files env s)
            @ (case result (create_all_files env s) of
                 Inl e \<Rightarrow> handled env e
               | Inr u \<Rightarrow>
                   events (setup_git_and_deploy env (final (create_all_files env s)))
                   @ (case result (setup_git_and_deploy env (final (create_all_files env s))) of
                        Inl e \<Rightarrow> handled env e
                      | Inr u \<Rightarrow> [Print summary])))"
proof -
  obtain tb rb where b: "print_banner env s = (tb, rb, s)"
    using print_banner_run(1) [of env s] by (cases "print_banner env s") (simp add: final_def)
  obtain tc rc s1 where c: "create_all_files env s = (tc, rc, s1)"
    by (cases "create_all_files env s")
  obtain tg rg where g: "setup_git_and_deploy env s1 = (tg, rg, s1)"
    using setup_git_and_deploy_run(2) [of env s1]
    by (cases "setup_git_and_deploy env s1") (simp add: final_def)
  show ?thesis
    by (cases rb; cases rc; cases rg)
      (simp_all add: run_setup_def exec b c g print_completion_summary_def handled_def)
qed

lemma steps_run_setup:
  "filter is_step (events (run_setup env s)) =
     Print banner
     # (case result (print_banner env s) of
          Inl e \<Rightarrow> []
        | Inr u \<Rightarrow>
            filter is_step (events (create_all_files env s))
            @ (case result (create_all_files env s) of
                 Inl e \<Rightarrow> []
               | Inr u \<Rightarrow>
                   map Run (attempted env (object s))
                   @ (case result (setup_git_and_deploy env (final (create_all_files env s))) of
                        Inl e \<Rightarrow> []
                      | Inr u \<Rightarrow> [Print summary])))"
proof -
  have a: "attempted env (object (final (create_all_files env s))) = attempted env (object s)"
    by (rule attempted_name) (simp add: object_create_all_files)
  show ?thesis
    unfolding run_setup_events
    by (cases "result (print_banner env s)"; cases "result (create_all_files env s)";
        cases "result (setup_git_and_deploy env (final (create_all_files env s)))")
      (simp_all add: steps_print_banner steps_handled steps_setup_git_and_deploy a quiet loud
        del: is_step.simps(1))
qed

lemma steps_clean_run:
  assumes "result (run_setup env s) = Inr True" and "git_failure env = None"
    and "github_failure env (object s) = None"
  shows "filter is_step (events (run_setup env s)) = expected_flow (object s)"
proof -
  from assms(1) have b: "result (print_banner env s) = Inr ()"
    and c: "result (create_all_files env s) = Inr ()"
    and g: "result (setup_git_and_deploy env (final (create_all_files env s))) = Inr ()"
    unfolding run_setup_result
    by (auto split: sum.splits if_splits)
  show ?thesis
    unfolding steps_run_setup
    by (simp add: b c g steps_create_all_files(2) attempted_all assms(2,3) expected_flow_def)
qed

subsection \<open>How often the mapping is built\<close>

lemma built_mkdir: "built (final (mkdir env d s)) = built s"
  by (simp add: mkdir_def split: prod.splits)

lemma built_open_write: "built (final (open_write env f c s)) = built s"
  by (simp add: open_write_def Let_def split: option.splits node.splits)

lemma built_and_then:
  assumes "\<And>s. built (final (m s)) = built s" and "\<And>x s. built (final (f x s)) = built s"
  shows "built (final (and_then m f s)) = built s"
  using assms by (cases "result (m s)") (simp_all add: and_then_cases)

lemma built_block:
  "(\<And>m s. m \<in> set ms \<Longrightarrow> built (final (m s)) = built s)
   \<Longrightarrow> built (final (block ms s)) = built s"
proof (induction ms arbitrary: s)
  case Nil
  then show ?case by (simp add: exec)
next
  case (Cons m ms)
  show ?case
    unfolding block.simps
    by (rule built_and_then) (simp_all add: Cons)
qed

lemma built_create_file: "built (final (create_file env x s)) = built s"
proof (cases x)
  case (Pair f c)
  show ?thesis
    unfolding Pair create_file_def prod.case
  proof (rule built_block)
    fix m and s' :: state
    assume "m \<in> set [
     (let directory = dirname f in
      if directory \<noteq> [] then mkdir env directory else ret ()),
     open_write env f c,
     py_print (''  '' @ utf8 0x2705 @ '' Created: '' @ f)]"
    then show "built (final (m s')) = built s'"
      by (auto simp: built_mkdir built_open_write py_print_def emit_def ret_def Let_def)
  qed
qed

lemma built_create_all_files: "built (final (create_all_files env s)) = built s + 1"
proof -
  have "built (final (block (map (create_file env) (all_files (object s))) (assigned s))) =
      built (assigned s)"
    by (rule built_block) (auto simp: built_create_file)
  then show ?thesis
    by (simp add: create_all_files_run(3) assigned_def)
qed

lemma built_run_setup:
  "built (final (run_setup env s)) =
     built s + (case result (print_banner env s) of Inl e \<Rightarrow> 0 | Inr u \<Rightarrow> 1)"
  by (cases "result (print_banner env s)") (simp_all add: final_run_setup built_create_all_files)

lemma object_run_setup:
  "object (final (run_setup env s)) =
     (case result (print_banner env s) of
        Inl e \<Rightarrow> object s
      | Inr u \<Rightarrow> (object s)\<lparr>files_to_create := all_files init\<rparr>)"
proof -
  have "all_files (object s) = all_files init"
    by (rule all_files_const)
  then show ?thesis
    by (cases "result (print_banner env s)")
      (simp_all add: final_run_setup object_create_all_files)
qed

lemma setup_git_and_deploy_ignores_the_files:
  "events (setup_git_and_deploy env
      (s\<lparr>disk := d, object := (object s)\<lparr>files_to_create := m\<rparr>\<rparr>)) =
     events (setup_git_and_deploy env s)"
  "result (setup_git_and_deploy env
      (s\<lparr>disk := d, object := (object s)\<lparr>files_to_create := m\<rparr>\<rparr>)) =
     result (setup_git_and_deploy env s)"
  by (rule setup_git_and_deploy_reads_the_name_only, simp)+

subsection \<open>The contents written are never read\<close>

lemma alike_blind: "content_blind m \<Longrightarrow> alike m m"
  by (simp add: content_blind_def alike_def)

lemma alike_and_then:
  assumes m: "alike m m'" and f: "\<And>x. alike (f x) (f' x)"
  shows "alike (and_then m f) (and_then m' f')"
  unfolding alike_def
proof (intro allI impI)
  fix s s' :: state
  assume "same_shape s s'"
  with m have e: "map blank (events (m s)) = map blank (events (m' s'))"
    and r: "result (m s) = result (m' s')"
    and n: "same_shape (final (m s)) (final (m' s'))"
    by (simp_all add: alike_def)
  show "map blank (events (and_then m f s)) = map blank (events (and_then m' f' s'))
      \<and> result (and_then m f s) = result (and_then m' f' s')
      \<and> same_shape (final (and_then m f s)) (final (and_then m' f' s'))"
  proof (cases "result (m s)")
    case (Inl x)
    with r have "result (m' s') = Inl x" by simp
    with Inl e n show ?thesis by (simp add: and_then_cases)
  next
    case (Inr x)
    with r have r': "result (m' s') = Inr x" by simp
    from f n have "map blank (events (f x (final (m s)))) =
        map blank (events (f' x (final (m' s'))))"
      "result (f x (final (m s))) = result (f' x (final (m' s')))"
      "same_shape (final (f x (final (m s)))) (final (f' x (final (m' s'))))"
      by (simp_all add: alike_def)
    with Inr r' e show ?thesis by (simp add: and_then_cases)
  qed
qed

lemma alike_block: "list_all2 alike ms ms' \<Longrightarrow> alike (block ms) (block ms')"
proof (induction rule: list_all2_induct)
  case Nil
  show ?case by (simp add: alike_def ret_def)
next
  case (Cons m ms m' ms')
  show ?case
    unfolding block.simps
    by (rule alike_and_then) (simp_all add: Cons)
qed

lemma shape_upd_File:
  "shape d1 = shape d2 \<Longrightarrow> shape (d1(p \<mapsto> File c)) = shape (d2(p \<mapsto> File c'))"
  by (rule ext, drule_tac p = x in shape_eq, simp add: shape_def)

lemma alike_open_write: "alike (open_write env f c) (open_write env f c')"
  unfolding alike_def
proof (intro allI impI)
  fix s s' :: state
  assume a: "same_shape s s'"
  then have sh: "shape (disk s) = shape (disk s')" and o: "object s = object s'"
    by (simp_all add: same_shape_def)
  have rp: "resolve_parent (disk s) [] (parts f) = resolve_parent (disk s') [] (parts f)"
    using sh by (rule resolve_parent_shape)
  have dd: "(disk s (parts f) = Some Dir) = (disk s' (parts f) = Some Dir)"
    using shape_eq [OF sh, of "parts f"] shape_cases(2) [of "disk s" "parts f"]
      shape_cases(2) [of "disk s'" "parts f"]
    by simp
  have up: "shape ((disk s)(parts f \<mapsto> File c)) = shape ((disk s')(parts f \<mapsto> File c'))"
    using sh by (rule shape_upd_File)
  show "map blank (events (open_write env f c s)) = map blank (events (open_write env f c' s'))
      \<and> result (open_write env f c s) = result (open_write env f c' s')
      \<and> same_shape (final (open_write env f c s)) (final (open_write env f c' s'))"
    unfolding open_write_alt rp dd triple_simps
    using up o sh by (simp add: same_shape_def)
qed

lemma alike_create_file: "alike (create_file env (f, c)) (create_file env (f, c'))"
  unfolding create_file_def prod.case Let_def
  by (rule alike_block)
    (simp add: alike_open_write alike_blind blind_mkdir blind_basic)

lemma alike_create_files:
  "map fst xs = map fst xs'
   \<Longrightarrow> alike (block (map (create_file env) xs)) (block (map (create_file env) xs'))"
proof (rule alike_block)
  assume "map fst xs = map fst xs'"
  then show "list_all2 alike (map (create_file env) xs) (map (create_file env) xs')"
  proof (induction xs arbitrary: xs')
    case Nil
    then show ?case by simp
  next
    case (Cons x xs)
    then obtain y ys where y: "xs' = y # ys" "fst x = fst y" "map fst xs = map fst ys"
      by (cases xs') auto
    obtain f c c' where "x = (f, c)" "y = (f, c')"
      using y(2) by (cases x; cases y) simp
    then have "alike (create_file env x) (create_file env y)"
      by (simp add: alike_create_file)
    then show ?case
      using Cons.IH [OF y(3)] y(1) by simp
  qed
qed
section \<open>The files\<close>

text \<open>
  C1. When \<open>create_all_files\<close> completes, the dictionary it has built has the sixteen
  paths from \<open>api/launch.py\<close> to \<open>deploy.py\<close>, its write calls are the entries of the
  dictionary in their order, every entry is on the disk as a file with exactly its
  content, the six directories the paths need exist, and every other path of the disk
  is as it was: no other file is written. The witness runs it on an empty disk, where
  it completes.
\<close>

theorem create_all_files_writes:
  assumes "result (create_all_files env s) = Inr ()"
  shows "map fst (all_files (object s)) =
      [''api/launch.py'', ''api/scaling.py'', ''api/status.py'', ''api/ai-learning.py'',
       ''frontend/index.html'', ''core/__init__.py'', ''core/scaling_engine.py'',
       ''utils/__init__.py'', ''utils/config.py'', ''vercel.json'', ''package.json'',
       ''requirements.txt'', ''.env.example'', ''README.md'', ''.github/workflows/deploy.yml'',
       ''deploy.py'']
    \<and> files_to_create (object (final (create_all_files env s))) = all_files (object s)
    \<and> writes (events (create_all_files env s)) = all_files (object s)
    \<and> (\<forall>(f, c) \<in> set (all_files (object s)).
          disk (final (create_all_files env s)) (parts f) = Some (File c))
    \<and> set (directories (all_files (object s))) =
         {[''api''], [''frontend''], [''core''], [''utils''], [''.github''],
          [''.github'', ''workflows'']}
    \<and> (\<forall>q \<in> set (directories (all_files (object s))).
          disk (final (create_all_files env s)) q = Some Dir)
    \<and> (\<forall>q. q \<notin> set (map (parts \<circ> fst) (all_files (object s))) \<longrightarrow>
          q \<notin> set (directories (all_files (object s))) \<longrightarrow>
          disk (final (create_all_files env s)) q = disk s q)"
proof -
  let ?xs = "all_files (object s)"
  let ?loop = "block (map (create_file env) ?xs) (assigned s)"
  from assms have ok: "result ?loop = Inr ()"
    by (simp add: create_all_files_run(2))
  from create_files_effect [OF ok]
  have le: "loop_effect ?xs (disk s) (disk (final (create_all_files env s)))"
    and w: "writes (events ?loop) = ?xs"
    by (simp_all add: create_all_files_run(3) assigned_def)
  have 1: "map fst ?xs =
      [''api/launch.py'', ''api/scaling.py'', ''api/status.py'', ''api/ai-learning.py'',
       ''frontend/index.html'', ''core/__init__.py'', ''core/scaling_engine.py'',
       ''utils/__init__.py'', ''utils/config.py'', ''vercel.json'', ''package.json'',
       ''requirements.txt'', ''.env.example'', ''README.md'', ''.github/workflows/deploy.yml'',
       ''deploy.py'']"
    by (rule paths_of_all_files)
  have 2: "files_to_create (object (final (create_all_files env s))) = ?xs"
    by (simp add: object_create_all_files)
  have 3: "writes (events (create_all_files env s)) = ?xs"
    using ok w by (simp add: create_all_files_run(1))
  have 4: "\<forall>(f, c) \<in> set ?xs. disk (final (create_all_files env s)) (parts f) = Some (File c)"
    using le distinct_paths [of "object s"] by (simp add: loop_effect_def)
  have 5: "set (directories ?xs) =
         {[''api''], [''frontend''], [''core''], [''utils''], [''.github''],
          [''.github'', ''workflows'']}"
    by (rule directories_of_all_files)
  have 6: "\<forall>q \<in> set (directories ?xs). disk (final (create_all_files env s)) q = Some Dir"
    using le unfolding loop_effect_def by (elim conjE)
  have 7: "\<forall>q. q \<notin> set (map (parts \<circ> fst) ?xs) \<longrightarrow> q \<notin> set (directories ?xs) \<longrightarrow>
          disk (final (create_all_files env s)) q = disk s q"
    using le unfolding loop_effect_def by blast
  show ?thesis
    by (intro conjI) (rule 1 2 3 4 5 6 7)+
qed

theorem create_all_files_writes_witness:
  "result (create_all_files env_all_ok (fresh empty_disk)) = Inr ()
   \<and> writes (events (create_all_files env_all_ok (fresh empty_disk))) = all_files init
   \<and> disk (final (create_all_files env_all_ok (fresh empty_disk))) [''api'', ''launch.py'']
       = Some (File (get_launch_api init))
   \<and> disk (final (create_all_files env_all_ok (fresh empty_disk))) [''.github''] = Some Dir
   \<and> disk (final (create_all_files env_all_ok (fresh empty_disk))) [''other.txt''] = None"
proof -
  let ?d = "disk (final (create_all_files env_all_ok (fresh empty_disk)))"
  have ok: "result (create_all_files env_all_ok (fresh empty_disk)) = Inr ()"
    by (rule create_all_files_fresh) (simp add: env_all_ok_def)
  have o: "object (fresh empty_disk) = init" by (simp add: fresh_def)
  note t = create_all_files_writes [OF ok, unfolded o]
  note t3 = t [THEN conjunct2, THEN conjunct2, THEN conjunct1]
  note t4 = t [THEN conjunct2, THEN conjunct2, THEN conjunct2, THEN conjunct1]
  note t6 = t [THEN conjunct2, THEN conjunct2, THEN conjunct2, THEN conjunct2, THEN conjunct2,
    THEN conjunct1]
  note t7 = t [THEN conjunct2, THEN conjunct2, THEN conjunct2, THEN conjunct2, THEN conjunct2,
    THEN conjunct2]
  have m: "(''api/launch.py'', get_launch_api init) \<in> set (all_files init)"
    by (simp add: all_files_def)
  have p: "parts ''api/launch.py'' = [''api'', ''launch.py'']"
    by (simp add: parts_def)
  have g: "[''.github''] \<in> set (directories (all_files init))"
    unfolding directories_of_all_files by simp
  have n: "[''other.txt''] \<notin> set (map (parts \<circ> fst) (all_files init))"
    "[''other.txt''] \<notin> set (directories (all_files init))"
    unfolding directories_of_all_files parts_of_all_files by simp_all
  have a: "?d [''api'', ''launch.py''] = Some (File (get_launch_api init))"
    using bspec [OF t4 m] by (simp add: p)
  have b: "?d [''.github''] = Some Dir"
    using bspec [OF t6 g] .
  have c: "?d [''other.txt''] = None"
    using t7 [THEN spec, of "[''other.txt'']"] n by (simp add: fresh_def empty_disk_def)
  show ?thesis
    by (intro conjI) (rule ok t3 a b c)+
qed

text \<open>
  C5, as stated, does not hold: a run that is cancelled at the banner ends before
  \<open>create_all_files\<close> is called, so it builds the dictionary not once but never, and the
  object still holds the empty dictionary that \<open>__init__\<close> assigned.
\<close>

theorem cancelled_run_builds_no_mapping:
  "built (final (run_setup env_interrupted (fresh empty_disk))) = 0
   \<and> files_to_create (object (final (run_setup env_interrupted (fresh empty_disk)))) = []"
proof -
  have "result (print_banner env_interrupted (fresh empty_disk)) = Inl (SystemExit 1)"
    by (simp add: print_banner_run(2) env_interrupted_def)
  then have "final (run_setup env_interrupted (fresh empty_disk)) = fresh empty_disk"
    by (simp add: final_run_setup)
  then show ?thesis
    by (simp add: fresh_def init_def)
qed

text \<open>
  C5, amended. The dictionary is built at most once in a run, and exactly once in every
  run in which \<open>print_banner\<close> returns: \<open>built\<close> grows by one in such a run and by nothing
  in a run that ends at the banner. The object then holds the literal dictionary, which
  nothing after the assignment modifies. A run is the banner, two messages,
  \<open>create_all_files\<close>, \<open>setup_git_and_deploy\<close> and the summary, or what the \<open>except\<close>
  clauses print, and nothing else; \<open>create_all_files\<close> is a message, the assignment, the
  loop over the dictionary and a message with the number of entries. What is written is
  never read back or validated: the loop run on two dictionaries with the same paths, on
  disks of the same shape, causes the same events up to the contents written, gives the
  same result and leaves disks of the same shape, whatever the entries and the files on
  disk hold; \<open>setup_git_and_deploy\<close> causes the same events and gives the same result
  whatever the disk and the dictionary are, and leaves the object as it is; and two whole
  runs on disks of the same shape cause the same events and give the same result. (What
  the commands \<open>git\<close>, \<open>gh\<close> and \<open>vercel\<close> do to the working directory is outside the
  script and not part of this statement.)
\<close>

theorem mapping_built_at_most_once_and_never_read:
  "built (final (run_setup env s)) =
     built s + (case result (print_banner env s) of Inl e \<Rightarrow> 0 | Inr u \<Rightarrow> 1)
   \<and> object (final (run_setup env s)) =
       (case result (print_banner env s) of
          Inl e \<Rightarrow> object s
        | Inr u \<Rightarrow> (object s)\<lparr>files_to_create := all_files init\<rparr>)
   \<and> events (run_setup env s) =
       events (print_banner env s)
       @ (case result (print_banner env s) of
            Inl e \<Rightarrow> handled env e
          | Inr u \<Rightarrow>
              Print (utf8 0x1F504 @ '' Starting one-click setup...'')
              # Print (replicate 60 CHR ''='')
              # events (create_all_files env s)
              @ (case result (create_all_files env s) of
                   Inl e \<Rightarrow> handled env e
                 | Inr u \<Rightarrow>
                     events (setup_git_and_deploy env (final (create_all_files env s)))
                     @ (case result (setup_git_and_deploy env (final (create_all_files env s))) of
                          Inl e \<Rightarrow> handled env e
                        | Inr u \<Rightarrow> [Print summary])))
   \<and> events (create_all_files env s) =
       Print (utf8 0x1F4DD @ '' Creating project files...'')
       # events (block (map (create_file env) (all_files (object s))) (assigned s))
       @ (case result (block (map (create_file env) (all_files (object s))) (assigned s)) of
            Inl e \<Rightarrow> []
          | Inr u \<Rightarrow>
              [Print (utf8 0x1F4C1 @ '' Created '' @ str_nat (length (all_files (object s)))
                @ '' files'')])
   \<and> result (create_all_files env s) =
       result (block (map (create_file env) (all_files (object s))) (assigned s))
   \<and> (map fst xs = map fst xs' \<longrightarrow>
        alike (block (map (create_file env) xs)) (block (map (create_file env) xs')))
   \<and> events (setup_git_and_deploy env
         (s\<lparr>disk := d, object := (object s)\<lparr>files_to_create := m\<rparr>\<rparr>)) =
       events (setup_git_and_deploy env s)
   \<and> result (setup_git_and_deploy env
         (s\<lparr>disk := d, object := (object s)\<lparr>files_to_create := m\<rparr>\<rparr>)) =
       result (setup_git_and_deploy env s)
   \<and> object (final (setup_git_and_deploy env s)) = object s
   \<and> (same_shape s s' \<longrightarrow>
        events (run_setup env s) = events (run_setup env s')
        \<and> result (run_setup env s) = result (run_setup env s'))"
proof (intro conjI impI)
  show "built (final (run_setup env s)) =
     built s + (case result (print_banner env s) of Inl e \<Rightarrow> 0 | Inr u \<Rightarrow> 1)"
    by (rule built_run_setup)
  show "object (final (run_setup env s)) =
       (case result (print_banner env s) of
          Inl e \<Rightarrow> object s
        | Inr u \<Rightarrow> (object s)\<lparr>files_to_create := all_files init\<rparr>)"
    by (rule object_run_setup)
  show "events (run_setup env s) =
       events (print_banner env s)
       @ (case result (print_banner env s) of
            Inl e \<Rightarrow> handled env e
          | Inr u \<Rightarrow>
              Print (utf8 0x1F504 @ '' Starting one-click setup...'')
              # Print (replicate 60 CHR ''='')
              # events (create_all_files env s)
              @ (case result (create_all_files env s) of
                   Inl e \<Rightarrow> handled env e
                 | Inr u \<Rightarrow>
                     events (setup_git_and_deploy env (final (create_all_files env s)))
                     @ (case result (setup_git_and_deploy env (final (create_all_files env s))) of
                          Inl e \<Rightarrow> handled env e
                        | Inr u \<Rightarrow> [Print summary])))"
    by (rule run_setup_events)
  show "events (create_all_files env s) =
       Print (utf8 0x1F4DD @ '' Creating project files...'')
       # events (block (map (create_file env) (all_files (object s))) (assigned s))
       @ (case result (block (map (create_file env) (all_files (object s))) (assigned s)) of
            Inl e \<Rightarrow> []
          | Inr u \<Rightarrow>
              [Print (utf8 0x1F4C1 @ '' Created '' @ str_nat (length (all_files (object s)))
                @ '' files'')])"
    by (rule create_all_files_run(1))
  show "result (create_all_files env s) =
       result (block (map (create_file env) (all_files (object s))) (assigned s))"
    by (rule create_all_files_run(2))
  show "events (setup_git_and_deploy env
         (s\<lparr>disk := d, object := (object s)\<lparr>files_to_create := m\<rparr>\<rparr>)) =
       events (setup_git_and_deploy env s)"
    by (rule setup_git_and_deploy_ignores_the_files(1))
  show "result (setup_git_and_deploy env
         (s\<lparr>disk := d, object := (object s)\<lparr>files_to_create := m\<rparr>\<rparr>)) =
       result (setup_git_and_deploy env s)"
    by (rule setup_git_and_deploy_ignores_the_files(2))
  show "object (final (setup_git_and_deploy env s)) = object s"
    by (simp add: setup_git_and_deploy_run(2))
next
  assume "map fst xs = map fst xs'"
  then show "alike (block (map (create_file env) xs)) (block (map (create_file env) xs'))"
    by (rule alike_create_files)
next
  assume "same_shape s s'"
  with blind_run_setup [of env]
  show "events (run_setup env s) = events (run_setup env s')"
    and "result (run_setup env s) = result (run_setup env s')"
    by (simp_all add: content_blind_def)
qed

theorem mapping_built_at_most_once_and_never_read_witness:
  "same_shape (fresh (old_disk ''old'')) (fresh (old_disk ''other''))
   \<and> map fst [(''README.md'', ''one'')] = map fst [(''README.md'', ''two'')]
   \<and> built (final (run_setup env_all_ok (fresh (old_disk ''old'')))) = 1
   \<and> files_to_create (object (final (run_setup env_all_ok (fresh (old_disk ''old''))))) =
       all_files init
   \<and> result (block (map (create_file env_all_ok) [(''README.md'', ''one'')])
         (fresh (old_disk ''old''))) =
       result (block (map (create_file env_all_ok) [(''README.md'', ''two'')])
         (fresh (old_disk ''other'')))
   \<and> events (run_setup env_all_ok (fresh (old_disk ''old''))) =
       events (run_setup env_all_ok (fresh (old_disk ''other'')))"
proof -
  have b: "result (print_banner env_all_ok (fresh (old_disk ''old''))) = Inr ()"
    by (simp add: print_banner_run(2) env_all_ok_def)
  have h: "same_shape (fresh (old_disk ''old'')) (fresh (old_disk ''other''))"
    by (auto simp: same_shape_def fresh_def old_disk_def shape_def)
  have p: "map fst [(''README.md'', ''one'')] = map fst [(''README.md'', ''two'')]"
    by simp
  note t = mapping_built_at_most_once_and_never_read
    [of env_all_ok "fresh (old_disk ''old'')" "[(''README.md'', ''one'')]"
      "[(''README.md'', ''two'')]" _ _ "fresh (old_disk ''other'')"]
  from t [THEN conjunct1] b
  have n: "built (final (run_setup env_all_ok (fresh (old_disk ''old'')))) = 1"
    by (simp add: fresh_def)
  from t [THEN conjunct2, THEN conjunct1] b
  have f: "files_to_create (object (final (run_setup env_all_ok (fresh (old_disk ''old''))))) =
       all_files init"
    by simp
  from t [THEN conjunct2, THEN conjunct2, THEN conjunct2, THEN conjunct2, THEN conjunct2,
    THEN conjunct1] p
  have "alike (block (map (create_file env_all_ok) [(''README.md'', ''one'')]))
      (block (map (create_file env_all_ok) [(''README.md'', ''two'')]))"
    by (rule mp)
  with h have r: "result (block (map (create_file env_all_ok) [(''README.md'', ''one'')])
         (fresh (old_disk ''old''))) =
       result (block (map (create_file env_all_ok) [(''README.md'', ''two'')])
         (fresh (old_disk ''other'')))"
    unfolding alike_def by blast
  from t [THEN conjunct2, THEN conjunct2, THEN conjunct2, THEN conjunct2, THEN conjunct2,
    THEN conjunct2, THEN conjunct2, THEN conjunct2, THEN conjunct2] h
  have e: "events (run_setup env_all_ok (fresh (old_disk ''old''))) =
       events (run_setup env_all_ok (fresh (old_disk ''other'')))"
    by (rule mp [THEN conjunct1])
  show ?thesis
    by (intro conjI) (rule h p n f r e)+
qed

section \<open>The order of a run\<close>

text \<open>
  C2. The steps of a run of \<open>run_setup\<close> are the banner and the summary, every directory
  it makes, every file it writes and every command it starts. They are exactly: the
  banner; when \<open>print_banner\<close> returns, the steps of \<open>create_all_files\<close>, which are the
  directory and the file of each entry in the order of the dictionary, up to the first
  that fails; when \<open>create_all_files\<close> returns, the commands that \<open>setup_git_and_deploy\<close>
  attempts (\<open>git init\<close>, \<open>git add\<close>, \<open>git commit\<close>, \<open>gh repo create\<close>, \<open>git remote add\<close>,
  \<open>git push\<close>, each when the ones before it succeeded, then \<open>vercel\<close>); and, when
  \<open>setup_git_and_deploy\<close> returns, the summary. So, whatever the outside world does, the
  steps of a run are steps of the fixed flow in the order of the flow: no step comes
  before an earlier one, and no other step occurs. A run that returns \<open>True\<close> and in which
  no git and no GitHub command failed performs the whole flow; and in an empty directory,
  when \<open>input\<close> returns, the operating system refuses nothing, no git and no GitHub
  command fails and \<open>vercel\<close> completes, the run returns \<open>True\<close> and performs the whole
  flow.
\<close>

theorem run_setup_order:
  "subseq (filter is_step (events (run_setup env s))) (expected_flow (object s))
   \<and> filter is_step (events (run_setup env s)) =
       Print banner
       # (case result (print_banner env s) of
            Inl e \<Rightarrow> []
          | Inr u \<Rightarrow>
              filter is_step (events (create_all_files env s))
              @ (case result (create_all_files env s) of
                   Inl e \<Rightarrow> []
                 | Inr u \<Rightarrow>
                     map Run (attempted env (object s))
                     @ (case result (setup_git_and_deploy env (final (create_all_files env s))) of
                          Inl e \<Rightarrow> []
                        | Inr u \<Rightarrow> [Print summary])))
   \<and> prefix (filter is_step (events (create_all_files env s)))
       (concat (map file_steps (all_files (object s))))
   \<and> (result (create_all_files env s) = Inr () \<longrightarrow>
        filter is_step (events (create_all_files env s)) =
          concat (map file_steps (all_files (object s))))
   \<and> (result (run_setup env s) = Inr True \<and> git_failure env = None
        \<and> github_failure env (object s) = None \<longrightarrow>
        filter is_step (events (run_setup env s)) = expected_flow (object s))
   \<and> (stdin env = Inr line \<and> fault env = (\<lambda>p. None) \<and> git_failure env = None
        \<and> github_failure env init = None \<and> proc env vercel_prod = Completed rc out \<longrightarrow>
        result (run_setup env (fresh empty_disk)) = Inr True
        \<and> filter is_step (events (run_setup env (fresh empty_disk))) = expected_flow init)"
proof (intro conjI impI)
  show "subseq (filter is_step (events (run_setup env s))) (expected_flow (object s))"
    using within_run_setup [of "object s" env] by (simp add: within_def)
  show "filter is_step (events (run_setup env s)) =
       Print banner
       # (case result (print_banner env s) of
            Inl e \<Rightarrow> []
          | Inr u \<Rightarrow>
              filter is_step (events (create_all_files env s))
              @ (case result (create_all_files env s) of
                   Inl e \<Rightarrow> []
                 | Inr u \<Rightarrow>
                     map Run (attempted env (object s))
                     @ (case result (setup_git_and_deploy env (final (create_all_files env s))) of
                          Inl e \<Rightarrow> []
                        | Inr u \<Rightarrow> [Print summary])))"
    by (rule steps_run_setup)
  show "prefix (filter is_step (events (create_all_files env s)))
       (concat (map file_steps (all_files (object s))))"
    by (rule steps_create_all_files(1))
next
  assume "result (create_all_files env s) = Inr ()"
  then show "filter is_step (events (create_all_files env s)) =
          concat (map file_steps (all_files (object s)))"
    by (rule steps_create_all_files(2))
next
  assume "result (run_setup env s) = Inr True \<and> git_failure env = None
        \<and> github_failure env (object s) = None"
  then show "filter is_step (events (run_setup env s)) = expected_flow (object s)"
    by (simp add: steps_clean_run)
next
  assume a: "stdin env = Inr line \<and> fault env = (\<lambda>p. None) \<and> git_failure env = None
        \<and> github_failure env init = None \<and> proc env vercel_prod = Completed rc out"
  have b: "result (print_banner env (fresh empty_disk)) = Inr ()"
    using a by (simp add: print_banner_run(2))
  have c: "result (create_all_files env (fresh empty_disk)) = Inr ()"
    using a by (simp add: create_all_files_fresh)
  have g: "result (setup_git_and_deploy env (final (create_all_files env (fresh empty_disk)))) =
      Inr ()"
    using a by (simp add: setup_git_and_deploy_run(1) initialize_git_run(1)
        deploy_to_vercel_run(1))
  show r: "result (run_setup env (fresh empty_disk)) = Inr True"
    by (simp add: run_setup_result b c g)
  have o: "object (fresh empty_disk) = init"
    by (simp add: fresh_def)
  show "filter is_step (events (run_setup env (fresh empty_disk))) = expected_flow init"
    using steps_clean_run [OF r] a unfolding o by simp
qed

theorem run_setup_order_witness:
  "stdin env_all_ok = Inr [] \<and> fault env_all_ok = (\<lambda>p. None) \<and> git_failure env_all_ok = None
   \<and> github_failure env_all_ok init = None
   \<and> proc env_all_ok vercel_prod = Completed 0 ''https://autonomous-revenue-system.vercel.app''
   \<and> result (create_all_files env_all_ok (fresh empty_disk)) = Inr ()
   \<and> result (run_setup env_all_ok (fresh empty_disk)) = Inr True
   \<and> filter is_step (events (run_setup env_all_ok (fresh empty_disk))) = expected_flow init"
proof -
  have a: "stdin env_all_ok = Inr [] \<and> fault env_all_ok = (\<lambda>p. None)
      \<and> git_failure env_all_ok = None \<and> github_failure env_all_ok init = None
      \<and> proc env_all_ok vercel_prod =
          Completed 0 ''https://autonomous-revenue-system.vercel.app''"
    by (simp add: env_all_ok_def git_failure_def github_failure_def failure_of_def)
  have c: "result (create_all_files env_all_ok (fresh empty_disk)) = Inr ()"
    by (rule create_all_files_fresh) (simp add: env_all_ok_def)
  note t = run_setup_order [of env_all_ok "fresh empty_disk" "[]" 0
      "''https://autonomous-revenue-system.vercel.app''"]
  from t [THEN conjunct2, THEN conjunct2, THEN conjunct2, THEN conjunct2, THEN conjunct2] a
  have r: "result (run_setup env_all_ok (fresh empty_disk)) = Inr True
      \<and> filter is_step (events (run_setup env_all_ok (fresh empty_disk))) = expected_flow init"
    by (rule mp)
  show ?thesis
    using a c r by (simp only: simp_thms)
qed

text \<open>
  C7. There is no retry: whatever fails, every command of a run is one of the seven
  commands, and each is attempted at most once.
\<close>

theorem no_retry:
  "subseq (runs (events (run_setup env s))) (commands (object s))
   \<and> count_list (runs (events (run_setup env s))) argv \<le> 1"
proof
  show r: "subseq (runs (events (run_setup env s))) (commands (object s))"
    by (rule runs_run_setup)
  have "count_list (runs (events (run_setup env s))) argv \<le> count_list (commands (object s)) argv"
    using r by (rule count_subseq)
  also have "\<dots> \<le> 1"
    using distinct_commands by (rule count_distinct)
  finally show "count_list (runs (events (run_setup env s))) argv \<le> 1" .
qed

theorem no_retry_witness:
  "subseq (runs (events (run_setup env_no_tools (fresh empty_disk)))) (commands init)
   \<and> count_list (runs (events (run_setup env_no_tools (fresh empty_disk)))) git_init \<le> 1"
  using no_retry [of env_no_tools "fresh empty_disk" git_init] by (simp add: fresh_def)

section \<open>Failures of the commands\<close>

text \<open>
  C10. When \<open>git init\<close>, \<open>git add\<close> and \<open>git commit\<close> have worked and
  \<open>gh repo create\<close> raises (any exception, a return code other than 0 included), the
  inner handler contains it: \<open>git remote add\<close> and \<open>git push\<close> are not attempted, the
  warning is printed, the outer \<open>try\<close> statement completes normally and the run goes on
  with the Vercel step.
\<close>

theorem github_failure_contained:
  assumes "git_failure env = None"
    and "failure_of env (gh_repo_create (object s)) = Some e"
  shows "events (setup_git_and_deploy env s) =
      [Print (''\<newline>'' @ utf8 0x1F504 @ '' Setting up Git repository...''),
       Run git_init, Run git_add, Run git_commit,
       Print (''  '' @ utf8 0x2705 @ '' Git repository initialized''),
       Run (gh_repo_create (object s)),
       Print (''  '' @ utf8 0x26A0 @ utf8 0xFE0F
               @ ''  GitHub CLI not available - create repository manually''),
       Print (''\<newline>'' @ utf8 0x1F310 @ '' Deploying to Vercel...'')]
      @ events (deploy_to_vercel env s)
    \<and> result (initialize_git env s) = Inr ()
    \<and> runs (events (setup_git_and_deploy env s)) =
        [git_init, git_add, git_commit, gh_repo_create (object s), vercel_prod]"
proof -
  have g: "failure_of env git_init = None" "failure_of env git_add = None"
    "failure_of env git_commit = None"
    using assms(1) by (simp_all add: git_failure_None)
  have i: "result (initialize_git env s) = Inr ()"
    using assms(1) by (simp add: initialize_git_run(1))
  have e: "events (setup_git_and_deploy env s) =
      [Print (''\<newline>'' @ utf8 0x1F504 @ '' Setting up Git repository...''),
       Run git_init, Run git_add, Run git_commit,
       Print (''  '' @ utf8 0x2705 @ '' Git repository initialized''),
       Run (gh_repo_create (object s)),
       Print (''  '' @ utf8 0x26A0 @ utf8 0xFE0F
               @ ''  GitHub CLI not available - create repository manually''),
       Print (''\<newline>'' @ utf8 0x1F310 @ '' Deploying to Vercel...'')]
      @ events (deploy_to_vercel env s)"
    using assms g i
    by (simp add: setup_git_and_deploy_run(3) initialize_git_run(3) create_github_repo_run(3)
        github_failure_def)
  show ?thesis
    using i by (simp add: e runs_deploy_to_vercel)
qed

theorem github_failure_contained_witness:
  "git_failure env_no_gh = None
   \<and> failure_of env_no_gh (gh_repo_create init) = Some FileNotFoundError
   \<and> result (initialize_git env_no_gh (fresh empty_disk)) = Inr ()
   \<and> runs (events (setup_git_and_deploy env_no_gh (fresh empty_disk))) =
       [git_init, git_add, git_commit, gh_repo_create init, vercel_prod]"
proof -
  have g: "git_failure env_no_gh = None"
    by (simp add: git_failure_def failure_of_def env_no_gh_def git_init_def git_add_def
        git_commit_def)
  have h: "failure_of env_no_gh (gh_repo_create (object (fresh empty_disk)))
      = Some FileNotFoundError"
    by (simp add: failure_of_def env_no_gh_def gh_repo_create_def)
  show ?thesis
    using github_failure_contained [OF g h, THEN conjunct2] g h by (simp add: fresh_def)
qed

text \<open>
  C8. When the banner is passed, \<open>create_all_files\<close> completes and no exception leaves
  \<open>setup_git_and_deploy\<close>, \<open>run_setup\<close> returns \<open>True\<close> and \<open>main\<close> ends with the message
  of success, also when every command has failed: the witness is a world where no tool
  exists.
\<close>

theorem tool_failures_do_not_change_the_outcome:
  assumes "result (print_banner env (fresh d)) = Inr ()"
    and "result (create_all_files env (fresh d)) = Inr ()"
    and "result (setup_git_and_deploy env (final (create_all_files env (fresh d)))) = Inr ()"
  shows "result (run_setup env (fresh d)) = Inr True
    \<and> result (main env d) = Inr True
    \<and> last (events (main env d))
        = Print (''\<newline>'' @ utf8 0x2705 @ '' Setup completed successfully!'')
    \<and> exit_status (result (main env d)) = 0"
proof -
  have r: "result (run_setup env (fresh d)) = Inr True"
    using assms by (simp add: run_setup_result)
  then show ?thesis
    by (simp add: main_run exit_status_def)
qed

theorem tool_failures_do_not_change_the_outcome_witness:
  "(\<forall>argv. proc env_no_tools argv = Raises FileNotFoundError)
   \<and> result (create_all_files env_no_tools (fresh empty_disk)) = Inr ()
   \<and> result (setup_git_and_deploy env_no_tools
        (final (create_all_files env_no_tools (fresh empty_disk)))) = Inr ()
   \<and> result (run_setup env_no_tools (fresh empty_disk)) = Inr True
   \<and> result (main env_no_tools empty_disk) = Inr True"
proof -
  have b: "result (print_banner env_no_tools (fresh empty_disk)) = Inr ()"
    by (simp add: print_banner_run(2) env_no_tools_def)
  have c: "result (create_all_files env_no_tools (fresh empty_disk)) = Inr ()"
    by (rule create_all_files_fresh) (simp add: env_no_tools_def)
  have g: "result (setup_git_and_deploy env_no_tools
        (final (create_all_files env_no_tools (fresh empty_disk)))) = Inr ()"
    by (simp add: setup_git_and_deploy_run(1) initialize_git_run(1) deploy_to_vercel_run(1)
        git_failure_def failure_of_def env_no_tools_def)
  show ?thesis
    using tool_failures_do_not_change_the_outcome [OF b c g] c g
    by (simp add: env_no_tools_def)
qed

text \<open>
  C9. When the user interrupts at the prompt of the banner, \<open>print_banner\<close> calls
  \<open>sys.exit(1)\<close>; no handler of \<open>run_setup\<close> catches the \<open>SystemExit\<close>, so the process
  ends with exit status 1, before any file is written and before \<open>main\<close> prints either
  of its two messages.
\<close>

theorem interrupt_at_the_banner:
  assumes "stdin env = Inl KeyboardInterrupt"
  shows "events (main env d) =
      [Print banner, Input,
       Print (''\<newline>\<newline>'' @ utf8 0x274C @ '' Setup cancelled by user'')]
    \<and> result (run_setup env (fresh d)) = Inl (SystemExit 1)
    \<and> result (main env d) = Inl (SystemExit 1)
    \<and> exit_status (result (main env d)) = 1
    \<and> writes (events (main env d)) = []
    \<and> final (main env d) = fresh d"
proof -
  have "run_setup env (fresh d) =
      ([Print banner, Input,
        Print (''\<newline>\<newline>'' @ utf8 0x274C @ '' Setup cancelled by user'')],
       Inl (SystemExit 1), fresh d)"
    using assms by (simp add: run_setup_def print_banner_def exec)
  then show ?thesis
    by (simp add: main_run exit_status_def)
qed

theorem interrupt_at_the_banner_witness:
  "stdin env_interrupted = Inl KeyboardInterrupt
   \<and> exit_status (result (main env_interrupted empty_disk)) = 1
   \<and> writes (events (main env_interrupted empty_disk)) = []"
proof -
  have h: "stdin env_interrupted = Inl KeyboardInterrupt"
    by (simp add: env_interrupted_def)
  show ?thesis
    using interrupt_at_the_banner [OF h, of empty_disk] h by (simp add: exit_status_def)
qed

text \<open>
  C3, as the specification states it, fails: the handler around the Vercel command
  names \<open>FileNotFoundError\<close> only. In a world where the \<open>vercel\<close> executable is found
  and may not be executed, the \<open>PermissionError\<close> leaves \<open>setup_git_and_deploy\<close>; the
  handler of \<open>run_setup\<close> catches it there, and the run ends without its summary, with
  \<open>False\<close>.
\<close>

theorem vercel_failure_escapes:
  "result (setup_git_and_deploy env_vercel_denied (fresh empty_disk)) = Inl PermissionError
   \<and> result (run_setup env_vercel_denied (fresh empty_disk)) = Inr False"
proof -
  have g: "result (setup_git_and_deploy env_vercel_denied s) = Inl PermissionError" for s
    by (simp add: setup_git_and_deploy_run(1) initialize_git_run(1) deploy_to_vercel_run(1)
        git_failure_def failure_of_def env_vercel_denied_def vercel_prod_def git_init_def
        git_add_def git_commit_def)
  have c: "result (create_all_files env_vercel_denied (fresh empty_disk)) = Inr ()"
    by (rule create_all_files_fresh) (simp add: env_vercel_denied_def)
  have b: "result (print_banner env_vercel_denied (fresh empty_disk)) = Inr ()"
    by (simp add: print_banner_run(2) env_vercel_denied_def)
  show ?thesis
    by (simp add: g run_setup_result b c)
qed

text \<open>
  C3, amended. An exception leaves \<open>setup_git_and_deploy\<close> in two cases only: the first
  failure of \<open>git init\<close>, \<open>git add\<close>, \<open>git commit\<close> is not an \<open>Exception\<close> (such as
  \<open>KeyboardInterrupt\<close>), or the Vercel command raises something other than
  \<open>FileNotFoundError\<close>. Every other failure is handled inside: a failure of the three git
  commands that is an \<open>Exception\<close> (a return code other than 0 included) prints the
  warning with its text, any failure of \<open>gh repo create\<close>, \<open>git remote add\<close> or
  \<open>git push\<close> prints the GitHub warning, a missing \<open>vercel\<close> or its return code other
  than 0 prints its message, and in each of these cases the Vercel command is still
  attempted and \<open>setup_git_and_deploy\<close> returns normally.
\<close>

theorem subprocess_failures:
  "result (setup_git_and_deploy env s) =
     (case git_failure env of
        Some e \<Rightarrow>
          if is_Exception e
          then (case proc env vercel_prod of
                  Raises e' \<Rightarrow> if e' = FileNotFoundError then Inr () else Inl e'
                | Completed rc out \<Rightarrow> Inr ())
          else Inl e
      | None \<Rightarrow>
          (case proc env vercel_prod of
             Raises e' \<Rightarrow> if e' = FileNotFoundError then Inr () else Inl e'
           | Completed rc out \<Rightarrow> Inr ()))
   \<and> ((\<forall>e. git_failure env = Some e \<longrightarrow> is_Exception e)
        \<longrightarrow> vercel_prod \<in> set (runs (events (setup_git_and_deploy env s))))
   \<and> (\<forall>e. git_failure env = Some e \<longrightarrow> is_Exception e \<longrightarrow>
         Print (''  '' @ utf8 0x26A0 @ utf8 0xFE0F @ ''  Git setup failed: '' @ str_of env e)
           \<in> set (events (setup_git_and_deploy env s)))
   \<and> (\<forall>e. git_failure env = None \<longrightarrow> github_failure env (object s) = Some e \<longrightarrow>
         Print (''  '' @ utf8 0x26A0 @ utf8 0xFE0F
               @ ''  GitHub CLI not available - create repository manually'')
           \<in> set (events (setup_git_and_deploy env s)))
   \<and> ((\<forall>e. git_failure env = Some e \<longrightarrow> is_Exception e) \<longrightarrow>
        proc env vercel_prod = Raises FileNotFoundError \<longrightarrow>
         Print (''  '' @ utf8 0x274C @ '' Vercel CLI not found'')
           \<in> set (events (setup_git_and_deploy env s)))
   \<and> (\<forall>rc out. (\<forall>e. git_failure env = Some e \<longrightarrow> is_Exception e) \<longrightarrow>
        proc env vercel_prod = Completed rc out \<longrightarrow> rc \<noteq> 0 \<longrightarrow>
         Print (''  '' @ utf8 0x274C @ '' Vercel deployment failed'')
           \<in> set (events (setup_git_and_deploy env s)))"
proof (intro conjI allI impI)
  show "result (setup_git_and_deploy env s) =
     (case git_failure env of
        Some e \<Rightarrow>
          if is_Exception e
          then (case proc env vercel_prod of
                  Raises e' \<Rightarrow> if e' = FileNotFoundError then Inr () else Inl e'
                | Completed rc out \<Rightarrow> Inr ())
          else Inl e
      | None \<Rightarrow>
          (case proc env vercel_prod of
             Raises e' \<Rightarrow> if e' = FileNotFoundError then Inr () else Inl e'
           | Completed rc out \<Rightarrow> Inr ()))"
    by (simp add: setup_git_and_deploy_run(1) initialize_git_run(1) deploy_to_vercel_run(1)
        split: option.splits)
next
  assume "\<forall>e. git_failure env = Some e \<longrightarrow> is_Exception e"
  then have "result (initialize_git env s) = Inr ()"
    by (simp add: initialize_git_run(1) split: option.splits)
  then show "vercel_prod \<in> set (runs (events (setup_git_and_deploy env s)))"
    by (simp add: vercel_in_runs)
next
  fix e
  assume "git_failure env = Some e" and "is_Exception e"
  then show "Print (''  '' @ utf8 0x26A0 @ utf8 0xFE0F @ ''  Git setup failed: '' @ str_of env e)
           \<in> set (events (setup_git_and_deploy env s))"
    by (simp add: setup_git_and_deploy_run(3) initialize_git_run(3))
next
  fix e
  assume "git_failure env = None" and "github_failure env (object s) = Some e"
  then show "Print (''  '' @ utf8 0x26A0 @ utf8 0xFE0F
               @ ''  GitHub CLI not available - create repository manually'')
           \<in> set (events (setup_git_and_deploy env s))"
    by (simp add: setup_git_and_deploy_run(3) initialize_git_run(3) create_github_repo_run(3))
next
  assume "\<forall>e. git_failure env = Some e \<longrightarrow> is_Exception e"
    and v: "proc env vercel_prod = Raises FileNotFoundError"
  then have "result (initialize_git env s) = Inr ()"
    by (simp add: initialize_git_run(1) split: option.splits)
  then show "Print (''  '' @ utf8 0x274C @ '' Vercel CLI not found'')
           \<in> set (events (setup_git_and_deploy env s))"
    using v by (simp add: setup_git_and_deploy_run(3) deploy_to_vercel_run(3))
next
  fix rc out
  assume "\<forall>e. git_failure env = Some e \<longrightarrow> is_Exception e"
    and v: "proc env vercel_prod = Completed rc out" "rc \<noteq> 0"
  then have "result (initialize_git env s) = Inr ()"
    by (simp add: initialize_git_run(1) split: option.splits)
  then show "Print (''  '' @ utf8 0x274C @ '' Vercel deployment failed'')
           \<in> set (events (setup_git_and_deploy env s))"
    using v by (simp add: setup_git_and_deploy_run(3) deploy_to_vercel_run(3))
qed

theorem subprocess_failures_witness:
  "git_failure env_no_tools = Some FileNotFoundError
   \<and> is_Exception FileNotFoundError
   \<and> proc env_no_tools vercel_prod = Raises FileNotFoundError
   \<and> result (setup_git_and_deploy env_no_tools (fresh empty_disk)) = Inr ()
   \<and> vercel_prod \<in> set (runs (events (setup_git_and_deploy env_no_tools (fresh empty_disk))))
   \<and> Print (''  '' @ utf8 0x26A0 @ utf8 0xFE0F @ ''  Git setup failed: ''
         @ ''[Errno 2] No such file or directory'')
       \<in> set (events (setup_git_and_deploy env_no_tools (fresh empty_disk)))
   \<and> Print (''  '' @ utf8 0x274C @ '' Vercel CLI not found'')
       \<in> set (events (setup_git_and_deploy env_no_tools (fresh empty_disk)))"
proof -
  have g: "git_failure env_no_tools = Some FileNotFoundError"
    by (simp add: git_failure_def failure_of_def env_no_tools_def)
  have v: "proc env_no_tools vercel_prod = Raises FileNotFoundError"
    by (simp add: env_no_tools_def)
  have s: "str_of env_no_tools FileNotFoundError = ''[Errno 2] No such file or directory''"
    by (simp add: env_no_tools_def)
  show ?thesis
    using subprocess_failures [of env_no_tools "fresh empty_disk"] g v s by simp
qed

section \<open>The templates and the handlers they hold\<close>

text \<open>
  C6. Each of the fourteen \<open>get_...\<close> methods returns the same literal whatever the
  object is: it reads nothing of \<open>self\<close>, and it has no other argument, no state and no
  outside world to read.
\<close>

theorem templates_are_constant:
  "get_launch_api self = get_launch_api self'
   \<and> get_scaling_api self = get_scaling_api self'
   \<and> get_status_api self = get_status_api self'
   \<and> get_ai_learning_api self = get_ai_learning_api self'
   \<and> get_dashboard_html self = get_dashboard_html self'
   \<and> get_scaling_engine self = get_scaling_engine self'
   \<and> get_config_utils self = get_config_utils self'
   \<and> get_vercel_config self = get_vercel_config self'
   \<and> get_package_json self = get_package_json self'
   \<and> get_requirements self = get_requirements self'
   \<and> get_env_example self = get_env_example self'
   \<and> get_readme self = get_readme self'
   \<and> get_github_workflow self = get_github_workflow self'
   \<and> get_deploy_script self = get_deploy_script self'"
  by (intro conjI) (rule get_const)+

theorem templates_are_constant_witness:
  "get_launch_api init = get_launch_api (init\<lparr>project_name := ''other''\<rparr>)
   \<and> get_deploy_script init = get_deploy_script (init\<lparr>files_to_create := all_files init\<rparr>)"
  using templates_are_constant [of init "init\<lparr>project_name := ''other''\<rparr>"]
    templates_are_constant [of init "init\<lparr>files_to_create := all_files init\<rparr>"]
  by simp

text \<open>
  C4, as the specification states it, fails: \<open>do_GET\<close> of \<open>api/launch.py\<close> puts
  \<open>datetime.now().isoformat()\<close> in its answer, so two calls one second apart give two
  bodies. (\<open>do_POST\<close> of \<open>api/launch.py\<close> and \<open>do_GET\<close> of \<open>api/status.py\<close> do the
  same.)
\<close>

theorem timestamp_changes_the_body:
  "launch_do_GET some_request noon \<noteq> launch_do_GET some_request noon_and_a_second"
  by (simp add: launch_do_GET_def dumps_str_def noon_def noon_and_a_second_def)

text \<open>
  C4, amended. The body of the response of every handler ignores the request. For the
  handlers of \<open>api/scaling.py\<close> and \<open>api/ai-learning.py\<close> and for every \<open>do_OPTIONS\<close>
  (which writes no body) the body is the same on any two calls. For \<open>do_POST\<close> and
  \<open>do_GET\<close> of \<open>api/launch.py\<close> and \<open>do_GET\<close> of \<open>api/status.py\<close> the body is the same on
  any two calls that read the same time: it is constant but for one field that holds
  the time.
\<close>

theorem handlers_ignore_the_request:
  "launch_do_POST req now = launch_do_POST req' now
   \<and> launch_do_GET req now = launch_do_GET req' now
   \<and> status_do_GET req now = status_do_GET req' now
   \<and> launch_do_OPTIONS req now = launch_do_OPTIONS req' now'
   \<and> scaling_do_POST req now = scaling_do_POST req' now'
   \<and> scaling_do_GET req now = scaling_do_GET req' now'
   \<and> scaling_do_OPTIONS req now = scaling_do_OPTIONS req' now'
   \<and> status_do_OPTIONS req now = status_do_OPTIONS req' now'
   \<and> ai_learning_do_POST req now = ai_learning_do_POST req' now'
   \<and> ai_learning_do_GET req now = ai_learning_do_GET req' now'
   \<and> ai_learning_do_OPTIONS req now = ai_learning_do_OPTIONS req' now'"
  by (simp add: launch_do_POST_def launch_do_GET_def status_do_GET_def launch_do_OPTIONS_def
      scaling_do_POST_def scaling_do_GET_def scaling_do_OPTIONS_def status_do_OPTIONS_def
      ai_learning_do_POST_def ai_learning_do_GET_def ai_learning_do_OPTIONS_def)

theorem handlers_ignore_the_request_witness:
  "launch_do_GET some_request noon = launch_do_GET other_request noon
   \<and> scaling_do_POST some_request noon = scaling_do_POST other_request noon_and_a_second"
  using handlers_ignore_the_request [of some_request noon other_request noon_and_a_second]
  by simp

end
